(* ===== verification/Prelude.thy ===== *)
theory Prelude
  imports Main "HOL-Library.Sublist"
begin

text \<open>
  Shared vocabulary of the development: the JavaScript string operations the route
  module of \<^verbatim>\<open>src/app/routes/v2.js\<close> calls (\<^verbatim>\<open>toLowerCase\<close>, \<^verbatim>\<open>endsWith\<close>,
  \<^verbatim>\<open>replace\<close> with a string pattern), the character classes its regular expressions
  use, and the generic lemmas on lists and options that the component theories share.
  JavaScript strings are modelled as \<open>string\<close> (lists of 8-bit characters); the file
  names and query values the code handles are ASCII, and \<open>to_lower\<close> maps exactly the
  ASCII capitals, which is what \<^verbatim>\<open>toLowerCase\<close> does on ASCII input.
\<close>

named_theorems js_simps "evaluation rules of the JavaScript model"

subsection \<open>Characters\<close>

definition is_digit :: "char \<Rightarrow> bool" where
  "is_digit c \<longleftrightarrow> (48::nat) \<le> of_char c \<and> of_char c \<le> (57::nat)"

definition is_upper :: "char \<Rightarrow> bool" where
  "is_upper c \<longleftrightarrow> (65::nat) \<le> of_char c \<and> of_char c \<le> (90::nat)"

definition is_lower :: "char \<Rightarrow> bool" where
  "is_lower c \<longleftrightarrow> (97::nat) \<le> of_char c \<and> of_char c \<le> (122::nat)"

definition is_alnum :: "char \<Rightarrow> bool" where
  "is_alnum c \<longleftrightarrow> is_digit c \<or> is_upper c \<or> is_lower c"

definition lower_char :: "char \<Rightarrow> char" where
  "lower_char c = (if is_upper c then char_of (of_char c + (32::nat)) else c)"

subsection \<open>String operations of the JavaScript runtime\<close>

text \<open>\<^verbatim>\<open>s.toLowerCase()\<close> on ASCII strings.\<close>

definition to_lower :: "string \<Rightarrow> string" where
  "to_lower s = map lower_char s"

text \<open>\<^verbatim>\<open>s.endsWith(t)\<close>: the last \<open>length t\<close> characters of \<open>s\<close> are \<open>t\<close>.\<close>

definition ends_with :: "string \<Rightarrow> string \<Rightarrow> bool" where
  "ends_with s t \<longleftrightarrow> length t \<le> length s \<and> drop (length s - length t) s = t"

text \<open>
  \<^verbatim>\<open>s.replace(p, r)\<close> with a string pattern replaces the first occurrence of \<open>p\<close>
  only (an empty pattern matches at the start).
\<close>

fun replace_first :: "string \<Rightarrow> string \<Rightarrow> string \<Rightarrow> string" where
  "replace_first p r [] = (if p = [] then r else [])"
| "replace_first p r (c # cs) =
     (if prefix p (c # cs) then r @ drop (length p) (c # cs) else c # replace_first p r cs)"

subsection \<open>Upstream release data\<close>

text \<open>
  The objects of the GitHub releases API that the route module reads (\<^verbatim>\<open>asset.name\<close>,
  \<^verbatim>\<open>asset.browser_download_url\<close>, \<^verbatim>\<open>asset.size\<close>, \<^verbatim>\<open>release.tag_name\<close>,
  \<^verbatim>\<open>release.published_at\<close>, \<^verbatim>\<open>release.assets\<close>). The size field is named
  \<open>asset_size\<close>, since \<open>size\<close> is a constant of HOL.
\<close>

record gh_asset =
  name :: string
  browser_download_url :: string
  asset_size :: nat

record gh_release =
  tag_name :: string
  published_at :: string
  assets :: "gh_asset list"

subsection \<open>Lemmas on characters\<close>

lemma eq_char_of_iff: "c = char_of n \<longleftrightarrow> take_bit 8 n = of_char c"
  by (metis char_of_eq_iff)

lemmas [js_simps] = is_digit_def is_upper_def is_lower_def is_alnum_def lower_char_def
  char_of_eq_iff eq_char_of_iff

lemma of_char_lower_char_upper:
  assumes "is_upper c"
  shows "(of_char (lower_char c) :: nat) = of_char c + 32"
proof -
  have "(of_char c :: nat) + 32 < 256"
    using assms by (simp add: is_upper_def)
  then show ?thesis
    using assms by (simp add: lower_char_def)
qed

lemma is_lower_lower_char [simp]: "is_upper c \<Longrightarrow> is_lower (lower_char c)"
  by (simp add: of_char_lower_char_upper is_lower_def) (simp add: is_upper_def)

lemma not_upper_lower_char [simp]: "\<not> is_upper (lower_char c)"
  by (cases "is_upper c")
     (simp_all add: of_char_lower_char_upper is_upper_def lower_char_def)

lemma lower_char_idem [simp]: "lower_char (lower_char c) = lower_char c"
  by (simp add: lower_char_def [of "lower_char c"])

lemma lower_char_not_upper [simp]: "\<not> is_upper c \<Longrightarrow> lower_char c = c"
  by (simp add: lower_char_def)

lemma is_digit_not_upper: "is_digit c \<Longrightarrow> \<not> is_upper c"
  by (simp add: is_digit_def is_upper_def)

subsection \<open>Lemmas on the string operations\<close>

lemma to_lower_Nil [simp]: "to_lower [] = []"
  and to_lower_Cons [simp]: "to_lower (c # s) = lower_char c # to_lower s"
  and to_lower_append [simp]: "to_lower (s @ t) = to_lower s @ to_lower t"
  and length_to_lower [simp]: "length (to_lower s) = length s"
  by (simp_all add: to_lower_def)

lemma to_lower_idem [simp]: "to_lower (to_lower s) = to_lower s"
  by (induction s) simp_all

lemma to_lower_eq_Nil_iff [simp]: "to_lower s = [] \<longleftrightarrow> s = []"
  by (cases s) simp_all

lemma to_lower_no_upper: "\<forall>c \<in> set (to_lower s). \<not> is_upper c"
  by (induction s) simp_all

lemma to_lower_id: "\<forall>c \<in> set s. \<not> is_upper c \<Longrightarrow> to_lower s = s"
  by (induction s) simp_all

lemma ends_with_append [simp]: "ends_with (s @ t) t"
  by (simp add: ends_with_def)

lemma ends_with_iff_suffix: "ends_with s t \<longleftrightarrow> suffix t s"
proof
  assume "ends_with s t"
  then have "s = take (length s - length t) s @ t"
    by (metis append_take_drop_id ends_with_def)
  then show "suffix t s"
    by (metis suffix_def)
next
  assume "suffix t s"
  then show "ends_with s t"
    by (auto simp: suffix_def)
qed

lemma replace_first_absent: "\<not> (\<exists>u v. s = u @ p @ v) \<Longrightarrow> p \<noteq> [] \<Longrightarrow> replace_first p r s = s"
proof (induction s)
  case Nil
  then show ?case by simp
next
  case (Cons c cs)
  have "\<not> prefix p (c # cs)"
    using Cons.prems(1) by (metis append_Nil prefix_def)
  moreover have "\<not> (\<exists>u v. cs = u @ p @ v)"
    using Cons.prems(1) by (metis append_Cons)
  ultimately show ?case
    using Cons by simp
qed

lemma replace_first_Cons_prefix [simp]:
  "replace_first [c] [] (c # cs) = cs"
  by simp

subsection \<open>Lemmas on lists\<close>

lemma last_filter_last:
  "xs \<noteq> [] \<Longrightarrow> P (last xs) \<Longrightarrow> last (filter P xs) = last xs"
  by (induction xs rule: rev_induct) auto

lemma sorted_le_last:
  "sorted xs \<Longrightarrow> x \<in> set xs \<Longrightarrow> x \<le> last xs"
  by (induction xs rule: rev_induct) (auto simp: sorted_append)

lemma case_option_None_Some [simp]: "(case x of None \<Rightarrow> None | Some z \<Rightarrow> Some z) = x"
  by (cases x) simp_all

lemma sort_key_eq_Nil_iff: "sort_key f xs = [] \<longleftrightarrow> xs = []"
  by (metis length_0_conv length_sort)

end
