(* ===== verification/Regex.thy ===== *)
theory Regex
  imports Prelude
begin

text \<open>
  The part of the ECMAScript regular-expression engine that the file-name parsers of
  \<^verbatim>\<open>src/app/routes/v2.js\<close> rely on when they call \<^verbatim>\<open>name.match(new RegExp(regex))\<close>.
  The engine is not code of the repository; it is modelled from the ECMAScript
  specification (section RegExp, "Pattern Semantics"): a backtracking matcher in
  continuation-passing style, where a matcher takes a state and a continuation and
  returns the continuation's first success.
  \<^item> \<open>regex\<close>: the constructs the repository's patterns use: literal characters, the
    dot, character classes, concatenation, alternation, capture groups, the greedy
    \<^verbatim>\<open>?\<close> and the greedy \<^verbatim>\<open>*\<close> over one character atom (\<^verbatim>\<open>x+\<close> is \<open>x x*\<close>).
  \<^item> \<open>mc\<close>: the matcher (ECMAScript's \<^emph>\<open>CompileSubpattern\<close>); \<open>star_m\<close> is
    \<^emph>\<open>RepeatMatcher\<close> for a greedy star.
  \<^item> \<open>exec_at\<close> and \<open>str_match\<close>: \<^emph>\<open>RegExpBuiltinExec\<close> of a non-global
    expression: the match is tried at index 0, 1, \dots\ and the first success wins.
  \<^item> \<open>cap\<close>: the array element \<^verbatim>\<open>matched[n]\<close>, \<open>None\<close> for \<^verbatim>\<open>undefined\<close>.
\<close>

subsection \<open>Syntax\<close>

datatype atom = Chr char | AnyChar | Cls "(char \<times> char) list"

definition in_range :: "char \<Rightarrow> char \<times> char \<Rightarrow> bool" where
  "in_range c r \<longleftrightarrow> (of_char (fst r) :: nat) \<le> of_char c \<and> (of_char c :: nat) \<le> of_char (snd r)"

text \<open>\<^verbatim>\<open>.\<close> matches every character but the line terminators.\<close>

fun atom_ok :: "atom \<Rightarrow> char \<Rightarrow> bool" where
  "atom_ok (Chr d) c \<longleftrightarrow> c = d"
| "atom_ok AnyChar c \<longleftrightarrow> c \<noteq> CHR 0x0A \<and> c \<noteq> CHR 0x0D"
| "atom_ok (Cls rs) c \<longleftrightarrow> list_ex (in_range c) rs"

datatype regex =
    Empty
  | Atom atom
  | Seq regex regex
  | Alt regex regex
  | Group nat regex
  | Opt regex
  | Star atom

definition plus_re :: "atom \<Rightarrow> regex" where
  "plus_re a = Seq (Atom a) (Star a)"

fun lit :: "string \<Rightarrow> regex" where
  "lit [] = Empty"
| "lit (c # cs) = Seq (Atom (Chr c)) (lit cs)"

fun seqs :: "regex list \<Rightarrow> regex" where
  "seqs [] = Empty"
| "seqs (r # rs) = Seq r (seqs rs)"

fun rep :: "nat \<Rightarrow> atom \<Rightarrow> regex" where
  "rep 0 a = Empty"
| "rep (Suc n) a = Seq (Atom a) (rep n a)"

lemma rep_numeral [js_simps]: "rep (numeral n) a = Seq (Atom a) (rep (pred_numeral n) a)"
  by (simp add: numeral_eq_Suc)

text \<open>The capture indices of a pattern, in order.\<close>

fun groups :: "regex \<Rightarrow> nat list" where
  "groups (Seq r1 r2) = groups r1 @ groups r2"
| "groups (Alt r1 r2) = groups r1 @ groups r2"
| "groups (Group n r) = n # groups r"
| "groups (Opt r) = groups r"
| "groups _ = []"

subsection \<open>Matcher states\<close>

type_synonym caps = "nat \<Rightarrow> (nat \<times> nat) option"

text \<open>
  A state is the ECMAScript \<^emph>\<open>MatchState\<close>: the end index reached, the input left
  from there, and the captures (start and end index of each group that matched).
\<close>

record mstate =
  pos :: nat
  rest :: string
  mcaps :: caps

definition adv :: "nat \<Rightarrow> mstate \<Rightarrow> mstate" where
  "adv n s = s\<lparr>pos := pos s + n, rest := drop n (rest s)\<rparr>"

definition clear :: "nat list \<Rightarrow> caps \<Rightarrow> caps" where
  "clear ns cs = (\<lambda>n. if n \<in> set ns then None else cs n)"

subsection \<open>The backtracking matcher\<close>

text \<open>
  A greedy \<^verbatim>\<open>a*\<close>: one more character if it matches and the rest of the
  repetition with the continuation succeeds, else the continuation here. The empty-step
  check of \<^emph>\<open>RepeatMatcher\<close> never fires, since an atom always consumes a character.
\<close>

function star_m :: "atom \<Rightarrow> mstate \<Rightarrow> (mstate \<Rightarrow> 'a option) \<Rightarrow> 'a option" where
  "star_m a s k =
     (case rest s of
        [] \<Rightarrow> k s
      | c # cs \<Rightarrow>
          (if atom_ok a c
           then (case star_m a (s\<lparr>pos := Suc (pos s), rest := cs\<rparr>) k of
                   None \<Rightarrow> k s
                 | Some z \<Rightarrow> Some z)
           else k s))"
  by pat_completeness auto
termination
  by (relation "measure (\<lambda>(a, s, k). length (rest s))") auto

declare star_m.simps [simp del]

text \<open>
  \<open>Opt r\<close> is the greedy \<^verbatim>\<open>r?\<close>: the groups of \<open>r\<close> are reset, one iteration of
  \<open>r\<close> is tried first (rejected when it consumed nothing), then the continuation alone.
\<close>

fun mc :: "regex \<Rightarrow> mstate \<Rightarrow> (mstate \<Rightarrow> 'a option) \<Rightarrow> 'a option" where
  "mc Empty s k = k s"
| "mc (Atom a) s k =
     (case rest s of
        [] \<Rightarrow> None
      | c # cs \<Rightarrow> (if atom_ok a c then k (s\<lparr>pos := Suc (pos s), rest := cs\<rparr>) else None))"
| "mc (Seq r1 r2) s k = mc r1 s (\<lambda>s'. mc r2 s' k)"
| "mc (Alt r1 r2) s k = (case mc r1 s k of None \<Rightarrow> mc r2 s k | Some z \<Rightarrow> Some z)"
| "mc (Group n r) s k = mc r s (\<lambda>s'. k (s'\<lparr>mcaps := (mcaps s')(n \<mapsto> (pos s, pos s'))\<rparr>))"
| "mc (Opt r) s k =
     (case mc r (s\<lparr>mcaps := clear (groups r) (mcaps s)\<rparr>)
             (\<lambda>s'. if pos s' = pos s then None else k s') of
        None \<Rightarrow> k s
      | Some z \<Rightarrow> Some z)"
| "mc (Star a) s k = star_m a s k"

subsection \<open>The matcher as a machine with an explicit stack\<close>

text \<open>
  The same matcher with its continuations made first-order: a stack of frames, each
  a pattern still to match, the closing of a group opened at an index, or the
  empty-step check of a \<^verbatim>\<open>?\<close> entered at an index. The state is passed as its
  three components, so that every equation is keyed on the constructors of the input
  left; \<open>mm\<close> evaluates by \<open>simp\<close>, and \<open>mc_eq_mm\<close> below shows that it is
  the continuation semantics.
\<close>

datatype frame = FRe regex | FClose nat nat | FCheck nat

fun rw :: "regex \<Rightarrow> nat" where
  "rw (Seq r1 r2) = rw r1 + rw r2 + 1"
| "rw (Alt r1 r2) = rw r1 + rw r2 + 1"
| "rw (Group n r) = rw r + 2"
| "rw (Opt r) = rw r + 2"
| "rw _ = 1"

fun fw :: "frame \<Rightarrow> nat" where
  "fw (FRe r) = rw r"
| "fw _ = 1"

function mm :: "(mstate \<Rightarrow> 'a option) \<Rightarrow> frame list \<Rightarrow> nat \<Rightarrow> string \<Rightarrow> caps \<Rightarrow> 'a option" where
  "mm k [] i w m = k \<lparr>pos = i, rest = w, mcaps = m\<rparr>"
| "mm k (FRe Empty # fs) i w m = mm k fs i w m"
| "mm k (FRe (Atom a) # fs) i [] m = None"
| "mm k (FRe (Atom a) # fs) i (c # w) m = (if atom_ok a c then mm k fs (Suc i) w m else None)"
| "mm k (FRe (Seq r1 r2) # fs) i w m = mm k (FRe r1 # FRe r2 # fs) i w m"
| "mm k (FRe (Alt r1 r2) # fs) i w m =
     (case mm k (FRe r1 # fs) i w m of None \<Rightarrow> mm k (FRe r2 # fs) i w m | Some z \<Rightarrow> Some z)"
| "mm k (FRe (Group n r) # fs) i w m = mm k (FRe r # FClose n i # fs) i w m"
| "mm k (FRe (Opt r) # fs) i w m =
     (case mm k (FRe r # FCheck i # fs) i w (clear (groups r) m) of
        None \<Rightarrow> mm k fs i w m
      | Some z \<Rightarrow> Some z)"
| "mm k (FRe (Star a) # fs) i [] m = mm k fs i [] m"
| "mm k (FRe (Star a) # fs) i (c # w) m =
     (if atom_ok a c
      then (case mm k (FRe (Star a) # fs) (Suc i) w m of
              None \<Rightarrow> mm k fs i (c # w) m
            | Some z \<Rightarrow> Some z)
      else mm k fs i (c # w) m)"
| "mm k (FClose n j # fs) i w m = mm k fs i w (m(n \<mapsto> (j, i)))"
| "mm k (FCheck j # fs) i w m = (if i = j then None else mm k fs i w m)"
  by pat_completeness auto
termination
  by (relation "measures [\<lambda>(k, fs, i, w, m). length w, \<lambda>(k, fs, i, w, m). sum_list (map fw fs)]")
     auto

subsection \<open>Searching a string\<close>

record js_match =
  m_index :: nat
  m_end :: nat
  m_caps :: caps

definition init_state :: "nat \<Rightarrow> string \<Rightarrow> mstate" where
  "init_state i w = \<lparr>pos = i, rest = w, mcaps = Map.empty\<rparr>"

definition accept :: "nat \<Rightarrow> mstate \<Rightarrow> js_match option" where
  "accept i s = Some \<lparr>m_index = i, m_end = pos s, m_caps = mcaps s\<rparr>"

text \<open>\<open>exec_at r i w\<close>: the match tried from index \<open>i\<close>, where \<open>w\<close> is the input left.\<close>

fun exec_at :: "regex \<Rightarrow> nat \<Rightarrow> string \<Rightarrow> js_match option" where
  "exec_at r i [] = mc r (init_state i []) (accept i)"
| "exec_at r i (c # cs) =
     (case mc r (init_state i (c # cs)) (accept i) of
        None \<Rightarrow> exec_at r (Suc i) cs
      | Some m \<Rightarrow> Some m)"

definition str_match :: "regex \<Rightarrow> string \<Rightarrow> js_match option" where
  "str_match r w = exec_at r 0 w"

text \<open>\<^verbatim>\<open>matched[n]\<close>: the substring a group captured, \<open>None\<close> when it did not take part.\<close>

definition cap :: "string \<Rightarrow> js_match \<Rightarrow> nat \<Rightarrow> string option" where
  "cap w m n = map_option (\<lambda>(i, j). take (j - i) (drop i w)) (m_caps m n)"

subsection \<open>The stack machine is the continuation semantics\<close>

lemma mstate_eta [simp]: "\<lparr>pos = pos s, rest = rest s, mcaps = mcaps s\<rparr> = (s::mstate)"
  by (cases s) simp

lemma star_m_eq_mm:
  "star_m a s (\<lambda>s. mm k fs (pos s) (rest s) (mcaps s)) = mm k (FRe (Star a) # fs) (pos s) (rest s) (mcaps s)"
proof (induction "rest s" arbitrary: s)
  case Nil
  then show ?case by (simp add: star_m.simps [of a s])
next
  case (Cons c w)
  from Cons.hyps(2) [symmetric] Cons.hyps(1) [of "s\<lparr>pos := Suc (pos s), rest := w\<rparr>"]
  show ?case
    by (simp add: star_m.simps [of a s] split: option.split)
qed

lemma mc_eq_mm_frames:
  "mc r s (\<lambda>s. mm k fs (pos s) (rest s) (mcaps s)) = mm k (FRe r # fs) (pos s) (rest s) (mcaps s)"
proof (induction r arbitrary: s fs)
  case (Atom a)
  then show ?case by (cases "rest s") simp_all
next
  case (Group n r)
  have "mc (Group n r) s (\<lambda>s. mm k fs (pos s) (rest s) (mcaps s)) =
        mc r s (\<lambda>s'. mm k (FClose n (pos s) # fs) (pos s') (rest s') (mcaps s'))"
    by simp
  also have "\<dots> = mm k (FRe (Group n r) # fs) (pos s) (rest s) (mcaps s)"
    by (subst Group.IH) simp
  finally show ?case .
next
  case (Opt r)
  have "mc r (s\<lparr>mcaps := clear (groups r) (mcaps s)\<rparr>)
          (\<lambda>s'. if pos s' = pos s then None else mm k fs (pos s') (rest s') (mcaps s')) =
        mm k (FRe r # FCheck (pos s) # fs) (pos s) (rest s) (clear (groups r) (mcaps s))"
    using Opt.IH [of "s\<lparr>mcaps := clear (groups r) (mcaps s)\<rparr>" "FCheck (pos s) # fs"]
    by simp
  then show ?case by simp
next
  case (Star a)
  then show ?case by (simp add: star_m_eq_mm)
qed (simp_all split: option.split)

lemma mc_eq_mm: "mc r s k = mm k [FRe r] (pos s) (rest s) (mcaps s)"
proof -
  have "mc r s k = mc r s (\<lambda>s. mm k [] (pos s) (rest s) (mcaps s))"
    by simp
  also have "\<dots> = mm k [FRe r] (pos s) (rest s) (mcaps s)"
    by (rule mc_eq_mm_frames)
  finally show ?thesis .
qed

text \<open>
  Every call of the stack machine lies in its domain: each recursive call either consumes
  a character or replaces a frame by frames of smaller weight.
\<close>

lemma mm_terminates: "mm_dom (k, fs, i, w, m)"
proof -
  have "All mm_dom"
    by (relation "measures [\<lambda>(k, fs, i, w, m). length w, \<lambda>(k, fs, i, w, m). sum_list (map fw fs)]")
       auto
  then show ?thesis
    by blast
qed

text \<open>Evaluation of a search goes through the stack machine.\<close>

declare exec_at.simps [simp del]

lemma exec_at_Nil_mm [js_simps]:
  "exec_at r i [] = mm (accept i) [FRe r] i [] Map.empty"
  by (simp add: exec_at.simps mc_eq_mm init_state_def)

lemma exec_at_Cons_mm [js_simps]:
  "exec_at r i (c # cs) =
     (case mm (accept i) [FRe r] i (c # cs) Map.empty of
        None \<Rightarrow> exec_at r (Suc i) cs
      | Some m \<Rightarrow> Some m)"
  by (simp add: exec_at.simps mc_eq_mm init_state_def)

subsection \<open>Matching lemmas\<close>

text \<open>
  How the machine consumes the pieces the file-name patterns are built from: a literal,
  a fixed repetition, a greedy star that takes the longest run (when what follows
  succeeds there, or fails on any longer run), and a star that has to give back
  everything it took.
\<close>

lemma mm_lit: "mm k (FRe (lit u) # fs) i (u @ w) m = mm k fs (i + length u) w m"
  by (induction u arbitrary: i) simp_all

lemma mm_rep:
  "length u = n \<Longrightarrow> list_all (atom_ok a) u \<Longrightarrow> mm k (FRe (rep n a) # fs) i (u @ w) m = mm k fs (i + n) w m"
proof (induction n arbitrary: u i)
  case 0
  then show ?case by simp
next
  case (Suc n)
  then obtain c u' where "u = c # u'" by (cases u) auto
  with Suc show ?case by simp
qed

lemma mm_star_longest:
  assumes "list_all (atom_ok a) u" and "t = [] \<or> \<not> atom_ok a (hd t)"
    and "mm k fs (i + length u) t m = Some z"
  shows "mm k (FRe (Star a) # fs) i (u @ t) m = Some z"
  using assms
proof (induction u arbitrary: i)
  case Nil
  then show ?case by (cases t) auto
next
  case (Cons c u)
  then have "mm k (FRe (Star a) # fs) (Suc i) (u @ t) m = Some z" by simp
  with Cons.prems(1) show ?case by simp
qed

lemma mm_star_maximal:
  assumes "list_all (atom_ok a) u" and "t = [] \<or> \<not> atom_ok a (hd t)"
    and "\<forall>j x w'. atom_ok a x \<longrightarrow> mm k fs j (x # w') m = None"
  shows "mm k (FRe (Star a) # fs) i (u @ t) m = mm k fs (i + length u) t m"
  using assms
proof (induction u arbitrary: i)
  case Nil
  then show ?case by (cases t) auto
next
  case (Cons c u)
  then have "mm k (FRe (Star a) # fs) (Suc i) (u @ t) m = mm k fs (Suc i + length u) t m" by simp
  with Cons.prems show ?case by (simp split: option.split)
qed

lemma mm_star_backoff:
  assumes "list_all (atom_ok a) w"
    and "\<forall>j. 0 < j \<and> j \<le> length w \<longrightarrow> mm k fs (i + j) (drop j w) m = None"
  shows "mm k (FRe (Star a) # fs) i w m = mm k fs i w m"
  using assms
proof (induction w arbitrary: i)
  case Nil
  then show ?case by simp
next
  case (Cons c w)
  have "\<forall>j. 0 < j \<and> j \<le> length w \<longrightarrow> mm k fs (Suc i + j) (drop j w) m = None"
  proof (intro allI impI)
    fix j assume "0 < j \<and> j \<le> length w"
    then show "mm k fs (Suc i + j) (drop j w) m = None"
      using Cons.prems(2) [rule_format, of "Suc j"] by simp
  qed
  with Cons.IH Cons.prems(1) have "mm k (FRe (Star a) # fs) (Suc i) w m = mm k fs (Suc i) w m"
    by simp
  moreover have "mm k fs (Suc i) w m = None"
    using Cons.prems(2) [rule_format, of 1] by simp
  ultimately show ?case using Cons.prems(1) by simp
qed

lemma groups_plus_re [simp]: "groups (plus_re a) = []"
  by (simp add: plus_re_def)

lemma mm_plus_maximal:
  assumes "u \<noteq> []" "list_all (atom_ok a) u" and "t = [] \<or> \<not> atom_ok a (hd t)"
    and "\<forall>j x w'. atom_ok a x \<longrightarrow> mm k fs j (x # w') m = None"
  shows "mm k (FRe (plus_re a) # fs) i (u @ t) m = mm k fs (i + length u) t m"
proof -
  obtain c u' where u: "u = c # u'" using assms(1) by (cases u) auto
  have "mm k (FRe (Star a) # fs) (Suc i) (u' @ t) m = mm k fs (Suc i + length u') t m"
    using assms(2-4) u by (intro mm_star_maximal) simp_all
  with u assms(2) show ?thesis by (simp add: plus_re_def)
qed

lemma mm_group_plus_maximal:
  assumes "u \<noteq> []" "list_all (atom_ok a) u" and "t = [] \<or> \<not> atom_ok a (hd t)"
    and "\<forall>j x w' m'. atom_ok a x \<longrightarrow> mm k fs j (x # w') m' = None"
  shows "mm k (FRe (Group n (plus_re a)) # fs) i (u @ t) m = mm k fs (i + length u) t (m(n \<mapsto> (i, i + length u)))"
proof -
  obtain c u' where u: "u = c # u'" using assms(1) by (cases u) auto
  have "\<forall>j x w'. atom_ok a x \<longrightarrow> mm k (FClose n i # fs) j (x # w') m = None"
    using assms(4) by simp
  then have "mm k (FRe (Star a) # FClose n i # fs) (Suc i) (u' @ t) m =
             mm k (FClose n i # fs) (Suc i + length u') t m"
    using assms(2,3) u by (intro mm_star_maximal) simp_all
  with u assms(2) show ?thesis by (simp add: plus_re_def)
qed

lemma mm_group_plus_longest:
  assumes "u \<noteq> []" "list_all (atom_ok a) u" and "t = [] \<or> \<not> atom_ok a (hd t)"
    and "mm k fs (i + length u) t (m(n \<mapsto> (i, i + length u))) = Some z"
  shows "mm k (FRe (Group n (plus_re a)) # fs) i (u @ t) m = Some z"
proof -
  obtain c u' where u: "u = c # u'" using assms(1) by (cases u) auto
  have "mm k (FRe (Star a) # FClose n i # fs) (Suc i) (u' @ t) m = Some z"
    using assms(2,3,4) u by (intro mm_star_longest) simp_all
  with u assms(2) show ?thesis by (simp add: plus_re_def)
qed
lemma mm_group_plus_eq:
  assumes "u \<noteq> []" "list_all (atom_ok a) u" "t = [] \<or> \<not> atom_ok a (hd t)"
    and "mm k fs (i + length u) t (m(n \<mapsto> (i, i + length u))) \<noteq> None"
  shows "mm k (FRe (plus_re a) # FClose n i # fs) i (u @ t) m =
         mm k fs (i + length u) t (m(n \<mapsto> (i, i + length u)))"
  using assms mm_group_plus_longest [OF assms(1-3)] by auto

lemma mm_star_skip:
  assumes "list_all (atom_ok a) r" "mm k (FRe (Star a) # fs) (i + length r) w m \<noteq> None"
  shows "mm k (FRe (Star a) # fs) i (r @ w) m = mm k (FRe (Star a) # fs) (i + length r) w m"
  using assms
proof (induction r arbitrary: i)
  case Nil
  then show ?case by simp
next
  case (Cons c r)
  then have "mm k (FRe (Star a) # fs) (Suc i) (r @ w) m = mm k (FRe (Star a) # fs) (Suc i + length r) w m"
    by simp
  with Cons.prems show ?case
    by (auto split: option.split)
qed

lemma mm_Chr_drop_absent:
  assumes "c \<notin> set w"
  shows "mm k (FRe (Atom (Chr c)) # fs) i (drop j w) m = None"
proof (cases "drop j w")
  case (Cons x w')
  then have "x \<in> set w" by (metis in_set_dropD list.set_intros(1))
  with assms Cons show ?thesis by auto
qed simp

text \<open>
  A \<^verbatim>\<open>.*\<close> followed by a separator \<open>c\<close> that occurs once more in the input stops
  right before that last occurrence.
\<close>

lemma mm_star_sep_last:
  assumes "list_all (atom_ok a) (c # w)" "c \<notin> set w"
  shows "mm k (FRe (Star a) # FRe (Seq (Atom (Chr c)) r) # fs) i (c # w) m = mm k (FRe r # fs) (Suc i) w m"
proof -
  have "\<forall>j. 0 < j \<and> j \<le> length (c # w) \<longrightarrow>
          mm k (FRe (Seq (Atom (Chr c)) r) # fs) (i + j) (drop j (c # w)) m = None"
  proof (intro allI impI)
    fix j assume "0 < j \<and> j \<le> length (c # w)"
    then obtain j' where "j = Suc j'" by (cases j) auto
    then show "mm k (FRe (Seq (Atom (Chr c)) r) # fs) (i + j) (drop j (c # w)) m = None"
      using mm_Chr_drop_absent [OF assms(2)] by simp
  qed
  then have "mm k (FRe (Star a) # FRe (Seq (Atom (Chr c)) r) # fs) i (c # w) m =
             mm k (FRe (Seq (Atom (Chr c)) r) # fs) i (c # w) m"
    using assms(1) by (intro mm_star_backoff) simp_all
  then show ?thesis
    by simp
qed

lemma mm_star_skip_sep_last:
  assumes "list_all (atom_ok a) (f @ c # w)" "c \<notin> set w"
    and "mm k (FRe r # fs) (Suc (i + length f)) w m \<noteq> None"
  shows "mm k (FRe (Star a) # FRe (Seq (Atom (Chr c)) r) # fs) i (f @ c # w) m =
         mm k (FRe r # fs) (Suc (i + length f)) w m"
proof -
  have last: "mm k (FRe (Star a) # FRe (Seq (Atom (Chr c)) r) # fs) (i + length f) (c # w) m =
              mm k (FRe r # fs) (Suc (i + length f)) w m"
    using assms(1,2) by (intro mm_star_sep_last) simp_all
  have "list_all (atom_ok a) f"
    using assms(1) by simp
  from mm_star_skip [OF this, of k "FRe (Seq (Atom (Chr c)) r) # fs" i "c # w" m] last assms(3)
  show ?thesis
    by simp
qed

text \<open>A pattern that ends in \<open>a*\<close> ends its match after the longest run of \<open>a\<close>.\<close>

lemma mm_star_accept:
  "mm (accept j) [FRe (Star a), FRe Empty] i w m =
     Some \<lparr>m_index = j, m_end = i + length (takeWhile (atom_ok a) w), m_caps = m\<rparr>"
  by (induction w arbitrary: i) (simp_all add: accept_def)

end
