(* ===== verification/FileInfo.thy ===== *)
theory FileInfo
  imports Regex
begin

text \<open>
  The file-name parser of \<^verbatim>\<open>src/app/routes/v2.js\<close>: the three naming conventions
  of release assets, each a regular expression (\<^verbatim>\<open>getNewStyleFileInfo\<close>,
  \<^verbatim>\<open>getOldStyleFileInfo\<close>, \<^verbatim>\<open>getAmberStyleFileInfo\<close>), run through the
  regular-expression engine of \<^theory_text>\<open>Regex\<close>, and the object each builds from
  the captures. A parser returns \<open>None\<close> where the code returns \<^verbatim>\<open>null\<close>.
  Their properties are proved in \<^theory_text>\<open>FileNames\<close> and \<^theory_text>\<open>Normalizer\<close>.
\<close>

subsection \<open>The patterns\<close>

definition digit_cls :: atom where
  "digit_cls = Cls [(CHR ''0'', CHR ''9'')]"

definition alnum_cls :: atom where
  "alnum_cls = Cls [(CHR ''0'', CHR ''9''), (CHR ''a'', CHR ''z''), (CHR ''A'', CHR ''Z'')]"

abbreviation ch :: "char \<Rightarrow> regex" where
  "ch c \<equiv> Atom (Chr c)"

text \<open>\<^verbatim>\<open>[0-9]{4}-[0-9]{2}-[0-9]{2}-[0-9]{2}-[0-9]{2}\<close>\<close>

definition new_timestamp_re :: regex where
  "new_timestamp_re = seqs [rep 4 digit_cls, ch CHR ''-'', rep 2 digit_cls, ch CHR ''-'',
     rep 2 digit_cls, ch CHR ''-'', rep 2 digit_cls, ch CHR ''-'', rep 2 digit_cls]"

text \<open>\<^verbatim>\<open>[0-9]{4}[0-9]{2}[0-9]{2}[0-9]{2}[0-9]{2}\<close>\<close>

definition old_timestamp_re :: regex where
  "old_timestamp_re = seqs [rep 4 digit_cls, rep 2 digit_cls, rep 2 digit_cls, rep 2 digit_cls,
     rep 2 digit_cls]"

text \<open>\<^verbatim>\<open>.(tar.gz|zip)\<close> with the group numbered \<open>n\<close>; both dots are unescaped and match
  any character.\<close>

definition extension_re :: "nat \<Rightarrow> regex" where
  "extension_re n = seqs [Atom AnyChar,
     Group n (Alt (seqs [lit ''tar'', Atom AnyChar, lit ''gz'']) (lit ''zip''))]"

text \<open>
  \<^verbatim>\<open>OpenJDK([0-9]+)U?(-jre)?_([0-9a-zA-Z]+)_([0-9a-zA-Z]+)_([0-9a-zA-Z]+).*_(TS).(tar.gz|zip)\<close>,
  \<open>TS\<close> the timestamp pattern.
\<close>

definition new_style_re :: regex where
  "new_style_re = seqs [lit ''OpenJDK'', Group 1 (plus_re digit_cls), Opt (ch CHR ''U''),
     Opt (Group 2 (lit ''-jre'')), ch CHR ''_'', Group 3 (plus_re alnum_cls), ch CHR ''_'',
     Group 4 (plus_re alnum_cls), ch CHR ''_'', Group 5 (plus_re alnum_cls), Star AnyChar, ch CHR ''_'',
     Group 6 new_timestamp_re, extension_re 7]"

text \<open>\<^verbatim>\<open>OpenJDK([0-9]+)U?(-[0-9a-zA-Z]+)?_([0-9a-zA-Z]+)_([0-9a-zA-Z]+).*_(TS).(tar.gz|zip)\<close>\<close>

definition old_style_re :: regex where
  "old_style_re = seqs [lit ''OpenJDK'', Group 1 (plus_re digit_cls), Opt (ch CHR ''U''),
     Opt (Group 2 (Seq (ch CHR ''-'') (plus_re alnum_cls))), ch CHR ''_'', Group 3 (plus_re alnum_cls),
     ch CHR ''_'', Group 4 (plus_re alnum_cls), Star AnyChar, ch CHR ''_'', Group 5 old_timestamp_re,
     extension_re 6]"

text \<open>\<^verbatim>\<open>OpenJDK-AMBER_([0-9a-zA-Z]+)_([0-9a-zA-Z]+)_(TS).(tar.gz|zip)\<close>\<close>

definition amber_style_re :: regex where
  "amber_style_re = seqs [lit ''OpenJDK-AMBER_'', Group 1 (plus_re alnum_cls), ch CHR ''_'',
     Group 2 (plus_re alnum_cls), ch CHR ''_'', Group 3 old_timestamp_re, extension_re 4]"

text \<open>\<^verbatim>\<open>jdk-([0-9]+).*\<close>, run on the release's tag.\<close>

definition amber_tag_re :: regex where
  "amber_tag_re = seqs [lit ''jdk-'', Group 1 (plus_re digit_cls), Star AnyChar]"

lemmas pattern_defs [js_simps] = digit_cls_def alnum_cls_def new_timestamp_re_def
  old_timestamp_re_def extension_re_def new_style_re_def old_style_re_def amber_style_re_def
  amber_tag_re_def plus_re_def

lemmas [js_simps] = str_match_def accept_def cap_def in_range_def clear_def

subsection \<open>The parsers\<close>

text \<open>The object a parser returns; the fields keep the code's names with a prefix.\<close>

record file_info =
  fi_version :: string
  fi_binaryType :: string
  fi_arch :: string
  fi_os :: string
  fi_openjdk_impl :: string
  fi_tstamp :: string
  fi_extension :: string

definition getNewStyleFileInfo :: "string \<Rightarrow> file_info option" where
  "getNewStyleFileInfo nm =
     (case str_match new_style_re nm of
        None \<Rightarrow> None
      | Some m \<Rightarrow> Some
          \<lparr>fi_version = the (cap nm m 1),
           fi_binaryType = (if cap nm m 2 \<noteq> None then ''jre'' else ''jdk''),
           fi_arch = the (cap nm m 3),
           fi_os = the (cap nm m 4),
           fi_openjdk_impl = the (cap nm m 5),
           fi_tstamp = the (cap nm m 6),
           fi_extension = the (cap nm m 7)\<rparr>)"

definition getOldStyleFileInfo :: "string \<Rightarrow> file_info option" where
  "getOldStyleFileInfo nm =
     (case str_match old_style_re nm of
        None \<Rightarrow> None
      | Some m \<Rightarrow>
          (let impl = (case cap nm m 2 of None \<Rightarrow> ''hotspot'' | Some g \<Rightarrow> replace_first ''-'' '''' g)
           in Some
             \<lparr>fi_version = the (cap nm m 1),
              fi_binaryType = ''jdk'',
              fi_arch = the (cap nm m 3),
              fi_os = the (cap nm m 4),
              fi_openjdk_impl = impl,
              fi_tstamp = the (cap nm m 5),
              fi_extension = the (cap nm m 6)\<rparr>))"

definition getAmberStyleFileInfo :: "string \<Rightarrow> gh_release \<Rightarrow> file_info option" where
  "getAmberStyleFileInfo nm release =
     (case str_match amber_style_re nm of
        None \<Rightarrow> None
      | Some m \<Rightarrow>
          (case str_match amber_tag_re (tag_name release) of
             None \<Rightarrow> None
           | Some v \<Rightarrow> Some
               \<lparr>fi_version = the (cap (tag_name release) v 1),
                fi_binaryType = ''jdk'',
                fi_arch = the (cap nm m 1),
                fi_os = the (cap nm m 2),
                fi_openjdk_impl = ''hotspot'',
                fi_tstamp = the (cap nm m 3),
                fi_extension = the (cap nm m 4)\<rparr>))"

end
