(* ===== verification/Normalizer.thy ===== *)
theory Normalizer
  imports FileInfo
begin

text \<open>
  The normalizer of \<^verbatim>\<open>src/app/routes/v2.js\<close>: \<^verbatim>\<open>formBinaryAssetInfo\<close> tries the
  three parsers in order and builds a binary record from the first that succeeds;
  \<^verbatim>\<open>githubReleaseToAdoptRelease\<close> drops the checksum files of a release and the
  assets no parser accepts; \<^verbatim>\<open>githubDataToAdoptApi\<close> drops the releases left
  without binaries. The lemmas show the invariant the rest of the route relies on
  (every release has a binary), what a binary's fields are, which releases survive,
  and the well-formedness \<open>binary_wf\<close> of every binary the normalizer builds.
\<close>

subsection \<open>Records\<close>

record binary =
  os :: string
  architecture :: string
  binaryType :: string
  openjdk_impl :: string
  binary_name :: string
  binary_link :: string
  binary_size :: nat
  checksum_link :: string
  version :: string

record adopt_release =
  release_name :: string
  timestamp :: string
  binaries :: "binary list"

subsection \<open>Operations\<close>

text \<open>The three parsers in the code's order: each runs only when the ones before failed.\<close>

definition formBinaryAssetInfo :: "gh_asset \<Rightarrow> gh_release \<Rightarrow> binary option" where
  "formBinaryAssetInfo asset release =
     (let fileInfo = getNewStyleFileInfo (name asset);
          fileInfo = (if fileInfo = None then getOldStyleFileInfo (name asset) else fileInfo);
          fileInfo = (if fileInfo = None then getAmberStyleFileInfo (name asset) release else fileInfo)
      in case fileInfo of
           None \<Rightarrow> None
         | Some fi \<Rightarrow> Some
             \<lparr>os = to_lower (fi_os fi),
              architecture = to_lower (fi_arch fi),
              binaryType = fi_binaryType fi,
              openjdk_impl = to_lower (fi_openjdk_impl fi),
              binary_name = name asset,
              binary_link = browser_download_url asset,
              binary_size = asset_size asset,
              checksum_link = browser_download_url asset @ ''.sha256.txt'',
              version = fi_version fi\<rparr>)"

definition githubReleaseToAdoptRelease :: "gh_release \<Rightarrow> adopt_release" where
  "githubReleaseToAdoptRelease release =
     (let binaries =
        map the
          (filter (\<lambda>b. b \<noteq> None)
            (map (\<lambda>asset. formBinaryAssetInfo asset release)
              (filter (\<lambda>asset. \<not> ends_with (name asset) ''sha256.txt'') (assets release))))
      in \<lparr>release_name = tag_name release, timestamp = published_at release, binaries = binaries\<rparr>)"

definition githubDataToAdoptApi :: "gh_release list \<Rightarrow> adopt_release list" where
  "githubDataToAdoptApi githubApiData =
     filter (\<lambda>release. length (binaries release) > 0)
       (map githubReleaseToAdoptRelease githubApiData)"

subsection \<open>Shared notions\<close>

text \<open>The invariant: every release carries at least one binary.\<close>

definition all_nonempty :: "adopt_release list \<Rightarrow> bool" where
  "all_nonempty rs \<longleftrightarrow> (\<forall>r \<in> set rs. binaries r \<noteq> [])"

text \<open>An asset the normalizer keeps: not a checksum file, and accepted by a parser.\<close>

definition kept_asset :: "gh_release \<Rightarrow> gh_asset \<Rightarrow> bool" where
  "kept_asset release asset \<longleftrightarrow>
     \<not> ends_with (name asset) ''sha256.txt'' \<and> formBinaryAssetInfo asset release \<noteq> None"

text \<open>
  Well-formed binaries: OS, architecture and implementation without capitals, binary
  type \<^verbatim>\<open>jdk\<close> or \<^verbatim>\<open>jre\<close>, and the checksum link next to the binary's link.
\<close>

definition no_upper :: "string \<Rightarrow> bool" where
  "no_upper s \<longleftrightarrow> list_all (\<lambda>c. \<not> is_upper c) s"

definition binary_wf :: "binary \<Rightarrow> bool" where
  "binary_wf b \<longleftrightarrow> no_upper (os b) \<and> no_upper (architecture b) \<and> no_upper (openjdk_impl b) \<and>
     (binaryType b = ''jdk'' \<or> binaryType b = ''jre'') \<and> checksum_link b = binary_link b @ ''.sha256.txt''"

lemma map_the_filter_kept:
  "map the (filter (\<lambda>b. b \<noteq> None) (map (\<lambda>a. formBinaryAssetInfo a release)
     (filter (\<lambda>a. \<not> ends_with (name a) ''sha256.txt'') xs))) =
   map (\<lambda>a. the (formBinaryAssetInfo a release)) (filter (kept_asset release) xs)"
  by (induction xs) (auto simp: kept_asset_def)

lemma binaries_githubReleaseToAdoptRelease:
  "binaries (githubReleaseToAdoptRelease release) =
     map (\<lambda>a. the (formBinaryAssetInfo a release)) (filter (kept_asset release) (assets release))"
  unfolding githubReleaseToAdoptRelease_def Let_def map_the_filter_kept by simp

lemma formBinaryAssetInfo_Some:
  assumes "formBinaryAssetInfo asset release = Some b"
  shows "binary_name b = name asset \<and> binary_link b = browser_download_url asset \<and>
         binary_size b = asset_size asset \<and>
         checksum_link b = browser_download_url asset @ ''.sha256.txt'' \<and>
         os b = to_lower (os b) \<and> architecture b = to_lower (architecture b) \<and>
         openjdk_impl b = to_lower (openjdk_impl b)"
  using assms by (auto simp: formBinaryAssetInfo_def Let_def split: option.splits if_splits)

text \<open>An asset is unparseable exactly when all three parsers reject its name.\<close>

lemma formBinaryAssetInfo_None_iff:
  "formBinaryAssetInfo asset release = None \<longleftrightarrow>
     getNewStyleFileInfo (name asset) = None \<and> getOldStyleFileInfo (name asset) = None \<and>
     getAmberStyleFileInfo (name asset) release = None"
  by (simp add: formBinaryAssetInfo_def Let_def split: option.split)

lemma release_name_githubReleaseToAdoptRelease [simp]:
  "release_name (githubReleaseToAdoptRelease release) = tag_name release"
  and timestamp_githubReleaseToAdoptRelease [simp]:
  "timestamp (githubReleaseToAdoptRelease release) = published_at release"
  by (simp_all add: githubReleaseToAdoptRelease_def Let_def)

lemma binaries_githubReleaseToAdoptRelease_Nil_iff:
  "binaries (githubReleaseToAdoptRelease release) = [] \<longleftrightarrow> \<not> (\<exists>a \<in> set (assets release). kept_asset release a)"
  by (simp add: binaries_githubReleaseToAdoptRelease filter_empty_conv)

lemma all_nonempty_filter_binaries [simp]:
  "all_nonempty (filter (\<lambda>r. binaries r \<noteq> []) rs)"
  by (simp add: all_nonempty_def)

text \<open>Where a binary of the normalized data comes from.\<close>

lemma githubDataToAdoptApi_origin:
  assumes "r \<in> set (githubDataToAdoptApi githubApiData)" and "b \<in> set (binaries r)"
  obtains gr a where "gr \<in> set githubApiData" "a \<in> set (assets gr)" "release_name r = tag_name gr"
    "kept_asset gr a" "formBinaryAssetInfo a gr = Some b"
proof -
  obtain gr where gr: "gr \<in> set githubApiData" and r: "r = githubReleaseToAdoptRelease gr"
    using assms(1) by (auto simp: githubDataToAdoptApi_def)
  obtain a where "a \<in> set (assets gr)" "kept_asset gr a" "formBinaryAssetInfo a gr = Some b"
    using assms(2) r by (auto simp: binaries_githubReleaseToAdoptRelease kept_asset_def)
  with gr r that show ?thesis by simp
qed

lemma no_upper_to_lower [simp]: "no_upper (to_lower s)"
  using to_lower_no_upper [of s] by (simp add: no_upper_def list_all_iff)

lemma parsers_binaryType:
  shows "getNewStyleFileInfo nm = Some fi \<Longrightarrow> fi_binaryType fi = ''jdk'' \<or> fi_binaryType fi = ''jre''"
    and "getOldStyleFileInfo nm = Some fi \<Longrightarrow> fi_binaryType fi = ''jdk''"
    and "getAmberStyleFileInfo nm rel = Some fi \<Longrightarrow> fi_binaryType fi = ''jdk''"
proof -
  assume "getNewStyleFileInfo nm = Some fi"
  then obtain m where "fi_binaryType fi = (if cap nm m 2 \<noteq> None then ''jre'' else ''jdk'')"
    by (auto simp: getNewStyleFileInfo_def split: option.splits)
  then show "fi_binaryType fi = ''jdk'' \<or> fi_binaryType fi = ''jre''"
    by simp
next
  assume "getOldStyleFileInfo nm = Some fi"
  then show "fi_binaryType fi = ''jdk''"
    by (auto simp: getOldStyleFileInfo_def Let_def split: option.splits)
next
  assume "getAmberStyleFileInfo nm rel = Some fi"
  then show "fi_binaryType fi = ''jdk''"
    by (auto simp: getAmberStyleFileInfo_def split: option.splits)
qed

lemma formBinaryAssetInfo_wf: "formBinaryAssetInfo a r = Some b \<Longrightarrow> binary_wf b"
  using parsers_binaryType [of "name a"]
  by (auto simp: formBinaryAssetInfo_def binary_wf_def Let_def split: if_splits option.splits)

lemma githubDataToAdoptApi_wf: "list_all (\<lambda>r. list_all binary_wf (binaries r)) (githubDataToAdoptApi data)"
  by (fastforce simp: githubDataToAdoptApi_def binaries_githubReleaseToAdoptRelease list_all_iff kept_asset_def
      dest: formBinaryAssetInfo_wf)

subsection \<open>A fixture\<close>

text \<open>A release with one binary in the current naming convention and its checksum file.\<close>

definition example_asset :: gh_asset where
  "example_asset = \<lparr>name = ''OpenJDK8U_x64_linux_hotspot_2020-01-01-00-00.tar.gz'',
     browser_download_url = ''u1'', asset_size = 100\<rparr>"

definition example_checksum :: gh_asset where
  "example_checksum = \<lparr>name = ''OpenJDK8U_x64_linux_hotspot_2020-01-01-00-00.tar.gz.sha256.txt'',
     browser_download_url = ''u2'', asset_size = 1\<rparr>"

definition example_release :: gh_release where
  "example_release = \<lparr>tag_name = ''jdk8u-2020-01-01'', published_at = ''2020-01-01T00:00:00Z'',
     assets = [example_asset, example_checksum]\<rparr>"

definition example_binary :: binary where
  "example_binary = \<lparr>os = ''linux'', architecture = ''x64'', binaryType = ''jdk'',
     openjdk_impl = ''hotspot'', binary_name = ''OpenJDK8U_x64_linux_hotspot_2020-01-01-00-00.tar.gz'',
     binary_link = ''u1'', binary_size = 100, checksum_link = ''u1.sha256.txt'', version = ''8''\<rparr>"

lemma formBinaryAssetInfo_example:
  "formBinaryAssetInfo example_asset example_release = Some example_binary"
  by (simp add: formBinaryAssetInfo_def getNewStyleFileInfo_def example_asset_def example_binary_def
      js_simps)

lemma githubDataToAdoptApi_example:
  "githubDataToAdoptApi [example_release] =
     [\<lparr>release_name = ''jdk8u-2020-01-01'', timestamp = ''2020-01-01T00:00:00Z'',
       binaries = [example_binary]\<rparr>]"
proof -
  have "\<not> ends_with (name example_asset) ''sha256.txt''"
    and "ends_with (name example_checksum) ''sha256.txt''"
    by (simp_all add: example_asset_def example_checksum_def ends_with_def)
  then show ?thesis
    by (simp add: githubDataToAdoptApi_def githubReleaseToAdoptRelease_def example_release_def
        formBinaryAssetInfo_example [unfolded example_release_def])
qed

subsection \<open>Properties\<close>

text \<open>
  C4. Every release the normalizer returns carries at least one binary: the invariant
  that \<^verbatim>\<open>redirectToBinary\<close> relies on when it reads \<^verbatim>\<open>binaries[0]\<close>.
\<close>

theorem githubDataToAdoptApi_nonempty: "all_nonempty (githubDataToAdoptApi githubApiData)"
  by (simp add: githubDataToAdoptApi_def)

text \<open>
  C14. The releases that survive normalisation are exactly the upstream releases with at
  least one kept asset (not a checksum file, accepted by a parser), in upstream order,
  under their tag names: a release whose assets are all unparseable or checksum files
  disappears.
\<close>

theorem githubDataToAdoptApi_release_names:
  "map release_name (githubDataToAdoptApi githubApiData) =
     map tag_name (filter (\<lambda>r. \<exists>a \<in> set (assets r). kept_asset r a) githubApiData)"
  by (induction githubApiData)
     (auto simp: githubDataToAdoptApi_def binaries_githubReleaseToAdoptRelease_Nil_iff)

text \<open>
  C13. Every binary of the normalized data comes from a kept asset of the upstream release
  of the same name: its name, link, size and checksum link are the asset's (the checksum
  link is the download link with \<^verbatim>\<open>.sha256.txt\<close> appended), it is never a checksum
  file, and its OS, architecture and implementation are in lower case.
\<close>

theorem githubDataToAdoptApi_binary_origin:
  assumes "r \<in> set (githubDataToAdoptApi githubApiData)" and "b \<in> set (binaries r)"
  shows "\<exists>gr \<in> set githubApiData. \<exists>a \<in> set (assets gr).
           release_name r = tag_name gr \<and> kept_asset gr a \<and>
           \<not> ends_with (binary_name b) ''sha256.txt'' \<and>
           binary_name b = name a \<and> binary_link b = browser_download_url a \<and>
           binary_size b = asset_size a \<and>
           checksum_link b = browser_download_url a @ ''.sha256.txt'' \<and>
           to_lower (os b) = os b \<and> to_lower (architecture b) = architecture b \<and>
           to_lower (openjdk_impl b) = openjdk_impl b"
proof -
  obtain gr a where "gr \<in> set githubApiData" "a \<in> set (assets gr)" "release_name r = tag_name gr"
    and a: "kept_asset gr a" and b: "formBinaryAssetInfo a gr = Some b"
    using githubDataToAdoptApi_origin [OF assms] by blast
  moreover have "\<not> ends_with (name a) ''sha256.txt''"
    using a by (simp add: kept_asset_def)
  ultimately show ?thesis
    using formBinaryAssetInfo_Some [OF b] by metis
qed

lemma githubDataToAdoptApi_binary_origin_witness:
  "\<lparr>release_name = ''jdk8u-2020-01-01'', timestamp = ''2020-01-01T00:00:00Z'',
      binaries = [example_binary]\<rparr> \<in> set (githubDataToAdoptApi [example_release]) \<and>
   example_binary \<in> set [example_binary] \<and>
   (\<exists>gr \<in> set [example_release]. \<exists>a \<in> set (assets gr).
           ''jdk8u-2020-01-01'' = tag_name gr \<and> kept_asset gr a \<and>
           \<not> ends_with (binary_name example_binary) ''sha256.txt'' \<and>
           binary_name example_binary = name a \<and>
           binary_link example_binary = browser_download_url a \<and>
           binary_size example_binary = asset_size a \<and>
           checksum_link example_binary = browser_download_url a @ ''.sha256.txt'' \<and>
           to_lower (os example_binary) = os example_binary \<and>
           to_lower (architecture example_binary) = architecture example_binary \<and>
           to_lower (openjdk_impl example_binary) = openjdk_impl example_binary)"
  using githubDataToAdoptApi_binary_origin
          [of "\<lparr>release_name = ''jdk8u-2020-01-01'', timestamp = ''2020-01-01T00:00:00Z'',
                binaries = [example_binary]\<rparr>" "[example_release]" example_binary]
  by (simp add: githubDataToAdoptApi_example)

end
