(* ===== verification/QueryFilter.thy ===== *)
theory QueryFilter
  imports Normalizer "HOL-Library.Char_ord" "HOL-Library.List_Lexorder"
begin

text \<open>
  The query filters of \<^verbatim>\<open>src/app/routes/v2.js\<close>. \<^verbatim>\<open>filterReleaseBinaries\<close>
  keeps the binaries of each release that pass a test and drops the releases left
  empty; \<^verbatim>\<open>filterReleaseOnBinaryProperty\<close> applies it to one field of the binary,
  compared after \<^verbatim>\<open>toLowerCase\<close> on both sides, and is the identity when the query
  parameter is absent; \<^verbatim>\<open>filterRelease\<close> selects releases by name, or the latest
  one. The code mutates the release objects in place (\<^verbatim>\<open>release.binaries = ...\<close>);
  each object occurs once in the list the normalizer has just built, so the model
  returns updated copies instead.
\<close>

subsection \<open>Operations\<close>

definition filterReleaseBinaries ::
  "adopt_release list \<Rightarrow> (binary \<Rightarrow> bool) \<Rightarrow> adopt_release list" where
  "filterReleaseBinaries releases filterFunction =
     filter (\<lambda>release. length (binaries release) > 0)
       (map (\<lambda>release. release\<lparr>binaries := filter filterFunction (binaries release)\<rparr>) releases)"

text \<open>The field names the route passes as \<^verbatim>\<open>propertyName\<close>, and \<^verbatim>\<open>binary[propertyName]\<close>.\<close>

datatype property_name = P_openjdk_impl | P_os | P_architecture | P_binaryType

fun binary_property :: "property_name \<Rightarrow> binary \<Rightarrow> string" where
  "binary_property P_openjdk_impl b = openjdk_impl b"
| "binary_property P_os b = os b"
| "binary_property P_architecture b = architecture b"
| "binary_property P_binaryType b = binaryType b"

text \<open>An absent query parameter is \<open>None\<close> (JavaScript \<^verbatim>\<open>undefined\<close>).\<close>

definition filterReleaseOnBinaryProperty ::
  "adopt_release list \<Rightarrow> property_name \<Rightarrow> string option \<Rightarrow> adopt_release list" where
  "filterReleaseOnBinaryProperty releases propertyName property =
     (case property of
        None \<Rightarrow> releases
      | Some p \<Rightarrow>
          (let property = to_lower p
           in filterReleaseBinaries releases
                (\<lambda>binary. to_lower (binary_property propertyName binary) = property)))"

text \<open>
  What \<^verbatim>\<open>filterRelease\<close> returns: the array of releases, a single release object (the
  \<^verbatim>\<open>"latest"\<close> branch), or \<^verbatim>\<open>undefined\<close> (\<^verbatim>\<open>_.last\<close> of an empty array).
\<close>

datatype release_data = RList "adopt_release list" | RObj adopt_release | RUndef

text \<open>
  Underscore's \<^verbatim>\<open>_.sortBy\<close> sorts by the key and, on equal keys, by the original
  position: it is the stable sort \<open>sort_key\<close>. Timestamps are strings, compared by
  JavaScript's \<^verbatim>\<open><\<close> on strings: lexicographically by character code, the order
  of \<^theory_text>\<open>List_Lexorder\<close> over \<^theory_text>\<open>Char_ord\<close>.
\<close>

definition filterRelease :: "adopt_release list \<Rightarrow> string option \<Rightarrow> release_data" where
  "filterRelease releases releaseName =
     (case releaseName of
        None \<Rightarrow> RList releases
      | Some n \<Rightarrow>
          (if n = ''latest''
           then (case sort_key timestamp releases of
                   [] \<Rightarrow> RUndef
                 | xs \<Rightarrow> RObj (last xs))
           else RList (filter (\<lambda>release. to_lower (release_name release) = to_lower n) releases)))"

subsection \<open>Lemmas\<close>

text \<open>Two binary filters in a row are one filter by the conjunction of their tests.\<close>

lemma filterReleaseBinaries_twice:
  "filterReleaseBinaries (filterReleaseBinaries rs P) Q = filterReleaseBinaries rs (\<lambda>b. P b \<and> Q b)"
  by (induction rs) (auto simp: filterReleaseBinaries_def filter_empty_conv)

lemma filterReleaseBinaries_cong:
  "(\<And>b. P b = Q b) \<Longrightarrow> filterReleaseBinaries rs P = filterReleaseBinaries rs Q"
  by (metis ext)

lemma filterReleaseBinaries_nonempty: "all_nonempty (filterReleaseBinaries rs P)"
  by (simp add: filterReleaseBinaries_def all_nonempty_def)

text \<open>The (release name, binary) pairs of a list of releases, in order.\<close>

definition release_binaries :: "adopt_release list \<Rightarrow> (string \<times> binary) list" where
  "release_binaries rs = concat (map (\<lambda>r. map (\<lambda>b. (release_name r, b)) (binaries r)) rs)"

lemma release_binaries_filterReleaseBinaries:
  "release_binaries (filterReleaseBinaries rs P) = filter (\<lambda>(n, b). P b) (release_binaries rs)"
  by (induction rs)
     (auto simp: filterReleaseBinaries_def release_binaries_def filter_map o_def)

lemma filterReleaseOnBinaryProperty_None [simp]:
  "filterReleaseOnBinaryProperty rs pn None = rs"
  by (simp add: filterReleaseOnBinaryProperty_def)

lemma filterRelease_latest_eq:
  "filterRelease rs (Some ''latest'') =
     (if sort_key timestamp rs = [] then RUndef else RObj (last (sort_key timestamp rs)))"
  by (simp add: filterRelease_def split: list.split)

lemma filterReleaseOnBinaryProperty_Some:
  "filterReleaseOnBinaryProperty rs pn (Some p) =
     filterReleaseBinaries rs (\<lambda>b. to_lower (binary_property pn b) = to_lower p)"
  by (simp add: filterReleaseOnBinaryProperty_def)

lemma release_names_filterReleaseBinaries:
  "map release_name (filterReleaseBinaries rs P) =
     map release_name (filter (\<lambda>r. \<exists>b \<in> set (binaries r). P b) rs)"
  by (induction rs) (auto simp: filterReleaseBinaries_def filter_empty_conv)

text \<open>The latest release of a non-empty list has the greatest timestamp of the list.\<close>

lemma timestamp_last_sort_key:
  assumes "rs \<noteq> []"
  shows "timestamp (last (sort_key timestamp rs)) = Max (timestamp ` set rs)"
proof -
  let ?xs = "sort_key timestamp rs"
  have ne: "?xs \<noteq> []"
    using assms by (simp add: sort_key_eq_Nil_iff)
  have "\<forall>r \<in> set rs. timestamp r \<le> timestamp (last ?xs)"
  proof
    fix r assume "r \<in> set rs"
    then have "timestamp r \<in> set (map timestamp ?xs)" by simp
    then have "timestamp r \<le> last (map timestamp ?xs)"
      by (rule sorted_le_last [OF sorted_sort_key])
    with ne show "timestamp r \<le> timestamp (last ?xs)"
      by (simp add: last_map)
  qed
  moreover have "last ?xs \<in> set rs"
    using ne last_in_set by fastforce
  ultimately show ?thesis
    by (intro Max_eqI [symmetric]) auto
qed

text \<open>The stable sort puts last the last of the releases with the greatest timestamp.\<close>

lemma last_sort_key_timestamp:
  assumes "rs \<noteq> []"
  shows "last (sort_key timestamp rs) = last (filter (\<lambda>r. timestamp r = Max (timestamp ` set rs)) rs)"
proof -
  let ?xs = "sort_key timestamp rs"
  let ?M = "Max (timestamp ` set rs)"
  have ne: "?xs \<noteq> []"
    using assms by (simp add: sort_key_eq_Nil_iff)
  have "last ?xs = last (filter (\<lambda>r. timestamp r = ?M) ?xs)"
    using ne timestamp_last_sort_key [OF assms] by (simp add: last_filter_last)
  also have "filter (\<lambda>r. timestamp r = ?M) ?xs = filter (\<lambda>r. timestamp r = ?M) rs"
    by (rule sort_key_stable)
  finally show ?thesis .
qed

text \<open>What one property filter asks of a binary's field.\<close>

fun opt_match :: "string option \<Rightarrow> string \<Rightarrow> bool" where
  "opt_match None s = True"
| "opt_match (Some p) s = (to_lower s = to_lower p)"

lemma in_release_binaries:
  "(n, b) \<in> set (release_binaries rs) \<longleftrightarrow> (\<exists>r \<in> set rs. n = release_name r \<and> b \<in> set (binaries r))"
  by (auto simp: release_binaries_def)

lemma in_release_binaries_filterReleaseOnBinaryProperty:
  "(n, b) \<in> set (release_binaries (filterReleaseOnBinaryProperty rs pn p)) \<longleftrightarrow>
     (n, b) \<in> set (release_binaries rs) \<and> opt_match p (binary_property pn b)"
  by (cases p) (auto simp: filterReleaseOnBinaryProperty_Some release_binaries_filterReleaseBinaries)

subsection \<open>A fixture\<close>

definition example_binary_win :: binary where
  "example_binary_win = example_binary\<lparr>os := ''windows'', binary_link := ''u3''\<rparr>"

definition example_rel :: "string \<Rightarrow> string \<Rightarrow> binary list \<Rightarrow> adopt_release" where
  "example_rel n t bs = \<lparr>release_name = n, timestamp = t, binaries = bs\<rparr>"

subsection \<open>Properties\<close>

text \<open>
  C5. A property filter keeps the invariant that every release has a binary: applied
  to a parameter it establishes it, absent it is the identity.
\<close>

theorem filterReleaseOnBinaryProperty_nonempty:
  "all_nonempty rs \<Longrightarrow> all_nonempty (filterReleaseOnBinaryProperty rs pn property)"
  by (cases property) (simp_all add: filterReleaseOnBinaryProperty_def filterReleaseBinaries_nonempty)

lemma filterReleaseOnBinaryProperty_nonempty_witness:
  "all_nonempty [example_rel ''a'' ''t'' [example_binary]] \<and>
   all_nonempty (filterReleaseOnBinaryProperty [example_rel ''a'' ''t'' [example_binary]] P_os None)"
  using filterReleaseOnBinaryProperty_nonempty [of "[example_rel ''a'' ''t'' [example_binary]]" P_os None]
  by (simp add: all_nonempty_def example_rel_def)

text \<open>
  C6. A property filter given a value keeps exactly the binaries whose field equals the
  value ignoring case, in order and under their releases' names; a release survives iff
  one of its binaries matches, so the releases without a match are the only ones dropped.
\<close>

theorem filterReleaseOnBinaryProperty_selects:
  "release_binaries (filterReleaseOnBinaryProperty rs pn (Some p)) =
     filter (\<lambda>(n, b). to_lower (binary_property pn b) = to_lower p) (release_binaries rs) \<and>
   map release_name (filterReleaseOnBinaryProperty rs pn (Some p)) =
     map release_name
       (filter (\<lambda>r. \<exists>b \<in> set (binaries r). to_lower (binary_property pn b) = to_lower p) rs)"
  by (simp add: filterReleaseOnBinaryProperty_Some release_binaries_filterReleaseBinaries
      release_names_filterReleaseBinaries)

text \<open>
  C7. Property filtering is case-insensitive: two parameter values that agree after
  \<^verbatim>\<open>toLowerCase\<close> select the same data (\<^verbatim>\<open>os=Linux\<close> matches a binary with OS
  \<^verbatim>\<open>linux\<close>).
\<close>

theorem filterReleaseOnBinaryProperty_case_insensitive:
  "to_lower p = to_lower q \<Longrightarrow>
   filterReleaseOnBinaryProperty rs pn (Some p) = filterReleaseOnBinaryProperty rs pn (Some q)"
  by (simp add: filterReleaseOnBinaryProperty_Some)

lemma filterReleaseOnBinaryProperty_case_insensitive_witness:
  "to_lower ''Linux'' = to_lower ''linux'' \<and>
   filterReleaseOnBinaryProperty [example_rel ''a'' ''t'' [example_binary, example_binary_win]] P_os (Some ''Linux'') =
   [example_rel ''a'' ''t'' [example_binary]]"
proof -
  have eq: "to_lower ''Linux'' = to_lower ''linux''"
    by (simp add: js_simps)
  have "filterReleaseOnBinaryProperty [example_rel ''a'' ''t'' [example_binary, example_binary_win]] P_os (Some ''linux'') =
     [example_rel ''a'' ''t'' [example_binary]]"
    by (simp add: filterReleaseOnBinaryProperty_Some filterReleaseBinaries_def example_rel_def
        example_binary_win_def example_binary_def js_simps)
  with eq show ?thesis
    using filterReleaseOnBinaryProperty_case_insensitive [OF eq] by simp
qed

text \<open>C8. Applying a property filter a second time changes nothing.\<close>

theorem filterReleaseOnBinaryProperty_idem:
  "filterReleaseOnBinaryProperty (filterReleaseOnBinaryProperty rs pn property) pn property =
     filterReleaseOnBinaryProperty rs pn property"
  by (cases property) (simp_all add: filterReleaseOnBinaryProperty_Some filterReleaseBinaries_twice)

text \<open>
  C9. Property filters commute: the fixed order in which the route applies the
  implementation, OS, architecture and binary-type filters does not change the result.
\<close>

theorem filterReleaseOnBinaryProperty_commute:
  "filterReleaseOnBinaryProperty (filterReleaseOnBinaryProperty rs pn1 p1) pn2 p2 =
     filterReleaseOnBinaryProperty (filterReleaseOnBinaryProperty rs pn2 p2) pn1 p1"
  by (cases p1; cases p2)
     (simp_all add: filterReleaseOnBinaryProperty_Some filterReleaseBinaries_twice conj_commute)

text \<open>
  C10. \<^verbatim>\<open>release=latest\<close> on a non-empty list returns the release with the greatest
  timestamp; among releases with that timestamp, the last one in list order (underscore's
  \<^verbatim>\<open>sortBy\<close> is stable), so ties are broken deterministically.
\<close>

theorem filterRelease_latest:
  assumes "rs \<noteq> []"
  shows "filterRelease rs (Some ''latest'') =
           RObj (last (filter (\<lambda>r. timestamp r = Max (timestamp ` set rs)) rs))"
  using assms by (simp add: filterRelease_latest_eq sort_key_eq_Nil_iff last_sort_key_timestamp)

lemma filterRelease_latest_witness:
  "[example_rel ''a'' ''2019-01-01'' [], example_rel ''b'' ''2020-01-01'' [], example_rel ''c'' ''2018-01-01'' []] \<noteq> [] \<and>
   filterRelease [example_rel ''a'' ''2019-01-01'' [], example_rel ''b'' ''2020-01-01'' [], example_rel ''c'' ''2018-01-01'' []]
     (Some ''latest'') = RObj (example_rel ''b'' ''2020-01-01'' [])"
  using filterRelease_latest [of "[example_rel ''a'' ''2019-01-01'' [], example_rel ''b'' ''2020-01-01'' [], example_rel ''c'' ''2018-01-01'' []]"]
  by (simp add: example_rel_def)

end
