(* ===== verification/Handler.thy ===== *)
theory Handler
  imports QueryFilter
begin

text \<open>
  The response side of \<^verbatim>\<open>src/app/routes/v2.js\<close>: \<^verbatim>\<open>sendData\<close> (mode
  \<^verbatim>\<open>info\<close>), \<^verbatim>\<open>redirectToBinary\<close> (mode \<^verbatim>\<open>binary\<close>) and the exported route
  handler with its promise callbacks. What the handler does to the Express response
  object is a \<open>response\<close> value: a status and a text body, a status and a JSON body
  (the data \<^verbatim>\<open>JSON.stringify\<close> prints, after a text prefix), a redirect, or nothing
  at all. A JavaScript exception is a value of \<open>js_exn\<close>: a \<^verbatim>\<open>TypeError\<close> from
  reading a property of \<^verbatim>\<open>undefined\<close>, or the rejection of the upstream fetch. The
  upstream cache (\<^verbatim>\<open>cache.getInfoForVersion\<close>, not part of \<^verbatim>\<open>src/\<close>) is a
  parameter \<open>fetch\<close>: the value or the error its promise settles with.
\<close>

subsection \<open>Responses and exceptions\<close>

datatype payload = PReleases "adopt_release list" | PRelease adopt_release | PBinaries "binary list"

datatype response =
    Send nat string
  | SendJson nat string payload
  | Redirect string
  | NoResponse

text \<open>
  The two ways the upstream promise is rejected: an error object with a truthy
  \<^verbatim>\<open>err\<close> field, or an HTTP failure carrying \<^verbatim>\<open>response.statusCode\<close>.
\<close>

datatype upstream_error = InternalError | HttpStatus nat

datatype js_exn = TypeError | Rejected upstream_error

type_synonym fetch = "string \<Rightarrow> string \<Rightarrow> upstream_error + gh_release list"

definition not_found :: response where
  "not_found = Send 404 ''Not found''"

definition ambiguous_prefix :: string where
  "ambiguous_prefix = ''Multiple binaries match request: ''"

subsection \<open>The resolvers\<close>

text \<open>
  \<^verbatim>\<open>data.length === 0\<close> is false for a release object (its \<^verbatim>\<open>length\<close> is
  \<^verbatim>\<open>undefined\<close>), so a single release is sent; reading \<^verbatim>\<open>length\<close> of
  \<^verbatim>\<open>undefined\<close> throws. Express sends status 200 when none was set.
\<close>

definition sendData :: "release_data \<Rightarrow> js_exn + response" where
  "sendData data =
     (case data of
        RList xs \<Rightarrow> (if length xs = 0 then Inr not_found else Inr (SendJson 200 [] (PReleases xs)))
      | RObj r \<Rightarrow> Inr (SendJson 200 [] (PRelease r))
      | RUndef \<Rightarrow> Inl TypeError)"

text \<open>
  Lines 72--78 of \<^verbatim>\<open>redirectToBinary\<close>, run on the single release: reading
  \<^verbatim>\<open>binaries[0].binary_link\<close> of an empty array throws.
\<close>

definition redirectToRelease :: "adopt_release \<Rightarrow> js_exn + response" where
  "redirectToRelease r =
     (if length (binaries r) > 1 then Inr (SendJson 400 ambiguous_prefix (PBinaries (binaries r)))
      else (case binaries r of
              [] \<Rightarrow> Inl TypeError
            | b # _ \<Rightarrow> Inr (Redirect (binary_link b))))"

text \<open>
  An array is first reduced to its one element (\<^verbatim>\<open>data = data[0]\<close>); reading
  \<^verbatim>\<open>constructor\<close> of \<^verbatim>\<open>undefined\<close> throws.
\<close>

definition redirectToBinary :: "release_data \<Rightarrow> js_exn + response" where
  "redirectToBinary data =
     (case data of
        RList xs \<Rightarrow>
          (if length xs = 0 then Inr not_found
           else if length xs > 1 then Inr (SendJson 400 ambiguous_prefix (PReleases xs))
           else redirectToRelease (xs ! 0))
      | RObj r \<Rightarrow> redirectToRelease r
      | RUndef \<Rightarrow> Inl TypeError)"

subsection \<open>The route handler\<close>

text \<open>\<^verbatim>\<open>req.params\<close> and \<^verbatim>\<open>req.query\<close>; an absent value is \<open>None\<close>.\<close>

record route_params =
  requestType :: "string option"
  buildtype :: "string option"
  route_version :: "string option"

record query_params =
  q_openjdkImpl :: "string option"
  q_os :: "string option"
  q_arch :: "string option"
  q_release :: "string option"
  q_type :: "string option"

text \<open>Lines 100--105: normalisation and the four property filters, in the code's order.\<close>

definition property_filters :: "query_params \<Rightarrow> gh_release list \<Rightarrow> adopt_release list" where
  "property_filters q githubData =
     (let data = githubDataToAdoptApi githubData;
          data = filterReleaseOnBinaryProperty data P_openjdk_impl (q_openjdkImpl q);
          data = filterReleaseOnBinaryProperty data P_os (q_os q);
          data = filterReleaseOnBinaryProperty data P_architecture (q_arch q)
      in filterReleaseOnBinaryProperty data P_binaryType (q_type q))"

text \<open>The \<^verbatim>\<open>.then\<close> callback, lines 99--116.\<close>

definition on_data :: "string \<Rightarrow> query_params \<Rightarrow> gh_release list \<Rightarrow> js_exn + response" where
  "on_data rt q githubData =
     (let data = filterRelease (property_filters q githubData) (q_release q)
      in if rt = ''info'' then sendData data
         else if rt = ''binary'' then redirectToBinary data
         else Inr not_found)"

text \<open>
  The \<^verbatim>\<open>.catch\<close> callback, lines 117--127. A \<^verbatim>\<open>TypeError\<close> has no \<^verbatim>\<open>err\<close>
  field and no \<^verbatim>\<open>response\<close> field, so \<^verbatim>\<open>err.response.statusCode\<close> throws
  again inside the callback: the promise ends rejected and no response is ever sent.
\<close>

definition on_error :: "js_exn \<Rightarrow> response" where
  "on_error err =
     (case err of
        Rejected InternalError \<Rightarrow> Send 500 ''Internal error''
      | Rejected (HttpStatus code) \<Rightarrow> Send code []
      | TypeError \<Rightarrow> NoResponse)"

text \<open>The exported handler, lines 81--128.\<close>

definition v2 :: "fetch \<Rightarrow> route_params \<Rightarrow> query_params \<Rightarrow> response" where
  "v2 fetch rp q =
     (case (requestType rp, buildtype rp, route_version rp) of
        (Some rt, Some bt, Some ver) \<Rightarrow>
          (case (case fetch ver bt of Inl e \<Rightarrow> Inl (Rejected e) | Inr data \<Rightarrow> on_data rt q data) of
             Inl err \<Rightarrow> on_error err
           | Inr resp \<Rightarrow> resp)
      | _ \<Rightarrow> not_found)"

subsection \<open>Lemmas\<close>

text \<open>Data the resolvers can use without an exception.\<close>

definition data_ok :: "release_data \<Rightarrow> bool" where
  "data_ok d = (case d of RList xs \<Rightarrow> all_nonempty xs | RObj r \<Rightarrow> binaries r \<noteq> [] | RUndef \<Rightarrow> False)"

lemma property_filters_nonempty: "all_nonempty (property_filters q githubData)"
  by (simp add: property_filters_def Let_def filterReleaseOnBinaryProperty_def githubDataToAdoptApi_def
      filterReleaseBinaries_nonempty split: option.split)

lemma filterRelease_RUndef_iff:
  "filterRelease rs n = RUndef \<longleftrightarrow> n = Some ''latest'' \<and> rs = []"
proof (cases "n = Some ''latest''")
  case True
  then show ?thesis by (simp add: filterRelease_latest_eq sort_key_eq_Nil_iff)
next
  case False
  then show ?thesis by (auto simp: filterRelease_def split: option.split)
qed

lemma filterRelease_data_ok:
  assumes "all_nonempty rs" and "\<not> (n = Some ''latest'' \<and> rs = [])"
  shows "data_ok (filterRelease rs n)"
proof (cases n)
  case None
  with assms show ?thesis by (simp add: filterRelease_def data_ok_def)
next
  case (Some m)
  show ?thesis
  proof (cases "m = ''latest''")
    case True
    with assms Some have ne: "rs \<noteq> []" by simp
    then have "last (sort_key timestamp rs) \<in> set rs"
      by (metis last_in_set set_sort sort_key_eq_Nil_iff)
    with assms(1) ne Some True show ?thesis
      by (auto simp: filterRelease_latest_eq data_ok_def all_nonempty_def sort_key_eq_Nil_iff)
  next
    case False
    with assms(1) Some show ?thesis
      by (auto simp: filterRelease_def data_ok_def all_nonempty_def)
  qed
qed

lemma sendData_Inl_iff: "sendData d = Inl e \<longleftrightarrow> d = RUndef \<and> e = TypeError"
  by (auto simp: sendData_def split: release_data.split)

lemma sendData_Inr: "sendData d = Inr resp \<Longrightarrow> resp \<noteq> NoResponse"
  by (auto simp: sendData_def not_found_def split: release_data.splits if_splits)

lemma redirectToRelease_ok:
  "binaries r \<noteq> [] \<Longrightarrow> \<exists>resp. redirectToRelease r = Inr resp \<and> resp \<noteq> NoResponse"
  by (auto simp: redirectToRelease_def split: list.split)

lemma redirectToBinary_ok:
  "data_ok d \<Longrightarrow> \<exists>resp. redirectToBinary d = Inr resp \<and> resp \<noteq> NoResponse"
proof (cases d)
  case (RList xs)
  assume ok: "data_ok d"
  show ?thesis
  proof (cases "length xs = 1")
    case True
    then have "binaries (xs ! 0) \<noteq> []"
      using ok RList by (simp add: data_ok_def all_nonempty_def)
    with True RList show ?thesis
      by (simp add: redirectToBinary_def redirectToRelease_ok)
  next
    case False
    then have "xs = [] \<or> length xs > 1"
      by (cases xs) auto
    with RList show ?thesis
      by (auto simp: redirectToBinary_def not_found_def)
  qed
qed (auto simp: data_ok_def redirectToBinary_def intro: redirectToRelease_ok)

lemma redirectToBinary_RUndef: "redirectToBinary RUndef = Inl TypeError"
  by (simp add: redirectToBinary_def)

lemma on_data_Inl_iff:
  "on_data rt q githubData = Inl e \<longleftrightarrow>
     e = TypeError \<and> (rt = ''info'' \<or> rt = ''binary'') \<and>
     q_release q = Some ''latest'' \<and> property_filters q githubData = []"
proof -
  let ?d = "filterRelease (property_filters q githubData) (q_release q)"
  have undef: "?d = RUndef \<longleftrightarrow> q_release q = Some ''latest'' \<and> property_filters q githubData = []"
    by (rule filterRelease_RUndef_iff)
  have ok: "?d \<noteq> RUndef \<Longrightarrow> data_ok ?d"
    using filterRelease_data_ok [OF property_filters_nonempty] undef by blast
  show ?thesis
  proof (cases "?d = RUndef")
    case True
    with undef show ?thesis
      by (auto simp: on_data_def Let_def sendData_def redirectToBinary_RUndef)
  next
    case False
    then obtain resp where "redirectToBinary ?d = Inr resp"
      using redirectToBinary_ok [OF ok] by blast
    with False undef show ?thesis
      by (auto simp: on_data_def Let_def sendData_Inl_iff)
  qed
qed

lemma on_data_Inr: "on_data rt q githubData = Inr resp \<Longrightarrow> resp \<noteq> NoResponse"
proof -
  assume a: "on_data rt q githubData = Inr resp"
  let ?d = "filterRelease (property_filters q githubData) (q_release q)"
  consider "rt = ''info''" | "rt \<noteq> ''info''" "rt = ''binary''" | "rt \<noteq> ''info''" "rt \<noteq> ''binary''"
    by blast
  then show ?thesis
  proof cases
    case 1
    with a show ?thesis by (simp add: on_data_def sendData_Inr)
  next
    case 2
    with a have d: "redirectToBinary ?d = Inr resp" by (simp add: on_data_def)
    then have "?d \<noteq> RUndef" by (auto simp: redirectToBinary_RUndef)
    then have "data_ok ?d"
      using filterRelease_data_ok [OF property_filters_nonempty] filterRelease_RUndef_iff by blast
    with d show ?thesis using redirectToBinary_ok by fastforce
  next
    case 3
    with a show ?thesis by (auto simp: on_data_def not_found_def)
  qed
qed

lemma on_error_Rejected: "on_error (Rejected e) \<noteq> NoResponse"
  by (cases e) (simp_all add: on_error_def)

lemma on_error_NoResponse_iff: "on_error err = NoResponse \<longleftrightarrow> err = TypeError"
  by (auto simp: on_error_def split: js_exn.split upstream_error.split)

lemma on_error_not_Redirect: "on_error err \<noteq> Redirect u"
  by (auto simp: on_error_def split: js_exn.split upstream_error.split)

lemma sendData_not_Redirect: "sendData d \<noteq> Inr (Redirect u)"
  by (auto simp: sendData_def not_found_def split: release_data.split)

lemma v2_params:
  assumes "requestType rp = Some rt" "buildtype rp = Some bt" "route_version rp = Some ver"
  shows "v2 fetch rp q =
           (case fetch ver bt of
              Inl e \<Rightarrow> on_error (Rejected e)
            | Inr data \<Rightarrow> (case on_data rt q data of Inl err \<Rightarrow> on_error err | Inr resp \<Rightarrow> resp))"
  using assms by (simp add: v2_def split: sum.split)

subsection \<open>Properties\<close>

text \<open>
  C15. An upstream failure is answered at the boundary: an internal error with status 500
  and a generic body, an HTTP failure with its own status and an empty body.
\<close>

theorem v2_upstream_error:
  assumes "requestType rp = Some rt" "buildtype rp = Some bt" "route_version rp = Some ver"
    and "fetch ver bt = Inl e"
  shows "v2 fetch rp q = (case e of InternalError \<Rightarrow> Send 500 ''Internal error'' | HttpStatus c \<Rightarrow> Send c [])"
  using assms by (simp add: v2_def on_error_def split: upstream_error.split)

lemma v2_upstream_error_witness:
  "v2 (\<lambda>_ _. Inl (HttpStatus 403))
      \<lparr>requestType = Some ''info'', buildtype = Some ''releases'', route_version = Some ''openjdk8''\<rparr>
      \<lparr>q_openjdkImpl = None, q_os = None, q_arch = None, q_release = None, q_type = None\<rparr> = Send 403 []"
  using v2_upstream_error [of "\<lparr>requestType = Some ''info'', buildtype = Some ''releases'',
      route_version = Some ''openjdk8''\<rparr>" "''info''" "''releases''" "''openjdk8''" "\<lambda>_ _. Inl (HttpStatus 403)"
      "HttpStatus 403" "\<lparr>q_openjdkImpl = None, q_os = None, q_arch = None, q_release = None, q_type = None\<rparr>"]
  by simp

text \<open>C16. A request missing a route parameter is answered 404 without any fetch.\<close>

theorem v2_missing_param:
  "requestType rp = None \<or> buildtype rp = None \<or> route_version rp = None \<Longrightarrow> v2 fetch rp q = not_found"
  by (auto simp: v2_def split: option.split)

lemma v2_missing_param_witness:
  "v2 (\<lambda>_ _. Inl InternalError) \<lparr>requestType = Some ''info'', buildtype = None, route_version = Some ''openjdk8''\<rparr>
      \<lparr>q_openjdkImpl = None, q_os = None, q_arch = None, q_release = None, q_type = None\<rparr> = Send 404 ''Not found''"
  using v2_missing_param [of "\<lparr>requestType = Some ''info'', buildtype = None, route_version = Some ''openjdk8''\<rparr>"
      "\<lambda>_ _. Inl InternalError" "\<lparr>q_openjdkImpl = None, q_os = None, q_arch = None, q_release = None, q_type = None\<rparr>"]
  by (simp add: not_found_def)

end
