(* ===== verification/Contract.thy ===== *)
theory Contract
  imports Handler
begin

text \<open>
  The contract the route should meet, written from \<^verbatim>\<open>spec.md\<close> (sections 4.3, 4.4,
  6 and 9) rather than from the code: the release-name filter always yields a list
  (the single-object \<^verbatim>\<open>latest\<close> result normalised to a one-element list, as section 9
  asks), the info resolver answers 404 on an empty list and the list otherwise, and the
  binary resolver decides by the number of releases and binaries. \<open>abs_response\<close>
  forgets the one difference of shape the spec tolerates (a single release object
  sent where the contract has a one-element list). The lemmas here show that the
  resolvers of \<^theory_text>\<open>Handler\<close> implement this contract.
\<close>

subsection \<open>The contract\<close>

definition spec_latest :: "adopt_release list \<Rightarrow> adopt_release list" where
  "spec_latest rs =
     (if rs = [] then [] else [last (filter (\<lambda>r. timestamp r = Max (timestamp ` set rs)) rs)])"

definition spec_release_filter :: "adopt_release list \<Rightarrow> string option \<Rightarrow> adopt_release list" where
  "spec_release_filter rs n =
     (case n of
        None \<Rightarrow> rs
      | Some m \<Rightarrow> (if m = ''latest'' then spec_latest rs
                  else filter (\<lambda>r. to_lower (release_name r) = to_lower m) rs))"

definition spec_info :: "adopt_release list \<Rightarrow> response" where
  "spec_info xs = (if xs = [] then not_found else SendJson 200 [] (PReleases xs))"

fun spec_binary :: "adopt_release list \<Rightarrow> response" where
  "spec_binary [] = not_found"
| "spec_binary [r] =
     (case binaries r of
        [b] \<Rightarrow> Redirect (binary_link b)
      | bs \<Rightarrow> SendJson 400 ambiguous_prefix (PBinaries bs))"
| "spec_binary xs = SendJson 400 ambiguous_prefix (PReleases xs)"

definition spec_v2 :: "fetch \<Rightarrow> route_params \<Rightarrow> query_params \<Rightarrow> response" where
  "spec_v2 fetch rp q =
     (case (requestType rp, buildtype rp, route_version rp) of
        (Some rt, Some bt, Some ver) \<Rightarrow>
          (case fetch ver bt of
             Inl InternalError \<Rightarrow> Send 500 ''Internal error''
           | Inl (HttpStatus c) \<Rightarrow> Send c []
           | Inr data \<Rightarrow>
               (let xs = spec_release_filter (property_filters q data) (q_release q)
                in if rt = ''info'' then spec_info xs
                   else if rt = ''binary'' then spec_binary xs
                   else not_found))
      | _ \<Rightarrow> not_found)"

fun abs_payload :: "payload \<Rightarrow> payload" where
  "abs_payload (PRelease r) = PReleases [r]"
| "abs_payload p = p"

fun abs_response :: "response \<Rightarrow> response" where
  "abs_response (SendJson c t p) = SendJson c t (abs_payload p)"
| "abs_response r = r"

text \<open>The releases a filter result stands for.\<close>

fun data_list :: "release_data \<Rightarrow> adopt_release list" where
  "data_list (RList xs) = xs"
| "data_list (RObj r) = [r]"
| "data_list RUndef = []"

subsection \<open>Lemmas\<close>

lemma data_list_filterRelease:
  "data_list (filterRelease rs n) = spec_release_filter rs n"
proof (cases "n = Some ''latest''")
  case True
  then show ?thesis
    by (simp add: filterRelease_latest_eq spec_release_filter_def spec_latest_def
        sort_key_eq_Nil_iff last_sort_key_timestamp)
next
  case False
  then show ?thesis
    by (auto simp: filterRelease_def spec_release_filter_def split: option.split)
qed

lemma sendData_abs:
  "d \<noteq> RUndef \<Longrightarrow> map_sum id abs_response (sendData d) = Inr (spec_info (data_list d))"
  by (cases d) (simp_all add: sendData_def spec_info_def not_found_def)

lemma spec_binary_single:
  "binaries r \<noteq> [] \<Longrightarrow> redirectToRelease r = Inr (spec_binary [r])"
  by (auto simp: redirectToRelease_def split: list.split)

lemma spec_binary_many: "length xs > 1 \<Longrightarrow> spec_binary xs = SendJson 400 ambiguous_prefix (PReleases xs)"
  by (cases xs rule: spec_binary.cases) auto

lemma data_ok_binaries: "data_ok d \<Longrightarrow> r \<in> set (data_list d) \<Longrightarrow> binaries r \<noteq> []"
  by (cases d) (auto simp: data_ok_def all_nonempty_def)

text \<open>\<^verbatim>\<open>redirectToBinary\<close> reduces a single release to \<^verbatim>\<open>redirectToRelease\<close>.\<close>

lemma redirectToBinary_abs_single:
  "data_ok d \<Longrightarrow> map_sum id abs_response (redirectToBinary d) =
     (case data_list d of [r] \<Rightarrow> map_sum id abs_response (redirectToRelease r) | xs \<Rightarrow> Inr (spec_binary xs))"
proof (cases d)
  case (RList xs)
  then show ?thesis
    by (cases xs rule: spec_binary.cases) (auto simp: redirectToBinary_def spec_binary_many not_found_def)
qed (auto simp: data_ok_def redirectToBinary_def)

lemma redirectToBinary_abs:
  "data_ok d \<Longrightarrow> map_sum id abs_response (redirectToBinary d) = Inr (spec_binary (data_list d))"
  using redirectToBinary_abs_single [of d] data_ok_binaries [of d] spec_binary_single
  by (auto split: list.split)

lemma set_spec_release_filter: "set (spec_release_filter rs n) \<subseteq> set rs"
proof -
  have "set (spec_latest rs) \<subseteq> set rs"
  proof (cases "rs = []")
    case False
    have "Max (timestamp ` set rs) \<in> timestamp ` set rs"
      using False by (intro Max_in) auto
    then have "filter (\<lambda>r. timestamp r = Max (timestamp ` set rs)) rs \<noteq> []"
      by (auto simp: filter_empty_conv)
    then have "last (filter (\<lambda>r. timestamp r = Max (timestamp ` set rs)) rs) \<in> set rs"
      using last_in_set by fastforce
    with False show ?thesis by (simp add: spec_latest_def)
  qed (simp add: spec_latest_def)
  then show ?thesis
    by (auto simp: spec_release_filter_def split: option.split)
qed

lemma redirectToBinary_Redirect:
  "redirectToBinary d = Inr (Redirect u) \<Longrightarrow>
     \<exists>r \<in> set (data_list d). \<exists>b. binaries r = [b] \<and> u = binary_link b"
  by (auto simp: redirectToBinary_def redirectToRelease_def not_found_def
      split: release_data.splits if_splits list.splits)

text \<open>The route's result, after the release filter and a resolver, on data the code accepts.\<close>

lemma on_data_abs:
  assumes "on_data rt q githubData = Inr resp"
  shows "abs_response resp =
           (let xs = spec_release_filter (property_filters q githubData) (q_release q)
            in if rt = ''info'' then spec_info xs
               else if rt = ''binary'' then spec_binary xs
               else not_found)"
proof -
  let ?d = "filterRelease (property_filters q githubData) (q_release q)"
  have d: "?d \<noteq> RUndef \<longrightarrow> data_ok ?d"
    using filterRelease_data_ok [OF property_filters_nonempty] filterRelease_RUndef_iff by blast
  consider "rt = ''info''" | "rt \<noteq> ''info''" "rt = ''binary''" | "rt \<noteq> ''info''" "rt \<noteq> ''binary''"
    by blast
  then show ?thesis
  proof cases
    case 1
    with assms have s: "sendData ?d = Inr resp" by (simp add: on_data_def)
    then have "?d \<noteq> RUndef" by (auto simp: sendData_def)
    with s 1 show ?thesis
      using sendData_abs [of ?d] data_list_filterRelease by (simp add: Let_def)
  next
    case 2
    with assms have s: "redirectToBinary ?d = Inr resp" by (simp add: on_data_def)
    then have "?d \<noteq> RUndef" by (auto simp: redirectToBinary_def)
    with s 2 d show ?thesis
      using redirectToBinary_abs [of ?d] data_list_filterRelease by (simp add: Let_def)
  next
    case 3
    with assms show ?thesis by (auto simp: on_data_def not_found_def)
  qed
qed

subsection \<open>Properties\<close>

text \<open>
  C3. On releases that each carry a binary, the release-name filter followed by either
  resolver meets the contract of spec sections 4.3--4.4 and 9: \<^verbatim>\<open>info\<close> answers 404
  on an empty result and the releases otherwise; \<^verbatim>\<open>binary\<close> answers 404 on no
  release, 400 with the releases when several remain, 400 with the binaries when one
  release with several binaries remains, and redirects to the download link of the one
  binary otherwise; the single \<^verbatim>\<open>latest\<close> object stands for a one-element list.
  The one exception is \<^verbatim>\<open>latest\<close> on an empty list.
\<close>

theorem resolvers_refine_contract:
  assumes "all_nonempty rs" and "\<not> (n = Some ''latest'' \<and> rs = [])"
  shows "map_sum id abs_response (sendData (filterRelease rs n)) = Inr (spec_info (spec_release_filter rs n)) \<and>
         map_sum id abs_response (redirectToBinary (filterRelease rs n)) =
           Inr (spec_binary (spec_release_filter rs n))"
proof -
  have ok: "data_ok (filterRelease rs n)"
    by (rule filterRelease_data_ok [OF assms])
  then have "filterRelease rs n \<noteq> RUndef"
    by (auto simp: data_ok_def)
  then have info: "map_sum id abs_response (sendData (filterRelease rs n)) = Inr (spec_info (spec_release_filter rs n))"
    by (simp add: sendData_abs data_list_filterRelease)
  have "map_sum id abs_response (redirectToRelease r) = Inr (spec_binary [r])"
    if "spec_release_filter rs n = [r]" for r
  proof -
    have "binaries r \<noteq> []"
      using data_ok_binaries [OF ok, of r] that by (simp add: data_list_filterRelease)
    then show ?thesis
      by (auto simp: redirectToRelease_def split: list.split)
  qed
  then have "map_sum id abs_response (redirectToBinary (filterRelease rs n)) = Inr (spec_binary (spec_release_filter rs n))"
    using redirectToBinary_abs_single [OF ok] by (simp add: data_list_filterRelease split: list.split)
  with info show ?thesis
    by simp
qed

lemma resolvers_refine_contract_witness:
  "all_nonempty [example_rel ''a'' ''t'' [example_binary, example_binary_win]] \<and>
   \<not> (None = Some ''latest'' \<and> [example_rel ''a'' ''t'' [example_binary, example_binary_win]] = []) \<and>
   map_sum id abs_response (redirectToBinary (filterRelease [example_rel ''a'' ''t'' [example_binary, example_binary_win]] None)) =
     Inr (SendJson 400 ambiguous_prefix (PBinaries [example_binary, example_binary_win]))"
proof -
  have h: "all_nonempty [example_rel ''a'' ''t'' [example_binary, example_binary_win]]"
    by (simp add: all_nonempty_def example_rel_def)
  show ?thesis
    using h resolvers_refine_contract [OF h, of None]
    by (simp add: spec_release_filter_def example_rel_def)
qed

end
