(* ===== verification/RegexLang.thy ===== *)
theory RegexLang
  imports Regex
begin

text \<open>
  The language of a pattern, and soundness of the matcher for it: whatever the
  backtracking matcher accepts is a substring of the input in the pattern's language,
  with the match's indices inside the input.
\<close>

primrec re_lang :: "regex \<Rightarrow> string \<Rightarrow> bool" where
  "re_lang Empty u = (u = [])"
| "re_lang (Atom a) u = (case u of [c] \<Rightarrow> atom_ok a c | _ \<Rightarrow> False)"
| "re_lang (Seq r1 r2) u = list_ex (\<lambda>n. re_lang r1 (take n u) \<and> re_lang r2 (drop n u)) [0..<Suc (length u)]"
| "re_lang (Alt r1 r2) u = (re_lang r1 u \<or> re_lang r2 u)"
| "re_lang (Group n r) u = re_lang r u"
| "re_lang (Opt r) u = (u = [] \<or> re_lang r u)"
| "re_lang (Star a) u = list_all (atom_ok a) u"

text \<open>The strings a frame stack consumes, read left to right.\<close>

primrec fmatch :: "frame list \<Rightarrow> string \<Rightarrow> bool" where
  "fmatch [] u = (u = [])"
| "fmatch (f # fs) u =
     (case f of
        FRe r \<Rightarrow> list_ex (\<lambda>n. re_lang r (take n u) \<and> fmatch fs (drop n u)) [0..<Suc (length u)]
      | FClose _ _ \<Rightarrow> fmatch fs u
      | FCheck _ \<Rightarrow> fmatch fs u)"

text \<open>
  The least number of occurrences of a character in the words of a pattern: a
  literal counts once, alternatives take the smaller count, options and stars none.
\<close>

primrec min_count :: "char \<Rightarrow> regex \<Rightarrow> nat" where
  "min_count c Empty = 0"
| "min_count c (Atom a) = (case a of Chr d \<Rightarrow> (if d = c then 1 else 0) | _ \<Rightarrow> 0)"
| "min_count c (Seq r1 r2) = min_count c r1 + min_count c r2"
| "min_count c (Alt r1 r2) = min (min_count c r1) (min_count c r2)"
| "min_count c (Group n r) = min_count c r"
| "min_count c (Opt r) = 0"
| "min_count c (Star a) = 0"

lemma list_ex_splits:
  "list_ex (\<lambda>n. P (take n u) (drop n u)) [0..<Suc (length u)] \<longleftrightarrow> (\<exists>u1 u2. u = u1 @ u2 \<and> P u1 u2)"
proof
  assume "list_ex (\<lambda>n. P (take n u) (drop n u)) [0..<Suc (length u)]"
  then obtain n where "P (take n u) (drop n u)"
    unfolding list_ex_iff by blast
  then show "\<exists>u1 u2. u = u1 @ u2 \<and> P u1 u2"
    by (metis append_take_drop_id)
next
  assume "\<exists>u1 u2. u = u1 @ u2 \<and> P u1 u2"
  then obtain u1 u2 where "u = u1 @ u2" "P u1 u2"
    by blast
  then show "list_ex (\<lambda>n. P (take n u) (drop n u)) [0..<Suc (length u)]"
    by (auto simp: list_ex_iff intro!: bexI [of _ "length u1"])
qed

lemma re_lang_Seq: "re_lang (Seq r1 r2) u \<longleftrightarrow> (\<exists>u1 u2. u = u1 @ u2 \<and> re_lang r1 u1 \<and> re_lang r2 u2)"
  using list_ex_splits [of "\<lambda>u1 u2. re_lang r1 u1 \<and> re_lang r2 u2" u] by simp

lemma fmatch_FRe: "fmatch (FRe r # fs) u \<longleftrightarrow> (\<exists>u1 u2. u = u1 @ u2 \<and> re_lang r u1 \<and> fmatch fs u2)"
  using list_ex_splits [of "\<lambda>u1 u2. re_lang r u1 \<and> fmatch fs u2" u] by simp

lemma fmatch_FClose [simp]: "fmatch (FClose n j # fs) u = fmatch fs u"
  and fmatch_FCheck [simp]: "fmatch (FCheck j # fs) u = fmatch fs u"
  by simp_all

declare re_lang.simps(3) [simp del] fmatch.simps(2) [simp del]

lemma fmatch_FRe_intro: "re_lang r u1 \<Longrightarrow> fmatch fs u2 \<Longrightarrow> fmatch (FRe r # fs) (u1 @ u2)"
  by (auto simp: fmatch_FRe)

lemma fmatch_FRe_Nil: "re_lang r [] \<Longrightarrow> fmatch fs u \<Longrightarrow> fmatch (FRe r # fs) u"
  using fmatch_FRe_intro [of r "[]" fs u] by simp

lemma sound_skip:
  "\<exists>s u. k s = Some z \<and> w = u @ rest s \<and> pos s = i + length u \<and> fmatch fs u \<Longrightarrow> re_lang r [] \<Longrightarrow>
   \<exists>s u. k s = Some z \<and> w = u @ rest s \<and> pos s = i + length u \<and> fmatch (FRe r # fs) u"
  by (blast intro: fmatch_FRe_Nil)

lemma mm_sound:
  "mm k fs i w m = Some z \<Longrightarrow>
   \<exists>s u. k s = Some z \<and> w = u @ rest s \<and> pos s = i + length u \<and> fmatch fs u"
proof (induction k fs i w m rule: mm.induct)
  case (1 k i w m)
  then show ?case by force
next
  case (2 k fs i w m)
  then show ?case by (intro sound_skip) simp_all
next
  case (3 k a fs i m)
  then show ?case by simp
next
  case (4 k a fs i c w m)
  then obtain s u where "atom_ok a c" "k s = Some z" "w = u @ rest s" "pos s = Suc i + length u" "fmatch fs u"
    by (auto split: if_splits)
  then show ?case
    using fmatch_FRe_intro [of "Atom a" "[c]" fs u] by (intro exI [of _ s] exI [of _ "c # u"]) simp
next
  case (5 k r1 r2 fs i w m)
  then obtain s u1 u2 u3 where "k s = Some z" "w = u1 @ u2 @ u3 @ rest s" "pos s = i + length (u1 @ u2 @ u3)"
      "re_lang r1 u1" "re_lang r2 u2" "fmatch fs u3"
    by (auto simp: fmatch_FRe)
  moreover have "re_lang (Seq r1 r2) (u1 @ u2)"
    using \<open>re_lang r1 u1\<close> \<open>re_lang r2 u2\<close> by (auto simp: re_lang_Seq)
  ultimately show ?case
    using fmatch_FRe_intro [of "Seq r1 r2" "u1 @ u2" fs u3]
    by (intro exI [of _ s] exI [of _ "u1 @ u2 @ u3"]) simp
next
  case (6 k r1 r2 fs i w m)
  then show ?case
    by (auto simp: fmatch_FRe split: option.splits)
next
  case (7 k n r fs i w m)
  then show ?case
    by (auto simp: fmatch_FRe)
next
  case (8 k r fs i w m)
  show ?case
  proof (cases "mm k (FRe r # FCheck i # fs) i w (clear (groups r) m)")
    case None
    with 8 show ?thesis by (intro sound_skip) simp_all
  next
    case (Some y)
    with 8 show ?thesis
      by (auto simp: fmatch_FRe)
  qed
next
  case (9 k a fs i m)
  then show ?case by (intro sound_skip) simp_all
next
  case (10 k a fs i c w m)
  show ?case
  proof (cases "atom_ok a c")
    case ok: True
    show ?thesis
    proof (cases "mm k (FRe (Star a) # fs) (Suc i) w m")
      case None
      with ok 10 show ?thesis by (intro sound_skip) simp_all
    next
      case (Some y)
      with ok 10 obtain s u1 u2 where "k s = Some z" "w = u1 @ u2 @ rest s" "pos s = Suc i + length (u1 @ u2)"
          "list_all (atom_ok a) u1" "fmatch fs u2"
        by (auto simp: fmatch_FRe)
      with ok show ?thesis
        using fmatch_FRe_intro [of "Star a" "c # u1" fs u2]
        by (intro exI [of _ s] exI [of _ "c # u1 @ u2"]) simp
    qed
  next
    case False
    with 10 show ?thesis by (intro sound_skip) simp_all
  qed
next
  case (11 k n j fs i w m)
  then show ?case by (simp add: fun_upd_def)
next
  case (12 k j fs i w m)
  then show ?case by (simp split: if_splits)
qed

lemma fmatch_single: "fmatch [FRe r] u \<longleftrightarrow> re_lang r u"
  by (simp add: fmatch_FRe)

lemma exec_at_sound:
  "exec_at r i w = Some z \<Longrightarrow>
   \<exists>pre u post. w = pre @ u @ post \<and> m_index z = i + length pre \<and> m_end z = m_index z + length u \<and> re_lang r u"
proof (induction w arbitrary: i)
  case Nil
  then obtain s u where "accept i s = Some z" "[] = u @ rest s" "pos s = i + length u" "re_lang r u"
    using mm_sound [of "accept i" "[FRe r]" i "[]" Map.empty z] by (auto simp: exec_at_Nil_mm fmatch_single)
  then show ?case
    by (auto simp: accept_def)
next
  case (Cons c cs)
  show ?case
  proof (cases "mm (accept i) [FRe r] i (c # cs) Map.empty")
    case None
    with Cons.prems have "exec_at r (Suc i) cs = Some z"
      by (simp add: exec_at_Cons_mm)
    from Cons.IH [OF this] obtain pre u post where
      "cs = pre @ u @ post" "m_index z = Suc i + length pre" "m_end z = m_index z + length u" "re_lang r u"
      by blast
    then show ?thesis
      by (intro exI [of _ "c # pre"] exI [of _ u] exI [of _ post]) simp
  next
    case (Some y)
    with Cons.prems have "mm (accept i) [FRe r] i (c # cs) Map.empty = Some z"
      by (simp add: exec_at_Cons_mm)
    then obtain s u where "accept i s = Some z" "c # cs = u @ rest s" "pos s = i + length u" "re_lang r u"
      using mm_sound [of "accept i" "[FRe r]" i "c # cs" Map.empty z] by (auto simp: fmatch_single)
    then show ?thesis
      by (intro exI [of _ "[]"] exI [of _ u] exI [of _ "rest s"]) (auto simp: accept_def)
  qed
qed

lemma min_count_le: "re_lang r u \<Longrightarrow> min_count c r \<le> count_list u c"
proof (induction r arbitrary: u)
  case (Atom a)
  then show ?case
    by (cases a; cases u rule: remdups_adj.cases) auto
next
  case (Seq r1 r2)
  then show ?case
    by (fastforce simp: re_lang_Seq)
next
  case (Alt r1 r2)
  then show ?case
    by (auto intro: min.coboundedI1 min.coboundedI2)
qed auto

lemma count_list_infix: "count_list (take n (drop m w)) c \<le> count_list w c"
proof -
  have "count_list (take n (drop m w)) c \<le> count_list (drop m w) c"
    by (metis append_take_drop_id count_list_append le_add1)
  also have "\<dots> \<le> count_list w c"
    by (metis append_take_drop_id count_list_append le_add2)
  finally show ?thesis .
qed

lemma str_match_sound_aux:
  "str_match r w = Some z \<Longrightarrow>
   \<exists>pre u post. w = pre @ u @ post \<and> m_index z = length pre \<and> m_end z = m_index z + length u \<and> re_lang r u"
  using exec_at_sound [of r 0 w z] by (simp add: str_match_def)

text \<open>A pattern that needs more occurrences of a character than the input has never matches.\<close>

lemma str_match_min_count:
  assumes "count_list w c < min_count c r"
  shows "str_match r w = None"
proof (rule ccontr)
  assume "str_match r w \<noteq> None"
  then obtain z where "str_match r w = Some z" by blast
  from str_match_sound_aux [OF this] obtain pre u post where "w = pre @ u @ post" "re_lang r u"
    by blast
  then have "min_count c r \<le> count_list w c"
    using min_count_le [of r u c] by simp
  with assms show False by simp
qed

text \<open>
  Soundness of the regular-expression engine: a match that \<^verbatim>\<open>String.prototype.match\<close>
  returns lies within the input, and the substring it spans is a word of the pattern's
  language.
\<close>

theorem str_match_sound:
  assumes "str_match r w = Some z"
  shows "m_index z \<le> m_end z \<and> m_end z \<le> length w \<and> re_lang r (take (m_end z - m_index z) (drop (m_index z) w))"
  using str_match_sound_aux [OF assms] by auto

lemma str_match_sound_example:
  "str_match (seqs [lit ''jdk-'', Group 1 (plus_re (Cls [(CHR ''0'', CHR ''9'')]))]) ''openjdk-11+28'' =
     Some \<lparr>m_index = 4, m_end = 10, m_caps = [1 \<mapsto> (8, 10)]\<rparr> \<and>
   re_lang (seqs [lit ''jdk-'', Group 1 (plus_re (Cls [(CHR ''0'', CHR ''9'')]))]) ''jdk-11''"
proof -
  have m: "str_match (seqs [lit ''jdk-'', Group 1 (plus_re (Cls [(CHR ''0'', CHR ''9'')]))]) ''openjdk-11+28'' =
     Some \<lparr>m_index = 4, m_end = 10, m_caps = [1 \<mapsto> (8, 10)]\<rparr>"
    by (simp add: str_match_def accept_def plus_re_def in_range_def clear_def js_simps eval_nat_numeral)
  show ?thesis
    using m str_match_sound [OF m] by simp
qed

lemma re_lang_Atom: "re_lang (Atom a) u \<longleftrightarrow> (\<exists>x. u = [x] \<and> atom_ok a x)"
  by (cases u rule: remdups_adj.cases) auto

lemma re_lang_lit: "re_lang (lit u) s \<longleftrightarrow> s = u"
  by (induction u arbitrary: s) (simp_all add: re_lang_Seq re_lang_Atom del: re_lang.simps(2))

text \<open>A pattern that starts with a literal only matches inputs that contain it.\<close>

lemma str_match_lit_sublist:
  assumes "str_match (Seq (lit u) r) w = Some z"
  shows "sublist u w"
proof -
  obtain pre v post where "w = pre @ v @ post" "re_lang (Seq (lit u) r) v"
    using str_match_sound_aux [OF assms] by blast
  then obtain v2 where "w = pre @ u @ v2 @ post"
    by (auto simp: re_lang_Seq re_lang_lit)
  then show ?thesis
    by (metis append.assoc sublist_appendI)
qed

lemma str_match_Seq_sublist:
  assumes "str_match (Seq r1 r2) w = Some z"
  shows "\<exists>u1 u2. sublist (u1 @ u2) w \<and> re_lang r1 u1 \<and> re_lang r2 u2"
proof -
  obtain pre v post where "w = pre @ v @ post" "re_lang (Seq r1 r2) v"
    using str_match_sound_aux [OF assms] by blast
  then show ?thesis
    by (auto simp: re_lang_Seq)
qed

lemma re_lang_plus_re: "re_lang (plus_re a) u \<longleftrightarrow> u \<noteq> [] \<and> list_all (atom_ok a) u"
proof
  assume "re_lang (plus_re a) u"
  then show "u \<noteq> [] \<and> list_all (atom_ok a) u"
    by (auto simp: plus_re_def re_lang_Seq re_lang_Atom simp del: re_lang.simps(2))
next
  assume "u \<noteq> [] \<and> list_all (atom_ok a) u"
  then obtain x u2 where "u = [x] @ u2" "atom_ok a x" "list_all (atom_ok a) u2"
    by (cases u) auto
  then show "re_lang (plus_re a) u"
    unfolding plus_re_def re_lang_Seq
    by (intro exI [of _ "[x]"] exI [of _ u2]) (simp add: re_lang_Atom del: re_lang.simps(2))
qed

subsection \<open>Longer inputs\<close>

text \<open>
  A search that succeeds on an input succeeds on every extension of it: the successful
  path of the backtracking matcher is still available, since the patterns are not
  anchored at the end and the continuation of a search accepts any rest.
\<close>

lemma mm_append_input:
  "(\<forall>s. k s \<noteq> None) \<Longrightarrow> mm k fs i w m \<noteq> None \<Longrightarrow> mm k fs i (w @ x) m \<noteq> None"
proof (induction k fs i w m rule: mm.induct)
  case (9 k a fs i m)
  then show ?case
    by (cases x) (auto split: option.split)
next
  case (10 k a fs i c w m)
  then show ?case
    by (auto split: if_splits option.splits)
qed (auto split: if_splits option.splits)

lemma exec_at_append_input: "exec_at r i w \<noteq> None \<Longrightarrow> exec_at r i (w @ x) \<noteq> None"
proof (induction w arbitrary: i)
  case Nil
  have acc: "\<forall>s. accept i s \<noteq> None"
    by (simp add: accept_def)
  from Nil have "mm (accept i) [FRe r] i [] Map.empty \<noteq> None"
    by (simp add: exec_at_Nil_mm)
  from mm_append_input [OF acc this, of x] show ?case
    by (cases x) (auto simp: exec_at_Nil_mm exec_at_Cons_mm split: option.split)
next
  case (Cons c w)
  have acc: "\<forall>s. accept i s \<noteq> None"
    by (simp add: accept_def)
  show ?case
  proof (cases "mm (accept i) [FRe r] i (c # w) Map.empty")
    case None
    with Cons show ?thesis
      by (simp add: exec_at_Cons_mm split: option.split)
  next
    case (Some z)
    then have "mm (accept i) [FRe r] i ((c # w) @ x) Map.empty \<noteq> None"
      using mm_append_input [OF acc, of "[FRe r]" i "c # w" Map.empty x] by simp
    then show ?thesis
      by (auto simp: exec_at_Cons_mm split: option.split)
  qed
qed

lemma str_match_append_input: "str_match r w \<noteq> None \<Longrightarrow> str_match r (w @ x) \<noteq> None"
  by (simp add: str_match_def exec_at_append_input)

end
