(* ===== verification/FileNames.thy ===== *)
theory FileNames
  imports FileInfo RegexLang
begin

text \<open>
  The asset-naming conventions that the three parsers of \<^verbatim>\<open>src/app/routes/v2.js\<close>
  (\<^verbatim>\<open>getNewStyleFileInfo\<close>, \<^verbatim>\<open>getOldStyleFileInfo\<close>, \<^verbatim>\<open>getAmberStyleFileInfo\<close>)
  are written for, as printers from the fields to a file name, and the round trips:
  each parser reads back the fields from the name printed from them. The stage lemmas
  run the stack machine \<open>mm\<close> over one part of a pattern at a time.
\<close>

subsection \<open>Printed names\<close>

record tstamp =
  ts_year :: string
  ts_month :: string
  ts_day :: string
  ts_hour :: string
  ts_minute :: string

definition digits_n :: "nat \<Rightarrow> string \<Rightarrow> bool" where
  "digits_n n s \<longleftrightarrow> length s = n \<and> list_all is_digit s"

definition tstamp_ok :: "tstamp \<Rightarrow> bool" where
  "tstamp_ok t \<longleftrightarrow> digits_n 4 (ts_year t) \<and> digits_n 2 (ts_month t) \<and> digits_n 2 (ts_day t) \<and>
     digits_n 2 (ts_hour t) \<and> digits_n 2 (ts_minute t)"

text \<open>The new convention writes \<^verbatim>\<open>YYYY-MM-DD-hh-mm\<close>, the old one \<^verbatim>\<open>YYYYMMDDhhmm\<close>.\<close>

definition new_tstamp :: "tstamp \<Rightarrow> string" where
  "new_tstamp t = ts_year t @ ''-'' @ ts_month t @ ''-'' @ ts_day t @ ''-'' @ ts_hour t @ ''-'' @ ts_minute t"

definition old_tstamp :: "tstamp \<Rightarrow> string" where
  "old_tstamp t = ts_year t @ ts_month t @ ts_day t @ ts_hour t @ ts_minute t"

definition ext_ok :: "string \<Rightarrow> bool" where
  "ext_ok e \<longleftrightarrow> e = ''tar.gz'' \<or> e = ''zip''"

definition number_ok :: "string \<Rightarrow> bool" where
  "number_ok s \<longleftrightarrow> s \<noteq> [] \<and> list_all is_digit s"

definition word_ok :: "string \<Rightarrow> bool" where
  "word_ok s \<longleftrightarrow> s \<noteq> [] \<and> list_all is_alnum s"

text \<open>
  Free text the \<^verbatim>\<open>.*\<close> of the patterns skips: no line end, and not starting with a
  letter or digit (which the greedy group before it would take).
\<close>

definition filler_ok :: "string \<Rightarrow> bool" where
  "filler_ok f \<longleftrightarrow> list_all (atom_ok AnyChar) f \<and> (f = [] \<or> \<not> is_alnum (hd f))"

definition new_style_name ::
    "string \<Rightarrow> bool \<Rightarrow> bool \<Rightarrow> string \<Rightarrow> string \<Rightarrow> string \<Rightarrow> string \<Rightarrow> tstamp \<Rightarrow> string \<Rightarrow> string" where
  "new_style_name v u jre arch os impl f t e =
     ''OpenJDK'' @ v @ (if u then ''U'' else []) @ (if jre then ''-jre'' else []) @ ''_'' @ arch @ ''_'' @
     os @ ''_'' @ impl @ f @ ''_'' @ new_tstamp t @ ''.'' @ e"

definition old_style_name ::
    "string \<Rightarrow> bool \<Rightarrow> string option \<Rightarrow> string \<Rightarrow> string \<Rightarrow> string \<Rightarrow> tstamp \<Rightarrow> string \<Rightarrow> string" where
  "old_style_name v u g arch os f t e =
     ''OpenJDK'' @ v @ (if u then ''U'' else []) @ (case g of None \<Rightarrow> [] | Some s \<Rightarrow> ''-'' @ s) @ ''_'' @
     arch @ ''_'' @ os @ f @ ''_'' @ old_tstamp t @ ''.'' @ e"

definition amber_style_name :: "string \<Rightarrow> string \<Rightarrow> tstamp \<Rightarrow> string \<Rightarrow> string" where
  "amber_style_name arch os t e = ''OpenJDK-AMBER_'' @ arch @ ''_'' @ os @ ''_'' @ old_tstamp t @ ''.'' @ e"

definition amber_tag :: "string \<Rightarrow> string \<Rightarrow> string" where
  "amber_tag v r = ''jdk-'' @ v @ r"

subsection \<open>Character classes and printed parts\<close>

lemma atom_ok_digit_cls_eq [simp]: "atom_ok digit_cls = is_digit"
  and atom_ok_alnum_cls_eq [simp]: "atom_ok alnum_cls = is_alnum"
  by (auto simp: fun_eq_iff digit_cls_def alnum_cls_def in_range_def is_alnum_def is_digit_def
    is_upper_def is_lower_def)

lemmas char_class_defs = is_alnum_def is_digit_def is_upper_def is_lower_def

lemma digit_not_line_end: "is_digit c \<Longrightarrow> atom_ok AnyChar c"
  by (auto simp: is_digit_def)

lemma length_new_tstamp: "tstamp_ok t \<Longrightarrow> length (new_tstamp t) = 16"
  and length_old_tstamp: "tstamp_ok t \<Longrightarrow> length (old_tstamp t) = 12"
  by (simp_all add: tstamp_ok_def digits_n_def new_tstamp_def old_tstamp_def)

lemma tstamp_chars:
  assumes "tstamp_ok t"
  shows "list_all (atom_ok AnyChar) (new_tstamp t)" "CHR ''_'' \<notin> set (new_tstamp t)"
    "list_all (atom_ok AnyChar) (old_tstamp t)" "CHR ''_'' \<notin> set (old_tstamp t)"
  using assms
  by (auto simp: tstamp_ok_def digits_n_def new_tstamp_def old_tstamp_def list_all_iff
    digit_not_line_end is_digit_def)

lemma ext_chars:
  assumes "ext_ok e"
  shows "list_all (atom_ok AnyChar) e" "CHR ''_'' \<notin> set e"
  using assms by (auto simp: ext_ok_def)

subsection \<open>Stages of a match\<close>

lemma mm_new_timestamp:
  assumes "tstamp_ok t"
  shows "mm k (FRe new_timestamp_re # FClose g i # fs) i (new_tstamp t @ w) m =
         mm k fs (i + length (new_tstamp t)) w (m(g \<mapsto> (i, i + length (new_tstamp t))))"
  using assms
  by (simp add: tstamp_ok_def digits_n_def new_tstamp_def new_timestamp_re_def mm_rep add.commute)

lemma mm_old_timestamp:
  assumes "tstamp_ok t"
  shows "mm k (FRe old_timestamp_re # FClose g i # fs) i (old_tstamp t @ w) m =
         mm k fs (i + length (old_tstamp t)) w (m(g \<mapsto> (i, i + length (old_tstamp t))))"
  using assms
  by (simp add: tstamp_ok_def digits_n_def old_tstamp_def old_timestamp_re_def mm_rep add.commute)

lemma mm_extension:
  assumes "ext_ok e" and "atom_ok AnyChar c"
  shows "mm k (FRe (extension_re n) # fs) i (c # e) m =
         mm k fs (i + 1 + length e) [] (m(n \<mapsto> (Suc i, Suc i + length e)))"
  using assms by (auto simp: ext_ok_def extension_re_def split: option.split)

lemma mm_plus_sep:
  assumes "u \<noteq> []" "list_all (atom_ok a) u" "\<not> atom_ok a c"
  shows "mm k (FRe (plus_re a) # FClose n i # FRe (Seq (ch c) r) # fs) i (u @ c # w) m =
         mm k (FRe r # fs) (Suc (i + length u)) w (m(n \<mapsto> (i, i + length u)))"
proof -
  have "\<forall>j x w' m'. atom_ok a x \<longrightarrow> mm k (FRe (Seq (ch c) r) # fs) j (x # w') m' = None"
    using assms(3) by auto
  from mm_group_plus_maximal [OF assms(1,2) _ this, of "c # w"] assms(3) show ?thesis
    by simp
qed

text \<open>The version digits, followed by \<^verbatim>\<open>U?\<close>, an optional \<^verbatim>\<open>-\<close> group and \<^verbatim>\<open>_\<close>.\<close>

lemma mm_version:
  assumes "u \<noteq> []" "list_all is_digit u" "w = [] \<or> \<not> is_digit (hd w)"
  shows "mm k (FRe (plus_re digit_cls) # FClose n i #
            FRe (Seq (Opt (ch CHR ''U'')) (Seq (Opt (Group g (Seq (ch CHR ''-'') r1))) (Seq (ch CHR ''_'') r2))) # fs)
            i (u @ w) m =
         mm k (FRe (Seq (Opt (ch CHR ''U'')) (Seq (Opt (Group g (Seq (ch CHR ''-'') r1))) (Seq (ch CHR ''_'') r2))) # fs)
            (i + length u) w (m(n \<mapsto> (i, i + length u)))"
proof -
  have "\<forall>j x w' m'. atom_ok digit_cls x \<longrightarrow>
     mm k (FRe (Seq (Opt (ch CHR ''U'')) (Seq (Opt (Group g (Seq (ch CHR ''-'') r1))) (Seq (ch CHR ''_'') r2))) # fs)
       j (x # w') m' = None"
    by (auto simp: is_digit_def)
  from mm_group_plus_maximal [OF assms(1) _ _ this] assms(2,3) show ?thesis
    by simp
qed

text \<open>
  The end of both conventions: a greedy alphanumeric group, free text, and
  \<^verbatim>\<open>_TIMESTAMP.EXT\<close>, for a timestamp pattern \<open>tsre\<close> that reads the string \<open>s\<close>.
\<close>

lemma mm_word_ts_tail:
  assumes stage: "\<And>k fs i w m. mm (k :: mstate \<Rightarrow> 'a option) (FRe tsre # FClose g i # fs) i (s @ w) m =
                     mm k fs (i + length s) w (m(g \<mapsto> (i, i + length s)))"
    and "word_ok u" "filler_ok f" "list_all (atom_ok AnyChar) s" "CHR ''_'' \<notin> set s" "ext_ok e"
    and nn: "mm (k :: mstate \<Rightarrow> 'a option) fs (i + length u + length f + length s + length e + 2) []
              (m(n \<mapsto> (i, i + length u), g \<mapsto> (Suc (i + length u + length f), Suc (i + length u + length f + length s)),
                 n' \<mapsto> (i + length u + length f + length s + 2, i + length u + length f + length s + 2 + length e))) \<noteq> None"
  shows "mm k (FRe (plus_re alnum_cls) # FClose n i #
            FRe (Seq (Star AnyChar) (Seq (ch CHR ''_'') (Seq (Group g tsre) (Seq (extension_re n') Empty)))) # fs)
            i (u @ f @ CHR ''_'' # s @ CHR ''.'' # e) m =
         mm k fs (i + length u + length f + length s + length e + 2) []
              (m(n \<mapsto> (i, i + length u), g \<mapsto> (Suc (i + length u + length f), Suc (i + length u + length f + length s)),
                 n' \<mapsto> (i + length u + length f + length s + 2, i + length u + length f + length s + 2 + length e)))"
    (is "_ = ?rhs")
proof -
  let ?m1 = "m(n \<mapsto> (i, i + length u))"
  let ?R = "Seq (Group g tsre) (Seq (extension_re n') Empty)"
  have c0: "mm k (FRe ?R # fs) (Suc (i + length u + length f)) (s @ CHR ''.'' # e) ?m1 =
     mm k (FRe (Seq (extension_re n') Empty) # fs) (Suc (i + length u + length f) + length s) (CHR ''.'' # e)
       (?m1(g \<mapsto> (Suc (i + length u + length f), Suc (i + length u + length f) + length s)))"
    by (simp only: mm.simps(5,7) stage)
  have c1: "mm k (FRe ?R # fs) (Suc (i + length u + length f)) (s @ CHR ''.'' # e) ?m1 = ?rhs"
    unfolding c0 using assms(6) by (simp add: mm_extension ac_simps)
  have chars: "list_all (atom_ok AnyChar) (f @ CHR ''_'' # s @ CHR ''.'' # e)" "CHR ''_'' \<notin> set (s @ CHR ''.'' # e)"
    using assms(3-6) ext_chars by (auto simp: filler_ok_def)
  have c2: "mm k (FRe (Seq (Star AnyChar) (Seq (ch CHR ''_'') ?R)) # fs) (i + length u) (f @ CHR ''_'' # s @ CHR ''.'' # e) ?m1 = ?rhs"
    unfolding mm.simps(5) by (subst mm_star_skip_sep_last [OF chars]) (use c1 nn in simp_all)
  have u: "u \<noteq> []" "list_all (atom_ok alnum_cls) u"
    using assms(2) by (simp_all add: word_ok_def)
  have t: "f @ CHR ''_'' # s @ CHR ''.'' # e = [] \<or> \<not> atom_ok alnum_cls (hd (f @ CHR ''_'' # s @ CHR ''.'' # e))"
    using assms(3) by (cases f) (simp_all add: filler_ok_def char_class_defs)
  have "mm k (FRe (Seq (Star AnyChar) (Seq (ch CHR ''_'') ?R)) # fs) (i + length u) (f @ CHR ''_'' # s @ CHR ''.'' # e) ?m1 \<noteq> None"
    unfolding c2 by (rule nn)
  from trans [OF mm_group_plus_eq [OF u t this] c2] show ?thesis .
qed

text \<open>
  The optional group \<^verbatim>\<open>(-[0-9a-zA-Z]+)?\<close> of the old convention after its
  \<^verbatim>\<open>-\<close>: the word, then the check that the option did not match empty.
\<close>

lemma mm_dash_word:
  assumes "word_ok s" "j \<le> i"
  shows "mm k (FRe (plus_re alnum_cls) # FClose n j # FCheck j # FRe (Seq (ch CHR ''_'') r) # fs)
            i (s @ CHR ''_'' # w) m =
         mm k (FRe r # fs) (Suc (i + length s)) w (m(n \<mapsto> (j, i + length s)))"
proof -
  have "\<forall>j' x w'. atom_ok alnum_cls x \<longrightarrow>
      mm k (FClose n j # FCheck j # FRe (Seq (ch CHR ''_'') r) # fs) j' (x # w') m = None"
    by (auto simp: char_class_defs)
  then have "mm k (FRe (plus_re alnum_cls) # FClose n j # FCheck j # FRe (Seq (ch CHR ''_'') r) # fs)
      i (s @ CHR ''_'' # w) m =
    mm k (FClose n j # FCheck j # FRe (Seq (ch CHR ''_'') r) # fs) (i + length s) (CHR ''_'' # w) m"
    using assms(1) by (intro mm_plus_maximal) (simp_all add: word_ok_def char_class_defs)
  moreover have "i + length s \<noteq> j"
    using assms by (cases s) (auto simp: word_ok_def)
  ultimately show ?thesis
    by simp
qed

lemmas name_stages = mm_version mm_plus_sep mm_group_plus_eq mm_star_skip_sep_last
  mm_new_timestamp mm_old_timestamp mm_extension

subsection \<open>Round trips\<close>

lemma str_match_mm_eq:
  "mm (accept 0) [FRe r] 0 w Map.empty \<noteq> None \<Longrightarrow> str_match r w = mm (accept 0) [FRe r] 0 w Map.empty"
  by (cases w) (auto simp: str_match_def exec_at_Nil_mm exec_at_Cons_mm)

lemma new_style_mm:
  assumes "number_ok v" "word_ok arch" "word_ok os" "word_ok impl" "filler_ok f" "tstamp_ok t" "ext_ok e"
  shows "mm (accept 0) [FRe new_style_re] 0 (new_style_name v u jre arch os impl f t e) Map.empty \<noteq> None"
  using assms tstamp_chars [OF assms(6)]
  by (cases u; cases jre) (simp_all add: new_style_re_def new_style_name_def number_ok_def word_ok_def
      mm_version mm_plus_sep mm_word_ts_tail [OF mm_new_timestamp] accept_def char_class_defs)

text \<open>The match of a new-style name and what its seven groups capture.\<close>

lemma new_style_name_caps:
  assumes "number_ok v" "word_ok arch" "word_ok os" "word_ok impl" "filler_ok f" "tstamp_ok t" "ext_ok e"
  obtains m where "str_match new_style_re (new_style_name v u jre arch os impl f t e) = Some m"
    "cap (new_style_name v u jre arch os impl f t e) m 1 = Some v"
    "(cap (new_style_name v u jre arch os impl f t e) m 2 \<noteq> None) = jre"
    "cap (new_style_name v u jre arch os impl f t e) m 3 = Some arch"
    "cap (new_style_name v u jre arch os impl f t e) m 4 = Some os"
    "cap (new_style_name v u jre arch os impl f t e) m 5 = Some impl"
    "cap (new_style_name v u jre arch os impl f t e) m 6 = Some (new_tstamp t)"
    "cap (new_style_name v u jre arch os impl f t e) m 7 = Some e"
proof -
  have sm: "str_match new_style_re (new_style_name v u jre arch os impl f t e) =
      mm (accept 0) [FRe new_style_re] 0 (new_style_name v u jre arch os impl f t e) Map.empty"
    by (rule str_match_mm_eq [OF new_style_mm [OF assms]])
  show ?thesis
    using assms tstamp_chars [OF assms(6)] that unfolding sm
    by (cases u; cases jre) (simp_all add: new_style_re_def new_style_name_def number_ok_def word_ok_def
      mm_version mm_plus_sep mm_word_ts_tail [OF mm_new_timestamp] accept_def char_class_defs
      cap_def clear_def numeral_eq_Suc length_new_tstamp ext_ok_def)
qed

lemma old_style_mm:
  assumes "number_ok v" "case g of None \<Rightarrow> True | Some s \<Rightarrow> word_ok s" "word_ok arch" "word_ok os"
    "filler_ok f" "tstamp_ok t" "ext_ok e"
  shows "mm (accept 0) [FRe old_style_re] 0 (old_style_name v u g arch os f t e) Map.empty \<noteq> None"
  using assms tstamp_chars [OF assms(6)]
  by (cases u; cases g) (simp_all add: old_style_re_def old_style_name_def number_ok_def word_ok_def
      mm_version mm_plus_sep mm_dash_word mm_word_ts_tail [OF mm_old_timestamp] accept_def char_class_defs)

lemma amber_style_mm:
  assumes "word_ok arch" "word_ok os" "tstamp_ok t" "ext_ok e"
  shows "mm (accept 0) [FRe amber_style_re] 0 (amber_style_name arch os t e) Map.empty \<noteq> None"
  using assms
  by (simp add: amber_style_re_def amber_style_name_def word_ok_def mm_plus_sep mm_old_timestamp
      mm_extension accept_def char_class_defs)

lemma amber_tag_mm:
  assumes "number_ok v" "r = [] \<or> \<not> is_digit (hd r)"
  shows "mm (accept 0) [FRe amber_tag_re] 0 (amber_tag v r) Map.empty \<noteq> None"
  using assms
  by (simp add: amber_tag_re_def amber_tag_def number_ok_def mm_group_plus_eq mm_star_accept)

text \<open>The match of an old-style name and what its six groups capture.\<close>

lemma old_style_name_caps:
  assumes "number_ok v" "case g of None \<Rightarrow> True | Some s \<Rightarrow> word_ok s" "word_ok arch" "word_ok os"
    "filler_ok f" "tstamp_ok t" "ext_ok e"
  obtains m where "str_match old_style_re (old_style_name v u g arch os f t e) = Some m"
    "cap (old_style_name v u g arch os f t e) m 1 = Some v"
    "cap (old_style_name v u g arch os f t e) m 2 = map_option (\<lambda>s. ''-'' @ s) g"
    "cap (old_style_name v u g arch os f t e) m 3 = Some arch"
    "cap (old_style_name v u g arch os f t e) m 4 = Some os"
    "cap (old_style_name v u g arch os f t e) m 5 = Some (old_tstamp t)"
    "cap (old_style_name v u g arch os f t e) m 6 = Some e"
proof -
  have sm: "str_match old_style_re (old_style_name v u g arch os f t e) =
      mm (accept 0) [FRe old_style_re] 0 (old_style_name v u g arch os f t e) Map.empty"
    by (rule str_match_mm_eq [OF old_style_mm [OF assms]])
  show ?thesis
    using assms tstamp_chars [OF assms(6)] that unfolding sm
    by (cases u; cases g) (simp_all add: old_style_re_def old_style_name_def number_ok_def word_ok_def
      mm_version mm_plus_sep mm_dash_word mm_word_ts_tail [OF mm_old_timestamp] accept_def char_class_defs
      cap_def clear_def numeral_eq_Suc length_old_tstamp ext_ok_def)
qed

text \<open>
  A name the new convention accepts has at least four dashes (those of its timestamp);
  an old-style name has at most one besides those of its free text.
\<close>

lemma getNewStyleFileInfo_few_dashes:
  assumes "count_list nm CHR ''-'' < 4"
  shows "getNewStyleFileInfo nm = None"
proof -
  have "min_count CHR ''-'' new_style_re = 4"
    by (simp add: new_style_re_def new_timestamp_re_def extension_re_def plus_re_def rep_numeral
      digit_cls_def alnum_cls_def)
  with assms have "str_match new_style_re nm = None"
    by (intro str_match_min_count [where c = "CHR ''-''"]) simp
  then show ?thesis
    by (simp add: getNewStyleFileInfo_def)
qed

lemma count_list_no_dash:
  "list_all is_alnum s \<Longrightarrow> count_list s CHR ''-'' = 0"
  by (induction s) (auto simp: char_class_defs)

lemma count_list_old_style_name:
  assumes "number_ok v" "case g of None \<Rightarrow> True | Some s \<Rightarrow> word_ok s" "word_ok arch" "word_ok os"
    "tstamp_ok t" "ext_ok e"
  shows "count_list (old_style_name v u g arch os f t e) CHR ''-'' =
    (case g of None \<Rightarrow> 0 | Some s \<Rightarrow> 1) + count_list f CHR ''-''"
proof -
  have digits: "list_all is_alnum s" if "list_all is_digit s" for s
    using that by (induction s) (simp_all add: is_alnum_def)
  have "list_all is_alnum v" "list_all is_alnum (old_tstamp t)"
    using assms(1,5) digits by (auto simp: number_ok_def tstamp_ok_def digits_n_def old_tstamp_def)
  then show ?thesis
    using assms(2-4,6)
    by (cases g) (auto simp: old_style_name_def word_ok_def ext_ok_def count_list_no_dash)
qed

text \<open>Every naming convention starts with the literal \<^verbatim>\<open>OpenJDK\<close>.\<close>

lemma parsers_OpenJDK:
  shows "getNewStyleFileInfo nm \<noteq> None \<Longrightarrow> sublist ''OpenJDK'' nm"
    and "getOldStyleFileInfo nm \<noteq> None \<Longrightarrow> sublist ''OpenJDK'' nm"
    and "getAmberStyleFileInfo nm rel \<noteq> None \<Longrightarrow> sublist ''OpenJDK'' nm"
proof -
  obtain r1 where r1: "new_style_re = Seq (lit ''OpenJDK'') r1"
    unfolding new_style_re_def seqs.simps(2) by blast
  obtain r2 where r2: "old_style_re = Seq (lit ''OpenJDK'') r2"
    unfolding old_style_re_def seqs.simps(2) by blast
  obtain r3 where r3: "amber_style_re = Seq (lit ''OpenJDK-AMBER_'') r3"
    unfolding amber_style_re_def seqs.simps(2) by blast
  have amber: "sublist ''OpenJDK'' ''OpenJDK-AMBER_''"
    by (rule prefix_imp_sublist) simp
  show "getNewStyleFileInfo nm \<noteq> None \<Longrightarrow> sublist ''OpenJDK'' nm"
    using str_match_lit_sublist [of "''OpenJDK''" r1 nm]
    by (auto simp: getNewStyleFileInfo_def r1 split: option.splits)
  show "getOldStyleFileInfo nm \<noteq> None \<Longrightarrow> sublist ''OpenJDK'' nm"
    using str_match_lit_sublist [of "''OpenJDK''" r2 nm]
    by (auto simp: getOldStyleFileInfo_def r2 split: option.splits)
  show "getAmberStyleFileInfo nm rel \<noteq> None \<Longrightarrow> sublist ''OpenJDK'' nm"
    using str_match_lit_sublist [of "''OpenJDK-AMBER_''" r3 nm] sublist_order.order.trans [OF amber]
    by (auto simp: getAmberStyleFileInfo_def r3 split: option.splits)
qed

text \<open>
  The old convention needs \<^verbatim>\<open>OpenJDK\<close> followed by a version digit, which an
  Amber name lacks; the new convention needs four dashes, and an Amber name has one.
\<close>

lemma str_match_OpenJDK_digit:
  assumes "str_match (Seq (lit ''OpenJDK'') (Seq (Group n (plus_re digit_cls)) r)) nm = Some z"
  shows "\<exists>d. is_digit d \<and> sublist (''OpenJDK'' @ [d]) nm"
proof -
  from str_match_Seq_sublist [OF assms] obtain u1 u2 where sub: "sublist (u1 @ u2) nm"
    and l1: "re_lang (lit ''OpenJDK'') u1" and l2: "re_lang (Seq (Group n (plus_re digit_cls)) r) u2"
    by blast
  from l1 have "u1 = ''OpenJDK''"
    by (simp only: re_lang_lit)
  moreover from l2 obtain d u3 where "u2 = d # u3" "is_digit d"
    unfolding re_lang_Seq re_lang.simps(5) re_lang_plus_re by (auto simp: neq_Nil_conv)
  ultimately have "sublist (''OpenJDK'' @ d # u3) nm" "is_digit d"
    using sub by simp_all
  moreover have "sublist (''OpenJDK'' @ [d]) (''OpenJDK'' @ d # u3)"
    by (rule prefix_imp_sublist) simp
  ultimately show ?thesis
    using sublist_order.order.trans by blast
qed

lemma getOldStyleFileInfo_needs_digit:
  assumes "getOldStyleFileInfo nm \<noteq> None"
  shows "\<exists>d. is_digit d \<and> sublist (''OpenJDK'' @ [d]) nm"
proof -
  have "\<exists>r. old_style_re = Seq (lit ''OpenJDK'') (Seq (Group 1 (plus_re digit_cls)) r)"
    unfolding old_style_re_def seqs.simps(2) by (rule exI) (rule refl)
  then obtain r where r: "old_style_re = Seq (lit ''OpenJDK'') (Seq (Group 1 (plus_re digit_cls)) r)"
    by blast
  obtain z where "str_match old_style_re nm = Some z"
    using assms by (cases "str_match old_style_re nm") (simp_all add: getOldStyleFileInfo_def)
  then show ?thesis
    unfolding r by (rule str_match_OpenJDK_digit)
qed

lemma getNewStyleFileInfo_needs_digit:
  assumes "getNewStyleFileInfo nm \<noteq> None"
  shows "\<exists>d. is_digit d \<and> sublist (''OpenJDK'' @ [d]) nm"
proof -
  have "\<exists>r. new_style_re = Seq (lit ''OpenJDK'') (Seq (Group 1 (plus_re digit_cls)) r)"
    unfolding new_style_re_def seqs.simps(2) by (rule exI) (rule refl)
  then obtain r where r: "new_style_re = Seq (lit ''OpenJDK'') (Seq (Group 1 (plus_re digit_cls)) r)"
    by blast
  obtain z where "str_match new_style_re nm = Some z"
    using assms by (cases "str_match new_style_re nm") (simp_all add: getNewStyleFileInfo_def)
  then show ?thesis
    unfolding r by (rule str_match_OpenJDK_digit)
qed

lemma getAmberStyleFileInfo_needs_AMBER:
  assumes "getAmberStyleFileInfo nm rel \<noteq> None"
  shows "sublist ''OpenJDK-AMBER_'' nm"
proof -
  have "\<exists>r. amber_style_re = Seq (lit ''OpenJDK-AMBER_'') r"
    unfolding amber_style_re_def seqs.simps(2) by (rule exI) (rule refl)
  then obtain r where r: "amber_style_re = Seq (lit ''OpenJDK-AMBER_'') r"
    by blast
  obtain z where "str_match amber_style_re nm = Some z"
    using assms by (cases "str_match amber_style_re nm") (simp_all add: getAmberStyleFileInfo_def)
  then show ?thesis
    unfolding r by (rule str_match_lit_sublist)
qed

text \<open>A parser that accepts a name accepts every extension of it.\<close>

lemma parsers_append_name:
  shows "getNewStyleFileInfo nm \<noteq> None \<Longrightarrow> getNewStyleFileInfo (nm @ x) \<noteq> None"
    and "getOldStyleFileInfo nm \<noteq> None \<Longrightarrow> getOldStyleFileInfo (nm @ x) \<noteq> None"
    and "getAmberStyleFileInfo nm rel \<noteq> None \<Longrightarrow> getAmberStyleFileInfo (nm @ x) rel \<noteq> None"
proof -
  show "getNewStyleFileInfo nm \<noteq> None \<Longrightarrow> getNewStyleFileInfo (nm @ x) \<noteq> None"
    using str_match_append_input [of new_style_re nm x]
    by (auto simp: getNewStyleFileInfo_def split: option.splits)
  show "getOldStyleFileInfo nm \<noteq> None \<Longrightarrow> getOldStyleFileInfo (nm @ x) \<noteq> None"
    using str_match_append_input [of old_style_re nm x]
    by (auto simp: getOldStyleFileInfo_def Let_def split: option.splits)
  show "getAmberStyleFileInfo nm rel \<noteq> None \<Longrightarrow> getAmberStyleFileInfo (nm @ x) rel \<noteq> None"
    using str_match_append_input [of amber_style_re nm x]
    by (auto simp: getAmberStyleFileInfo_def split: option.splits)
qed

lemma amber_name_no_OpenJDK_digit:
  assumes "is_digit d" "CHR ''O'' \<notin> set arch" "CHR ''O'' \<notin> set os" "tstamp_ok t" "ext_ok e"
  shows "\<not> sublist (''OpenJDK'' @ [d]) (amber_style_name arch os t e)"
proof
  assume sub: "sublist (''OpenJDK'' @ [d]) (amber_style_name arch os t e)"
  have "CHR ''O'' \<notin> set (old_tstamp t)"
    using assms(4) by (auto simp: tstamp_ok_def digits_n_def old_tstamp_def list_all_iff is_digit_def)
  then have rest: "CHR ''O'' \<notin> set (arch @ ''_'' @ os @ ''_'' @ old_tstamp t @ ''.'' @ e)"
    using assms(2,3,5) by (auto simp: ext_ok_def)
  have "d \<noteq> CHR ''-''"
    using assms(1) by (auto simp: is_digit_def)
  with sub have "sublist (''OpenJDK'' @ [d]) (arch @ ''_'' @ os @ ''_'' @ old_tstamp t @ ''.'' @ e)"
    by (simp add: amber_style_name_def sublist_Cons_right)
  from set_mono_sublist [OF this] have "CHR ''O'' \<in> set (arch @ ''_'' @ os @ ''_'' @ old_tstamp t @ ''.'' @ e)"
    by auto
  with rest show False ..
qed

lemma count_list_amber_style_name:
  assumes "word_ok arch" "word_ok os" "tstamp_ok t" "ext_ok e"
  shows "count_list (amber_style_name arch os t e) CHR ''-'' = 1"
proof -
  have "list_all is_alnum (old_tstamp t)"
    using assms(3) by (auto simp: tstamp_ok_def digits_n_def old_tstamp_def list_all_iff is_alnum_def)
  then show ?thesis
    using assms(1,2,4) by (auto simp: amber_style_name_def word_ok_def ext_ok_def count_list_no_dash)
qed

lemma getAmberStyleFileInfo_amber_style_name:
  assumes "number_ok v" "r = [] \<or> \<not> is_digit (hd r)" "tag_name rel = amber_tag v r"
    "word_ok arch" "word_ok os" "tstamp_ok t" "ext_ok e"
  shows "getAmberStyleFileInfo (amber_style_name arch os t e) rel =
    Some \<lparr>fi_version = v, fi_binaryType = ''jdk'', fi_arch = arch, fi_os = os,
          fi_openjdk_impl = ''hotspot'', fi_tstamp = old_tstamp t, fi_extension = e\<rparr>"
proof -
  have sm1: "str_match amber_style_re (amber_style_name arch os t e) =
      mm (accept 0) [FRe amber_style_re] 0 (amber_style_name arch os t e) Map.empty"
    by (rule str_match_mm_eq [OF amber_style_mm [OF assms(4-7)]])
  have sm2: "str_match amber_tag_re (tag_name rel) = mm (accept 0) [FRe amber_tag_re] 0 (amber_tag v r) Map.empty"
    unfolding assms(3) by (rule str_match_mm_eq [OF amber_tag_mm [OF assms(1,2)]])
  show ?thesis
    using assms unfolding getAmberStyleFileInfo_def sm1 sm2
    by (simp add: amber_style_re_def amber_style_name_def amber_tag_re_def amber_tag_def word_ok_def
      number_ok_def mm_plus_sep mm_old_timestamp mm_extension mm_group_plus_eq mm_star_accept accept_def
      char_class_defs cap_def numeral_eq_Suc length_old_tstamp ext_ok_def)
qed

text \<open>An old-style name ends in its extension, never in the checksum suffix.\<close>

lemma old_style_name_not_checksum:
  "ext_ok e \<Longrightarrow> \<not> ends_with (old_style_name v u g arch os f t e) ''sha256.txt''"
  by (auto simp: ends_with_iff_suffix suffix_to_prefix old_style_name_def ext_ok_def)

end
