(* ===== verification/JsQuery.thy ===== *)
theory JsQuery
  imports Handler
begin

text \<open>
  The query of a request as Express hands it to the v2 handler (\<^verbatim>\<open>req.query\<close>, lines
  92--96 of \<^verbatim>\<open>src/app/routes/v2.js\<close>). Express's query parser yields for a parameter a
  string, an array (a repeated key, \<^verbatim>\<open>?os=a&os=b\<close>) or an object
  (\<^verbatim>\<open>?os[a]=b\<close>). The code calls \<^verbatim>\<open>toLowerCase\<close> on the value, which arrays and
  objects lack, so every value that is not a string is one case, \<open>QNonString\<close>. Calling
  it throws a \<^verbatim>\<open>TypeError\<close>: at line 41 for a property filter, whatever the data; at
  line 31, inside the callback of \<^verbatim>\<open>_.filter\<close>, for the release name, so only when some
  release is left. The exception ends the \<^verbatim>\<open>.then\<close> callback, and the \<^verbatim>\<open>.catch\<close>
  callback throws again (line 124), so the request is never answered.

  \<open>filterReleaseOnBinaryProperty_js\<close>, \<open>filterRelease_js\<close>, \<open>on_data_js\<close> and
  \<open>v2_js\<close> are the code's functions on these values; on string values they are the
  functions of \<^theory_text>\<open>QueryFilter\<close> and \<^theory_text>\<open>Handler\<close> (\<open>v2_js_of_query\<close>), so
  what is proved there of string queries holds of the handler.
\<close>

subsection \<open>Query values\<close>

datatype qval = QStr string | QNonString

record js_query =
  jq_openjdkImpl :: "qval option"
  jq_os :: "qval option"
  jq_arch :: "qval option"
  jq_release :: "qval option"
  jq_type :: "qval option"

text \<open>An exception thrown by a statement skips the rest of the callback.\<close>

definition js_bind :: "js_exn + 'a \<Rightarrow> ('a \<Rightarrow> js_exn + 'b) \<Rightarrow> js_exn + 'b" where
  "js_bind x f = (case x of Inl e \<Rightarrow> Inl e | Inr a \<Rightarrow> f a)"

subsection \<open>The filters and the handler on query values\<close>

text \<open>Lines 37--46: \<^verbatim>\<open>property.toLowerCase()\<close> throws on a value that is not a string.\<close>

definition filterReleaseOnBinaryProperty_js ::
  "adopt_release list \<Rightarrow> property_name \<Rightarrow> qval option \<Rightarrow> js_exn + adopt_release list" where
  "filterReleaseOnBinaryProperty_js releases propertyName property =
     (case property of
        None \<Rightarrow> Inr releases
      | Some (QStr p) \<Rightarrow> Inr (filterReleaseOnBinaryProperty releases propertyName (Some p))
      | Some QNonString \<Rightarrow> Inl TypeError)"

text \<open>
  Lines 18--35: a value that is not a string is neither \<^verbatim>\<open>undefined\<close> nor
  \<^verbatim>\<open>'latest'\<close>, so it reaches \<^verbatim>\<open>_.filter\<close>, whose callback throws at the first release.
\<close>

definition filterRelease_js :: "adopt_release list \<Rightarrow> qval option \<Rightarrow> js_exn + release_data" where
  "filterRelease_js releases releaseName =
     (case releaseName of
        None \<Rightarrow> Inr (filterRelease releases None)
      | Some (QStr n) \<Rightarrow> Inr (filterRelease releases (Some n))
      | Some QNonString \<Rightarrow> (if releases = [] then Inr (RList []) else Inl TypeError))"

text \<open>The \<^verbatim>\<open>.then\<close> callback, lines 99--116.\<close>

definition on_data_js :: "string \<Rightarrow> js_query \<Rightarrow> gh_release list \<Rightarrow> js_exn + response" where
  "on_data_js rt q githubData =
     js_bind (filterReleaseOnBinaryProperty_js (githubDataToAdoptApi githubData) P_openjdk_impl (jq_openjdkImpl q))
       (\<lambda>data. js_bind (filterReleaseOnBinaryProperty_js data P_os (jq_os q))
       (\<lambda>data. js_bind (filterReleaseOnBinaryProperty_js data P_architecture (jq_arch q))
       (\<lambda>data. js_bind (filterReleaseOnBinaryProperty_js data P_binaryType (jq_type q))
       (\<lambda>data. js_bind (filterRelease_js data (jq_release q))
       (\<lambda>data. if rt = ''info'' then sendData data
               else if rt = ''binary'' then redirectToBinary data
               else Inr not_found)))))"

text \<open>The exported handler, lines 81--128.\<close>

definition v2_js :: "fetch \<Rightarrow> route_params \<Rightarrow> js_query \<Rightarrow> response" where
  "v2_js fetch rp q =
     (case (requestType rp, buildtype rp, route_version rp) of
        (Some rt, Some bt, Some ver) \<Rightarrow>
          (case js_bind (case fetch ver bt of Inl e \<Rightarrow> Inl (Rejected e) | Inr data \<Rightarrow> Inr data) (on_data_js rt q) of
             Inl err \<Rightarrow> on_error err
           | Inr resp \<Rightarrow> resp)
      | _ \<Rightarrow> not_found)"

subsection \<open>String queries\<close>

definition str_of :: "qval option \<Rightarrow> string option" where
  "str_of v = (case v of Some (QStr s) \<Rightarrow> Some s | _ \<Rightarrow> None)"

text \<open>The string values of a query, and a string query as Express delivers it.\<close>

definition query_of :: "js_query \<Rightarrow> query_params" where
  "query_of q = \<lparr>q_openjdkImpl = str_of (jq_openjdkImpl q), q_os = str_of (jq_os q), q_arch = str_of (jq_arch q),
     q_release = str_of (jq_release q), q_type = str_of (jq_type q)\<rparr>"

definition js_of_query :: "query_params \<Rightarrow> js_query" where
  "js_of_query q = \<lparr>jq_openjdkImpl = map_option QStr (q_openjdkImpl q), jq_os = map_option QStr (q_os q),
     jq_arch = map_option QStr (q_arch q), jq_release = map_option QStr (q_release q),
     jq_type = map_option QStr (q_type q)\<rparr>"

text \<open>A property filter of the query is given a value that is not a string.\<close>

definition nonstring_filter :: "js_query \<Rightarrow> bool" where
  "nonstring_filter q \<longleftrightarrow>
     list_ex (\<lambda>v. v = Some QNonString) [jq_openjdkImpl q, jq_os q, jq_arch q, jq_type q]"

subsection \<open>Lemmas\<close>

lemma js_bind_Inl [simp]: "js_bind (Inl e) f = Inl e"
  and js_bind_Inr [simp]: "js_bind (Inr a) f = f a"
  by (simp_all add: js_bind_def)

lemma filterReleaseOnBinaryProperty_js_str:
  "v \<noteq> Some QNonString \<Longrightarrow>
   filterReleaseOnBinaryProperty_js rs pn v = Inr (filterReleaseOnBinaryProperty rs pn (str_of v))"
  by (auto simp: filterReleaseOnBinaryProperty_js_def str_of_def split: option.split qval.split)

lemma filterReleaseOnBinaryProperty_js_nonstring [simp]:
  "filterReleaseOnBinaryProperty_js rs pn (Some QNonString) = Inl TypeError"
  by (simp add: filterReleaseOnBinaryProperty_js_def)

lemma js_bind_filter_throw [simp]:
  "js_bind (filterReleaseOnBinaryProperty_js rs pn v) (\<lambda>d. Inl TypeError) = Inl TypeError"
  by (simp add: filterReleaseOnBinaryProperty_js_def js_bind_def split: option.split qval.split)

text \<open>The callback on a query: a non-string filter value throws; otherwise the string callback.\<close>

lemma on_data_js_eq:
  "on_data_js rt q data =
     (if nonstring_filter q then Inl TypeError
      else if jq_release q = Some QNonString
      then (if property_filters (query_of q) data = [] then
              (if rt = ''info'' then sendData (RList [])
               else if rt = ''binary'' then redirectToBinary (RList []) else Inr not_found)
            else Inl TypeError)
      else on_data rt (query_of q) data)"
  by (auto simp: on_data_js_def nonstring_filter_def filterReleaseOnBinaryProperty_js_str query_of_def
      property_filters_def on_data_def filterRelease_js_def str_of_def Let_def
      split: option.split qval.split)

lemma query_of_js_of_query [simp]: "query_of (js_of_query q) = q"
  by (cases "q_openjdkImpl q"; cases "q_os q"; cases "q_arch q"; cases "q_release q"; cases "q_type q")
    (simp_all add: query_of_def js_of_query_def str_of_def)

lemma nonstring_js_of_query [simp]:
  "\<not> nonstring_filter (js_of_query q)" "jq_release (js_of_query q) \<noteq> Some QNonString"
  by (auto simp: nonstring_filter_def js_of_query_def)

text \<open>On string queries the handler is the one of \<^theory_text>\<open>Handler\<close>.\<close>

lemma v2_js_of_query: "v2_js fetch rp (js_of_query q) = v2 fetch rp q"
  by (simp add: v2_js_def v2_def on_data_js_eq split: option.split sum.split)

lemma str_of_latest: "str_of v = Some ''latest'' \<longleftrightarrow> v = Some (QStr ''latest'')"
  by (auto simp: str_of_def split: option.split qval.split)

lemma respond_Nil:
  "(if rt = ''info'' then sendData (RList []) else if rt = ''binary'' then redirectToBinary (RList [])
    else Inr not_found) = Inr not_found"
  by (simp add: sendData_def redirectToBinary_def)

lemma on_data_js_Inl_iff:
  "on_data_js rt q data = Inl e \<longleftrightarrow>
     e = TypeError \<and>
     (nonstring_filter q \<or>
      jq_release q = Some QNonString \<and> property_filters (query_of q) data \<noteq> [] \<or>
      (rt = ''info'' \<or> rt = ''binary'') \<and> jq_release q = Some (QStr ''latest'') \<and>
        property_filters (query_of q) data = [])"
  by (auto simp: on_data_js_eq respond_Nil on_data_Inl_iff query_of_def str_of_latest)

lemma on_data_js_Inr: "on_data_js rt q data = Inr resp \<Longrightarrow> resp \<noteq> NoResponse"
  by (auto simp: on_data_js_eq respond_Nil not_found_def dest: on_data_Inr split: if_splits)

text \<open>The handler sends nothing exactly when the \<^verbatim>\<open>.then\<close> callback throws.\<close>

lemma v2_js_NoResponse_on_data:
  "v2_js fetch rp q = NoResponse \<longleftrightarrow>
     (\<exists>rt bt ver data. requestType rp = Some rt \<and> buildtype rp = Some bt \<and> route_version rp = Some ver \<and>
        fetch ver bt = Inr data \<and> on_data_js rt q data = Inl TypeError)"
proof (cases "\<exists>rt bt ver. requestType rp = Some rt \<and> buildtype rp = Some bt \<and> route_version rp = Some ver")
  case True
  then obtain rt bt ver where p: "requestType rp = Some rt" "buildtype rp = Some bt" "route_version rp = Some ver"
    by blast
  show ?thesis
  proof (cases "fetch ver bt")
    case (Inl e)
    with p show ?thesis
      by (simp add: v2_js_def on_error_Rejected)
  next
    case (Inr data)
    show ?thesis
    proof (cases "on_data_js rt q data")
      case (Inl err)
      with p Inr show ?thesis
        by (auto simp: v2_js_def on_error_NoResponse_iff)
    next
      case (Inr resp)
      with p \<open>fetch ver bt = Inr data\<close> on_data_js_Inr [OF Inr] show ?thesis
        by (simp add: v2_js_def)
    qed
  qed
next
  case False
  then show ?thesis
    by (auto simp: v2_js_def not_found_def split: option.split)
qed

subsection \<open>Properties\<close>

text \<open>
  C1. The route leaves a request unanswered exactly when all route parameters are
  present, the upstream fetch succeeds, and then: a property filter of the query is
  given a value that is not a string (an array or an object), which throws at line 41;
  or the release name is not a string and some release survives the property filters,
  which throws at line 31; or the mode is \<^verbatim>\<open>info\<close> or \<^verbatim>\<open>binary\<close>,
  \<^verbatim>\<open>release=latest\<close> is asked and no release survives, so \<^verbatim>\<open>_.last\<close> gives
  \<^verbatim>\<open>undefined\<close> and reading it throws. In each case the catch callback throws again.
  Every other request gets a response.
\<close>

theorem v2_js_NoResponse_iff:
  "v2_js fetch rp q = NoResponse \<longleftrightarrow>
     (\<exists>rt bt ver data. requestType rp = Some rt \<and> buildtype rp = Some bt \<and> route_version rp = Some ver \<and>
        fetch ver bt = Inr data \<and>
        (nonstring_filter q \<or>
         jq_release q = Some QNonString \<and> property_filters (query_of q) data \<noteq> [] \<or>
         (rt = ''info'' \<or> rt = ''binary'') \<and> jq_release q = Some (QStr ''latest'') \<and>
           property_filters (query_of q) data = []))"
  by (simp add: v2_js_NoResponse_on_data on_data_js_Inl_iff)

lemma v2_js_NoResponse_iff_witness:
  "v2_js (\<lambda>_ _. Inr [])
      \<lparr>requestType = Some ''info'', buildtype = Some ''releases'', route_version = Some ''openjdk8''\<rparr>
      \<lparr>jq_openjdkImpl = None, jq_os = Some QNonString, jq_arch = None, jq_release = None, jq_type = None\<rparr> =
     NoResponse \<and>
   v2_js (\<lambda>_ _. Inr [])
      \<lparr>requestType = Some ''info'', buildtype = Some ''releases'', route_version = Some ''openjdk8''\<rparr>
      \<lparr>jq_openjdkImpl = None, jq_os = Some (QStr ''linux''), jq_arch = None, jq_release = Some QNonString,
       jq_type = None\<rparr> \<noteq> NoResponse"
  using v2_js_NoResponse_iff [of "\<lambda>_ _. Inr []"
      "\<lparr>requestType = Some ''info'', buildtype = Some ''releases'', route_version = Some ''openjdk8''\<rparr>"
      "\<lparr>jq_openjdkImpl = None, jq_os = Some QNonString, jq_arch = None, jq_release = None, jq_type = None\<rparr>"]
    v2_js_NoResponse_iff [of "\<lambda>_ _. Inr []"
      "\<lparr>requestType = Some ''info'', buildtype = Some ''releases'', route_version = Some ''openjdk8''\<rparr>"
      "\<lparr>jq_openjdkImpl = None, jq_os = Some (QStr ''linux''), jq_arch = None, jq_release = Some QNonString,
       jq_type = None\<rparr>"]
  by (simp add: nonstring_filter_def property_filters_def githubDataToAdoptApi_def query_of_def str_of_def
      filterReleaseOnBinaryProperty_def filterReleaseBinaries_def)

end
