(* ===== verification/Server.thy ===== *)
theory Server
  imports JsQuery
begin

text \<open>
  The Express application of \<^verbatim>\<open>src/server.js\<close>: the listener chosen by the deployment,
  the middleware stack in registration order (rate limiter, static files, CORS header,
  the documentation routes, the API routes, the error middleware) and the rate limiter's
  store, whose hit counters are the state the application keeps between requests.
  A request runs through \<open>app_handle\<close>; a sequence of requests and window resets runs
  through \<open>run\<close>.
\<close>

subsection \<open>Requests and responses\<close>

datatype http_method = GET | HEAD | POST | OtherMethod string

record request =
  req_ip :: string
  req_method :: http_method
  req_path :: string
  req_query :: js_query

text \<open>
  What the application answers: the rate limiter's rejection, a static file, a rendered
  documentation page, the response of a route handler (\<open>v2\<close>, or the redirect of
  \<^verbatim>\<open>/README.v1.md\<close>), the error middleware's 500 page, or Express's final 404 when
  no route matched.
\<close>

datatype http_body =
    Limited nat string
  | StaticFile string
  | Rendered string
  | Routed response
  | ServerError nat string
  | Unmatched string

text \<open>
  \<open>out_cors\<close>: the header \<^verbatim>\<open>Access-Control-Allow-Origin: *\<close> is set;
  \<open>out_limit\<close>: the headers \<^verbatim>\<open>X-RateLimit-Limit\<close> and \<^verbatim>\<open>X-RateLimit-Remaining\<close>.
\<close>

record http_out =
  out_body :: http_body
  out_cors :: bool
  out_limit :: "nat \<times> nat"

subsection \<open>Listener (lines 8--23)\<close>

record listener =
  uses_tls :: bool
  listen_port :: nat

text \<open>\<^verbatim>\<open>process.env.PRODUCTION\<close> selects HTTPS on 1234 when set to a non-empty string.\<close>

definition listener_of :: "string option \<Rightarrow> listener" where
  "listener_of production =
     (if production \<noteq> None \<and> production \<noteq> Some []
      then \<lparr>uses_tls = True, listen_port = 1234\<rparr>
      else \<lparr>uses_tls = False, listen_port = 3000\<rparr>)"

subsection \<open>Rate limiter (lines 25--32)\<close>

record rate_limit_options =
  windowMs :: nat
  max_hits :: nat
  delayMs :: nat
  rl_message :: string

definition server_rate_limit :: rate_limit_options where
  "server_rate_limit =
     \<lparr>windowMs = 60 * 60 * 1000, max_hits = 600, delayMs = 0,
      rl_message = ''You have exceeded your api usage, you are allowed 600 requests per hour''\<rparr>"

text \<open>
  The limiter's memory store: a hit counter per client address (an absent key reads 0),
  incremented on every request and cleared for all keys when a window elapses.
\<close>

record limiter =
  hits :: "string \<Rightarrow> nat"

definition incr :: "string \<Rightarrow> limiter \<Rightarrow> limiter \<times> nat" where
  "incr key st = (let current = hits st key + 1 in (st\<lparr>hits := (hits st)(key := current)\<rparr>, current))"

definition resetAll :: "limiter \<Rightarrow> limiter" where
  "resetAll st = st\<lparr>hits := (\<lambda>_. 0)\<rparr>"

text \<open>
  The middleware: count the request, set the two headers, and reject with status 429 and
  the message when a positive \<open>max\<close> is exceeded (a \<open>max\<close> of 0 disables the limit). With
  \<open>delayMs = 0\<close> no request is delayed.
\<close>

definition rateLimit :: "rate_limit_options \<Rightarrow> limiter \<Rightarrow> string \<Rightarrow> limiter \<times> bool \<times> (nat \<times> nat)" where
  "rateLimit opts st key =
     (let (st', current) = incr key st
      in (st', 0 < max_hits opts \<and> max_hits opts < current, (max_hits opts, max_hits opts - current)))"

subsection \<open>Routes (lines 34--65)\<close>

text \<open>
  What the application reads from its files: the files \<^verbatim>\<open>express.static\<close> serves, the
  markdown page the markdown server finds for a path, the rendering of the layout with a
  page (\<open>None\<close> when rendering fails), and the routes other than v2 registered by
  \<^verbatim>\<open>app/routes\<close>.
\<close>

record site =
  static_files :: "string list"
  md_page :: "string \<Rightarrow> string option"
  render_layout :: "string \<Rightarrow> string option"
  other_route :: "request \<Rightarrow> response option"

definition is_get :: "http_method \<Rightarrow> bool" where
  "is_get m \<longleftrightarrow> m = GET \<or> m = HEAD"

text \<open>Express matches route paths ignoring case and one trailing slash.\<close>

definition path_matches :: "string \<Rightarrow> string \<Rightarrow> bool" where
  "path_matches pat p \<longleftrightarrow> to_lower p = to_lower pat \<or> to_lower p = to_lower pat @ ''/''"

definition readme_paths :: "string list" where
  "readme_paths = [''/'', ''/README'', ''/README.v1'']"

definition error_page :: string where
  "error_page = ''Error - please try again or raise an issue at https://github.com/AdoptOpenJDK/openjdk-api/issues''"

fun split_on :: "char \<Rightarrow> string \<Rightarrow> string list" where
  "split_on c [] = [[]]"
| "split_on c (x # xs) =
     (if x = c then [] # split_on c xs
      else (case split_on c xs of s # ss \<Rightarrow> (x # s) # ss | [] \<Rightarrow> [[x]]))"

fun nth_opt :: "'a list \<Rightarrow> nat \<Rightarrow> 'a option" where
  "nth_opt [] _ = None"
| "nth_opt (x # xs) 0 = Some x"
| "nth_opt (x # xs) (Suc n) = nth_opt xs n"

text \<open>
  The v2 route of \<^verbatim>\<open>app/routes\<close>, \<^verbatim>\<open>/v2/:requestType?/:buildtype?/:version?\<close>: the
  path is \<^verbatim>\<open>/v2\<close> followed by at most three non-empty segments and an optional trailing
  slash; the segments present are the route parameters.
\<close>

definition v2_route :: "string \<Rightarrow> route_params option" where
  "v2_route p =
     (if take 3 (to_lower p) = ''/v2'' \<and> (length p = 3 \<or> p ! 3 = CHR ''/'')
      then (let segs = split_on CHR ''/'' (drop 4 p);
                segs = (if segs \<noteq> [] \<and> last segs = [] then butlast segs else segs)
            in if length segs \<le> 3 \<and> list_all (\<lambda>seg. seg \<noteq> []) segs
               then Some \<lparr>requestType = nth_opt segs 0, buildtype = nth_opt segs 1, route_version = nth_opt segs 2\<rparr>
               else None)
      else None)"

text \<open>
  The routes after the CORS middleware, in registration order: the redirect of
  \<^verbatim>\<open>/README.v1.md\<close>, the documentation pages (falling through when the markdown server
  finds no page, and reaching the error middleware when rendering fails), then the API
  routes; Express answers 404 when none matched. Every route is registered with
  \<^verbatim>\<open>app.get\<close>, which also serves HEAD.
\<close>

definition app_routes :: "site \<Rightarrow> fetch \<Rightarrow> request \<Rightarrow> http_body" where
  "app_routes s f r =
     (let p = req_path r in
      if \<not> is_get (req_method r) then Unmatched p
      else if path_matches ''/README.v1.md'' p then Routed (Redirect ''./README.v1'')
      else if list_ex (\<lambda>q. path_matches q p) readme_paths \<and> md_page s p \<noteq> None
      then (case render_layout s (the (md_page s p)) of
              None \<Rightarrow> ServerError 500 error_page
            | Some html \<Rightarrow> Rendered html)
      else (case other_route s r of
              Some resp \<Rightarrow> Routed resp
            | None \<Rightarrow> (case v2_route p of
                         Some rp \<Rightarrow> Routed (v2_js f rp (req_query r))
                       | None \<Rightarrow> Unmatched p)))"

text \<open>
  One request through the whole stack: the rate limiter (all requests), the static files
  (GET and HEAD), the CORS header, then the routes.
\<close>

definition app_handle :: "rate_limit_options \<Rightarrow> site \<Rightarrow> fetch \<Rightarrow> limiter \<Rightarrow> request \<Rightarrow> limiter \<times> http_out" where
  "app_handle opts s f st r =
     (let (st', limited, hdr) = rateLimit opts st (req_ip r)
      in if limited then (st', \<lparr>out_body = Limited 429 (rl_message opts), out_cors = False, out_limit = hdr\<rparr>)
         else if is_get (req_method r) \<and> req_path r \<in> set (static_files s)
         then (st', \<lparr>out_body = StaticFile (req_path r), out_cors = False, out_limit = hdr\<rparr>)
         else (st', \<lparr>out_body = app_routes s f r, out_cors = True, out_limit = hdr\<rparr>))"

subsection \<open>Runs\<close>

text \<open>Requests, and the timer of the memory store that clears it once per window.\<close>

datatype event = Req request | WindowElapsed

fun run :: "rate_limit_options \<Rightarrow> site \<Rightarrow> fetch \<Rightarrow> limiter \<Rightarrow> event list \<Rightarrow> limiter \<times> (request \<times> http_out) list" where
  "run opts s f st [] = (st, [])"
| "run opts s f st (WindowElapsed # evs) = run opts s f (resetAll st) evs"
| "run opts s f st (Req r # evs) =
     (let (st', out) = app_handle opts s f st r;
          (st'', outs) = run opts s f st' evs
      in (st'', (r, out) # outs))"

fun requests :: "event list \<Rightarrow> request list" where
  "requests [] = []"
| "requests (Req r # evs) = r # requests evs"
| "requests (WindowElapsed # evs) = requests evs"

fun limited_body :: "http_body \<Rightarrow> bool" where
  "limited_body (Limited _ _) = True"
| "limited_body _ = False"

definition is_limited :: "http_out \<Rightarrow> bool" where
  "is_limited out = limited_body (out_body out)"

text \<open>The requests of one client that got past the rate limiter, in order.\<close>

definition passed :: "string \<Rightarrow> (request \<times> http_out) list \<Rightarrow> request list" where
  "passed ip outs = map fst (filter (\<lambda>(r, out). req_ip r = ip \<and> \<not> is_limited out) outs)"

text \<open>A site and requests for the examples.\<close>

definition example_site :: site where
  "example_site = \<lparr>static_files = [''/layout.css''], md_page = (\<lambda>p. if p = ''/README'' then Some ''README.md'' else None),
     render_layout = (\<lambda>_. None), other_route = (\<lambda>_. None)\<rparr>"

definition example_request :: "string \<Rightarrow> string \<Rightarrow> request" where
  "example_request ip p = \<lparr>req_ip = ip, req_method = GET, req_path = p,
     req_query = \<lparr>jq_openjdkImpl = None, jq_os = None, jq_arch = None, jq_release = None, jq_type = None\<rparr>\<rparr>"

subsection \<open>Lemmas\<close>

lemma app_routes_not_limited [simp]: "\<not> limited_body (app_routes s f r)"
  by (auto simp: app_routes_def Let_def split: option.split)

lemma app_handle_state: "fst (app_handle opts s f st r) = fst (incr (req_ip r) st)"
  by (simp add: app_handle_def rateLimit_def Let_def split: prod.split)

lemma app_handle_limited:
  "is_limited (snd (app_handle opts s f st r)) \<longleftrightarrow> 0 < max_hits opts \<and> max_hits opts \<le> hits st (req_ip r)"
  by (simp add: app_handle_def rateLimit_def incr_def is_limited_def Suc_le_eq)

lemma hits_incr: "hits (fst (incr key st)) ip = (if ip = key then Suc (hits st ip) else hits st ip)"
  by (simp add: incr_def)

lemma run_Req:
  "snd (run opts s f st (Req r # evs)) = (r, snd (app_handle opts s f st r)) # snd (run opts s f (fst (incr (req_ip r) st)) evs)"
proof -
  obtain st' out where h: "app_handle opts s f st r = (st', out)"
    by (cases "app_handle opts s f st r")
  then have "st' = fst (incr (req_ip r) st)"
    using app_handle_state [of opts s f st r] by simp
  with h show ?thesis
    by (simp split: prod.split)
qed

text \<open>Within one window, exactly the first \<open>max - hits\<close> requests of a client pass.\<close>

lemma passed_run_window:
  "WindowElapsed \<notin> set evs \<Longrightarrow> 0 < max_hits opts \<Longrightarrow>
   passed ip (snd (run opts s f st evs)) = take (max_hits opts - hits st ip) (filter (\<lambda>r. req_ip r = ip) (requests evs))"
proof (induction evs arbitrary: st)
  case Nil
  then show ?case by (simp add: passed_def)
next
  case (Cons e evs)
  then obtain r where e: "e = Req r" by (cases e) auto
  have IH: "passed ip (snd (run opts s f (fst (incr (req_ip r) st)) evs)) =
      take (max_hits opts - hits (fst (incr (req_ip r) st)) ip) (filter (\<lambda>r. req_ip r = ip) (requests evs))"
    using Cons by simp
  show ?case
  proof (cases "req_ip r = ip")
    case True
    show ?thesis
    proof (cases "hits st ip < max_hits opts")
      case room: True
      then have "max_hits opts - hits st ip = Suc (max_hits opts - Suc (hits st ip))"
        by simp
      then show ?thesis
        using IH True room unfolding e run_Req by (simp add: passed_def hits_incr app_handle_limited)
    next
      case full: False
      then show ?thesis
        using IH True Cons.prems(2) unfolding e run_Req by (simp add: passed_def hits_incr app_handle_limited)
    qed
  next
    case False
    then show ?thesis
      using IH unfolding e run_Req by (simp add: passed_def hits_incr)
  qed
qed

lemma run_Req_fst:
  "fst (run opts s f st (Req r # evs)) = fst (run opts s f (fst (incr (req_ip r) st)) evs)"
proof -
  obtain st' out where h: "app_handle opts s f st r = (st', out)"
    by (cases "app_handle opts s f st r")
  then have "st' = fst (incr (req_ip r) st)"
    using app_handle_state [of opts s f st r] by simp
  with h show ?thesis
    by (simp split: prod.split)
qed

lemma run_append:
  "snd (run opts s f st (xs @ ys)) = snd (run opts s f st xs) @ snd (run opts s f (fst (run opts s f st xs)) ys)"
proof (induction xs arbitrary: st)
  case Nil
  then show ?case by simp
next
  case (Cons e xs)
  then show ?case
    by (cases e) (simp_all add: run_Req run_Req_fst del: run.simps(3))
qed

text \<open>Within a window the store counts every request of a client, whatever it asked for.\<close>

lemma hits_run_window:
  "WindowElapsed \<notin> set evs \<Longrightarrow>
   hits (fst (run opts s f st evs)) ip = hits st ip + length (filter (\<lambda>r. req_ip r = ip) (requests evs))"
proof (induction evs arbitrary: st)
  case Nil
  then show ?case by simp
next
  case (Cons e evs)
  then obtain r where e: "e = Req r" by (cases e) auto
  with Cons show ?case
    by (simp add: run_Req_fst hits_incr del: run.simps(3))
qed

lemma passed_append [simp]: "passed ip (xs @ ys) = passed ip xs @ passed ip ys"
  by (simp add: passed_def)

lemma requests_replicate [simp]: "requests (replicate n (Req r)) = replicate n r"
  by (induction n) simp_all

lemma v2_route_not_readme:
  assumes "v2_route p = Some rp"
  shows "\<not> path_matches ''/README.v1.md'' p" "\<not> list_ex (\<lambda>q. path_matches q p) readme_paths"
  using assms by (auto simp: v2_route_def path_matches_def readme_paths_def js_simps split: if_splits)

text \<open>
  C20. Within one window of the rate limiter (no reset in between), exactly the first
  \<open>600 - hits\<close> requests of a client get past the limiter, where \<open>hits\<close> is the client's count
  at the start; every later request of that client is answered 429.
\<close>

theorem rate_limit_window:
  assumes "WindowElapsed \<notin> set evs"
  shows "passed ip (snd (run server_rate_limit s f st evs)) =
    take (600 - hits st ip) (filter (\<lambda>r. req_ip r = ip) (requests evs))"
  using passed_run_window [OF assms, of server_rate_limit] by (simp add: server_rate_limit_def)

lemma rate_limit_window_witness:
  "WindowElapsed \<notin> set [Req (example_request ''a'' ''/layout.css''), Req (example_request ''a'' ''/layout.css'')] \<and>
   passed ''a'' (snd (run server_rate_limit example_site (\<lambda>_ _. Inl InternalError) \<lparr>hits = (\<lambda>_. 599)\<rparr>
     [Req (example_request ''a'' ''/layout.css''), Req (example_request ''a'' ''/layout.css'')])) =
   [example_request ''a'' ''/layout.css'']"
  using rate_limit_window [of "[Req (example_request ''a'' ''/layout.css''), Req (example_request ''a'' ''/layout.css'')]"
      "''a''" example_site "\<lambda>_ _. Inl InternalError" "\<lparr>hits = (\<lambda>_. 599)\<rparr>"]
  by (simp add: example_request_def)

text \<open>
  C21. A GET request of a client under its limit, for a path that is no static file and that
  the v2 route matches, is answered by the route handler \<open>v2_js\<close> with the route parameters of
  the path and the request's query, with the CORS header and the rate-limit headers set.
\<close>

theorem app_handle_v2:
  assumes "hits st (req_ip r) < max_hits opts" "req_method r = GET" "req_path r \<notin> set (static_files s)"
    "other_route s r = None" "v2_route (req_path r) = Some rp"
  shows "snd (app_handle opts s f st r) =
    \<lparr>out_body = Routed (v2_js f rp (req_query r)), out_cors = True,
     out_limit = (max_hits opts, max_hits opts - Suc (hits st (req_ip r)))\<rparr>"
  using assms v2_route_not_readme [OF assms(5)]
  by (simp add: app_handle_def rateLimit_def incr_def app_routes_def is_get_def)

lemma app_handle_v2_witness:
  "hits \<lparr>hits = (\<lambda>_. 0)\<rparr> (req_ip (example_request ''a'' ''/v2/info/releases/openjdk8'')) < max_hits server_rate_limit \<and>
   req_method (example_request ''a'' ''/v2/info/releases/openjdk8'') = GET \<and>
   req_path (example_request ''a'' ''/v2/info/releases/openjdk8'') \<notin> set (static_files example_site) \<and>
   other_route example_site (example_request ''a'' ''/v2/info/releases/openjdk8'') = None \<and>
   v2_route (req_path (example_request ''a'' ''/v2/info/releases/openjdk8'')) =
     Some \<lparr>requestType = Some ''info'', buildtype = Some ''releases'', route_version = Some ''openjdk8''\<rparr> \<and>
   snd (app_handle server_rate_limit example_site (\<lambda>_ _. Inl (HttpStatus 503)) \<lparr>hits = (\<lambda>_. 0)\<rparr>
       (example_request ''a'' ''/v2/info/releases/openjdk8'')) =
     \<lparr>out_body = Routed (Send 503 []), out_cors = True, out_limit = (600, 599)\<rparr>"
proof -
  have rt: "v2_route ''/v2/info/releases/openjdk8'' =
      Some \<lparr>requestType = Some ''info'', buildtype = Some ''releases'', route_version = Some ''openjdk8''\<rparr>"
    by (simp add: v2_route_def js_simps eval_nat_numeral)
  show ?thesis
    using app_handle_v2 [of "\<lparr>hits = (\<lambda>_. 0)\<rparr>" "example_request ''a'' ''/v2/info/releases/openjdk8''" server_rate_limit
        example_site "\<lparr>requestType = Some ''info'', buildtype = Some ''releases'', route_version = Some ''openjdk8''\<rparr>"
        "\<lambda>_ _. Inl (HttpStatus 503)"] rt
    by (simp add: example_request_def example_site_def server_rate_limit_def v2_js_def on_error_def)
qed

text \<open>
  C22. The CORS header is set exactly on the responses of the routes: the rate limiter's 429
  answers and the static files, served by middleware registered before the header is set,
  carry no \<^verbatim>\<open>Access-Control-Allow-Origin\<close>.
\<close>

theorem app_handle_cors:
  "out_cors (snd (app_handle opts s f st r)) \<longleftrightarrow>
     \<not> is_limited (snd (app_handle opts s f st r)) \<and> \<not> (is_get (req_method r) \<and> req_path r \<in> set (static_files s))"
  by (simp add: app_handle_def rateLimit_def incr_def is_limited_def Let_def)

text \<open>
  C23. Once the window elapses and the store is cleared, the next request of every client
  gets past the limiter, whatever its count was.
\<close>

theorem window_reset_serves:
  assumes "0 < max_hits opts"
  shows "\<not> is_limited (snd (app_handle opts s f (resetAll st) r))"
  using assms by (simp add: app_handle_limited resetAll_def)

lemma window_reset_serves_witness:
  "0 < max_hits server_rate_limit \<and>
   \<not> is_limited (snd (app_handle server_rate_limit example_site (\<lambda>_ _. Inl InternalError)
        (resetAll \<lparr>hits = (\<lambda>_. 5000)\<rparr>) (example_request ''a'' ''/layout.css'')))"
  using window_reset_serves [of server_rate_limit example_site "\<lambda>_ _. Inl InternalError" "\<lparr>hits = (\<lambda>_. 5000)\<rparr>"
      "example_request ''a'' ''/layout.css''"]
  by (simp add: server_rate_limit_def)

text \<open>
  C24. A documentation page whose layout fails to render reaches the error middleware: the
  request is answered 500 with the error page (and, being past the CORS middleware, the
  CORS header).
\<close>

theorem app_handle_render_error:
  assumes "hits st (req_ip r) < max_hits opts" "req_method r = GET" "req_path r \<notin> set (static_files s)"
    "req_path r = ''/README''" "md_page s ''/README'' = Some pg" "render_layout s pg = None"
  shows "out_body (snd (app_handle opts s f st r)) = ServerError 500 error_page \<and> out_cors (snd (app_handle opts s f st r))"
  using assms
  by (simp add: app_handle_def rateLimit_def incr_def app_routes_def is_get_def path_matches_def readme_paths_def js_simps)

lemma app_handle_render_error_witness:
  "hits \<lparr>hits = (\<lambda>_. 0)\<rparr> (req_ip (example_request ''a'' ''/README'')) < max_hits server_rate_limit \<and>
   req_method (example_request ''a'' ''/README'') = GET \<and>
   req_path (example_request ''a'' ''/README'') \<notin> set (static_files example_site) \<and>
   req_path (example_request ''a'' ''/README'') = ''/README'' \<and>
   md_page example_site ''/README'' = Some ''README.md'' \<and> render_layout example_site ''README.md'' = None \<and>
   out_body (snd (app_handle server_rate_limit example_site (\<lambda>_ _. Inl InternalError) \<lparr>hits = (\<lambda>_. 0)\<rparr>
     (example_request ''a'' ''/README''))) = ServerError 500 error_page"
  using app_handle_render_error [of "\<lparr>hits = (\<lambda>_. 0)\<rparr>" "example_request ''a'' ''/README''" server_rate_limit example_site
      "''README.md''" "\<lambda>_ _. Inl InternalError"]
  by (simp add: example_request_def example_site_def server_rate_limit_def)

text \<open>
  C33. The rate limiter is registered before every other middleware, so all requests of a
  client share one quota: whatever a client's requests in the window were (static files
  of the documentation, documentation pages, unknown paths, other methods), once it has
  sent 600 of them its next request, an API request included, is answered 429 with no
  remaining quota and without the CORS header.
\<close>

theorem quota_shared:
  assumes "WindowElapsed \<notin> set evs" and "600 \<le> length (filter (\<lambda>r. req_ip r = req_ip r0) (requests evs))"
  shows "snd (app_handle server_rate_limit s f (fst (run server_rate_limit s f st evs)) r0) =
           \<lparr>out_body = Limited 429 (rl_message server_rate_limit), out_cors = False, out_limit = (600, 0)\<rparr>"
  using hits_run_window [OF assms(1), of server_rate_limit s f st "req_ip r0"] assms(2)
  by (simp add: app_handle_def rateLimit_def incr_def server_rate_limit_def)

lemma quota_shared_witness:
  "WindowElapsed \<notin> set (replicate 600 (Req (example_request ''a'' ''/layout.css''))) \<and>
   600 \<le> length (filter (\<lambda>r. req_ip r = req_ip (example_request ''a'' ''/v2/info/releases/openjdk8''))
     (requests (replicate 600 (Req (example_request ''a'' ''/layout.css''))))) \<and>
   is_limited (snd (app_handle server_rate_limit example_site (\<lambda>_ _. Inl InternalError)
     (fst (run server_rate_limit example_site (\<lambda>_ _. Inl InternalError) \<lparr>hits = (\<lambda>_. 0)\<rparr>
       (replicate 600 (Req (example_request ''a'' ''/layout.css'')))))
     (example_request ''a'' ''/v2/info/releases/openjdk8'')))"
  using quota_shared [of "replicate 600 (Req (example_request ''a'' ''/layout.css''))"
      "example_request ''a'' ''/v2/info/releases/openjdk8''" example_site "\<lambda>_ _. Inl InternalError" "\<lparr>hits = (\<lambda>_. 0)\<rparr>"]
  by (simp add: example_request_def is_limited_def)

end
