(* ===== verification/ServerTrace.thy ===== *)
theory ServerTrace
  imports Server
begin

text \<open>
  The application of \<^verbatim>\<open>src/server.js\<close> as a transition system. A state is the rate
  limiter's store together with the log of what happened so far, newest first: a request
  and the answer \<open>app_handle\<close> gave it, or a reset of the store by the window timer.
  \<open>server_reach\<close> holds of the states the process can be in, from the empty store; any
  interleaving of requests and resets is a path. The invariant proved by rule induction
  is what the limiter promises: within the current window, a client's requests that got
  past it number \<open>min hits max\<close>, so never more than \<open>max\<close>; \<open>run\<close> only visits
  reachable states.
\<close>

subsection \<open>States and steps\<close>

datatype log_entry = Served request http_out | Reset

text \<open>The memory store is created empty: every key reads 0.\<close>

definition initial_limiter :: limiter where
  "initial_limiter = \<lparr>hits = (\<lambda>_. 0)\<rparr>"

inductive server_reach :: "rate_limit_options \<Rightarrow> site \<Rightarrow> fetch \<Rightarrow> limiter \<Rightarrow> log_entry list \<Rightarrow> bool"
  for opts s f where
  start: "server_reach opts s f initial_limiter []"
| request: "server_reach opts s f st lg \<Longrightarrow> app_handle opts s f st r = (st', out) \<Longrightarrow>
    server_reach opts s f st' (Served r out # lg)"
| window: "server_reach opts s f st lg \<Longrightarrow> server_reach opts s f (resetAll st) (Reset # lg)"

text \<open>The requests answered since the last reset, newest first.\<close>

fun current_window :: "log_entry list \<Rightarrow> (request \<times> http_out) list" where
  "current_window [] = []"
| "current_window (Served r out # lg) = (r, out) # current_window lg"
| "current_window (Reset # lg) = []"

text \<open>All the requests answered, newest first.\<close>

fun served :: "log_entry list \<Rightarrow> (request \<times> http_out) list" where
  "served [] = []"
| "served (Served r out # lg) = (r, out) # served lg"
| "served (Reset # lg) = served lg"

text \<open>One request for a static file from the empty store, for the examples.\<close>

definition example_out :: http_out where
  "example_out = \<lparr>out_body = StaticFile ''/layout.css'', out_cors = False, out_limit = (600, 599)\<rparr>"

definition example_log :: "log_entry list" where
  "example_log = [Served (example_request ''10.0.0.1'' ''/layout.css'') example_out]"

text \<open>A limit of one request per window, and two requests of one client under it.\<close>

definition example_tight :: rate_limit_options where
  "example_tight = server_rate_limit\<lparr>max_hits := 1\<rparr>"

definition example_429 :: http_out where
  "example_429 = \<lparr>out_body = Limited 429 (rl_message server_rate_limit), out_cors = False, out_limit = (1, 0)\<rparr>"

definition example_log2 :: "log_entry list" where
  "example_log2 = [Served (example_request ''10.0.0.1'' ''/layout.css'') example_429,
     Served (example_request ''10.0.0.1'' ''/layout.css'') (example_out\<lparr>out_limit := (1, 0)\<rparr>)]"

definition example_store :: limiter where
  "example_store = \<lparr>hits = (\<lambda>_. 0)(''10.0.0.1'' := 1)\<rparr>"

inductive_cases server_reach_ServedE: "server_reach opts s f st (Served r out # lg)"
inductive_cases server_reach_ResetE: "server_reach opts s f st (Reset # lg)"
inductive_cases server_reach_NilE: "server_reach opts s f st []"

subsection \<open>Lemmas\<close>

lemma served_append [simp]: "served (xs @ ys) = served xs @ served ys"
  by (induction xs rule: served.induct) simp_all

lemma passed_Cons:
  "passed ip ((r, out) # outs) =
     (if req_ip r = ip \<and> \<not> is_limited out then r # passed ip outs else passed ip outs)"
  by (simp add: passed_def)

text \<open>The store counts exactly the requests of the current window.\<close>

lemma server_reach_hits:
  "server_reach opts s f st lg \<Longrightarrow> hits st ip = length (filter (\<lambda>(r, _). req_ip r = ip) (current_window lg))"
proof (induction rule: server_reach.induct)
  case start
  then show ?case by (simp add: initial_limiter_def)
next
  case (request st lg r st' out)
  then have "st' = fst (incr (req_ip r) st)"
    using app_handle_state [of opts s f st r] by simp
  with request.IH show ?case
    by (cases "req_ip r = ip") (simp_all add: hits_incr)
next
  case (window st lg)
  then show ?case by (simp add: resetAll_def)
qed

text \<open>Each answer in the log is the one \<open>app_handle\<close> gives in the state before it.\<close>

lemma server_reach_Served:
  assumes "server_reach opts s f st (Served r out # lg)"
  obtains st0 where "server_reach opts s f st0 lg" "app_handle opts s f st0 r = (st, out)"
  using assms by (auto elim: server_reach_ServedE)

text \<open>A run of events from a reachable state stays among the reachable states.\<close>

lemma run_server_reach:
  "server_reach opts s f st lg \<Longrightarrow>
   \<exists>lg'. server_reach opts s f (fst (run opts s f st evs)) (lg' @ lg) \<and> served lg' = rev (snd (run opts s f st evs))"
proof (induction evs arbitrary: st lg)
  case Nil
  then show ?case by (intro exI [of _ "[]"]) simp
next
  case (Cons e evs)
  show ?case
  proof (cases e)
    case (Req r)
    obtain st' out where h: "app_handle opts s f st r = (st', out)"
      by (cases "app_handle opts s f st r")
    then have st': "st' = fst (incr (req_ip r) st)"
      using app_handle_state [of opts s f st r] by simp
    from Cons.prems h have "server_reach opts s f st' (Served r out # lg)"
      by (rule server_reach.request)
    then obtain lg' where "server_reach opts s f (fst (run opts s f st' evs)) (lg' @ Served r out # lg)"
      "served lg' = rev (snd (run opts s f st' evs))"
      using Cons.IH by blast
    with h st' Req show ?thesis
      by (intro exI [of _ "lg' @ [Served r out]"])
        (simp add: run_Req run_Req_fst del: run.simps(3))
  next
    case WindowElapsed
    from Cons.prems have "server_reach opts s f (resetAll st) (Reset # lg)"
      by (rule server_reach.window)
    then obtain lg' where "server_reach opts s f (fst (run opts s f (resetAll st) evs)) (lg' @ Reset # lg)"
      "served lg' = rev (snd (run opts s f (resetAll st) evs))"
      using Cons.IH by blast
    with WindowElapsed show ?thesis
      by (intro exI [of _ "lg' @ [Reset]"]) simp
  qed
qed

lemma server_reach_example:
  "server_reach server_rate_limit example_site (\<lambda>_ _. Inr []) example_store example_log"
  unfolding example_log_def example_store_def
  by (rule server_reach.request [OF server_reach.start])
    (simp add: app_handle_def rateLimit_def incr_def initial_limiter_def server_rate_limit_def
      example_site_def example_request_def is_get_def example_out_def)

lemma server_reach_example2:
  "server_reach example_tight example_site (\<lambda>_ _. Inr []) \<lparr>hits = (\<lambda>_. 0)(''10.0.0.1'' := 2)\<rparr> example_log2"
proof -
  have "server_reach example_tight example_site (\<lambda>_ _. Inr []) example_store
      [Served (example_request ''10.0.0.1'' ''/layout.css'') (example_out\<lparr>out_limit := (1, 0)\<rparr>)]"
    unfolding example_store_def
    by (rule server_reach.request [OF server_reach.start])
      (simp add: app_handle_def rateLimit_def incr_def initial_limiter_def server_rate_limit_def
        example_site_def example_request_def is_get_def example_out_def example_tight_def)
  then show ?thesis
    unfolding example_log2_def
    by (rule server_reach.request)
      (simp add: app_handle_def rateLimit_def incr_def example_store_def server_rate_limit_def
        example_request_def example_429_def example_tight_def numeral_2_eq_2)
qed

subsection \<open>The limiter's promise\<close>

text \<open>
  C28. In every reachable state of the server (any interleaving of requests and window
  resets from the empty store), with a positive limit, the requests of a client answered
  since the last reset without 429 number exactly the smaller of the client's hit count
  and the limit: the limiter never lets more than \<open>max\<close> requests of one client through in
  a window, and lets the first \<open>max\<close> through.
\<close>

theorem server_reach_window_passed:
  assumes "server_reach opts s f st lg" and "0 < max_hits opts"
  shows "length (passed ip (current_window lg)) = min (hits st ip) (max_hits opts)"
  using assms(1)
proof (induction rule: server_reach.induct)
  case start
  then show ?case by (simp add: initial_limiter_def passed_def)
next
  case (request st lg r st' out)
  have st': "st' = fst (incr (req_ip r) st)" and out: "out = snd (app_handle opts s f st r)"
    using request.hyps(2) app_handle_state [of opts s f st r] by simp_all
  show ?case
  proof (cases "req_ip r = ip")
    case True
    then show ?thesis
      using request.IH assms(2) unfolding st' out
      by (cases "hits st ip < max_hits opts") (auto simp: passed_Cons hits_incr app_handle_limited)
  next
    case False
    then show ?thesis
      using request.IH unfolding st' by (simp add: passed_Cons hits_incr)
  qed
next
  case (window st lg)
  then show ?case by (simp add: resetAll_def passed_def)
qed

lemma server_reach_window_passed_witness:
  "server_reach server_rate_limit example_site (\<lambda>_ _. Inr []) example_store example_log \<and>
   0 < max_hits server_rate_limit \<and>
   length (passed ''10.0.0.1'' (current_window example_log)) =
     min (hits example_store ''10.0.0.1'') (max_hits server_rate_limit)"
proof -
  have pos: "0 < max_hits server_rate_limit"
    by (simp add: server_rate_limit_def)
  show ?thesis
    using server_reach_window_passed [OF server_reach_example pos, of "''10.0.0.1''"]
      server_reach_example pos by simp
qed

text \<open>
  C29. In every reachable state, the rate-limit headers of the newest answer report the
  configured limit and, as remaining, the limit minus the number of requests the client
  has sent in the current window, this one included (never below 0); an answer that was
  rejected with 429 reports 0 remaining.
\<close>

theorem server_reach_limit_header:
  assumes "server_reach opts s f st (Served r out # lg)"
  shows "out_limit out = (max_hits opts,
           max_hits opts - length (filter (\<lambda>(r', _). req_ip r' = req_ip r) (current_window (Served r out # lg)))) \<and>
         (is_limited out \<longrightarrow> snd (out_limit out) = 0)"
proof -
  obtain st0 where reach0: "server_reach opts s f st0 lg" and h: "app_handle opts s f st0 r = (st, out)"
    using assms by (rule server_reach_Served)
  have out: "out = snd (app_handle opts s f st0 r)"
    using h by simp
  have cnt: "hits st0 (req_ip r) = length (filter (\<lambda>(r', _). req_ip r' = req_ip r) (current_window lg))"
    using reach0 by (rule server_reach_hits)
  show ?thesis
    using cnt unfolding out by (simp add: app_handle_def rateLimit_def incr_def is_limited_def)
qed

lemma server_reach_limit_header_witness:
  "server_reach example_tight example_site (\<lambda>_ _. Inr []) \<lparr>hits = (\<lambda>_. 0)(''10.0.0.1'' := 2)\<rparr> example_log2 \<and>
   is_limited example_429 \<and> out_limit example_429 = (1, 0)"
  using server_reach_limit_header [OF server_reach_example2 [unfolded example_log2_def]] server_reach_example2
  by (simp add: example_tight_def server_rate_limit_def example_429_def is_limited_def example_request_def)

end
