(* ===== verification/Routes.thy ===== *)
theory Routes
  imports Server
begin

text \<open>
  The route path of the v2 API, \<^verbatim>\<open>/v2/:requestType?/:buildtype?/:version?\<close>, as the
  application dispatches it. \<open>v2_path\<close> prints a list of segments as a path; the lemmas
  split a printed path back at its slashes, and the theorems show that routing a printed
  path gives back its segments as the route parameters (with or without a trailing slash,
  whatever the case of \<^verbatim>\<open>/v2\<close>), that a path with fewer than three segments reaches the
  handler and is answered 404 by it, and that a path with more than three segments or an
  empty one matches no route and gets Express's final 404.
\<close>

subsection \<open>Printing paths\<close>

definition v2_path :: "string list \<Rightarrow> bool \<Rightarrow> string" where
  "v2_path segs trailing = ''/v2'' @ concat (map (\<lambda>seg. CHR ''/'' # seg) segs) @ (if trailing then ''/'' else [])"

definition route_params_of :: "string list \<Rightarrow> route_params" where
  "route_params_of segs = \<lparr>requestType = nth_opt segs 0, buildtype = nth_opt segs 1, route_version = nth_opt segs 2\<rparr>"

definition segment_ok :: "string \<Rightarrow> bool" where
  "segment_ok seg \<longleftrightarrow> seg \<noteq> [] \<and> CHR ''/'' \<notin> set seg"

definition any_request :: "string \<Rightarrow> request" where
  "any_request p = \<lparr>req_ip = ''10.0.0.1'', req_method = GET, req_path = p,
     req_query = \<lparr>jq_openjdkImpl = None, jq_os = None, jq_arch = None, jq_release = None, jq_type = None\<rparr>\<rparr>"

subsection \<open>Splitting at the separator\<close>

lemma split_on_no_sep: "c \<notin> set s \<Longrightarrow> split_on c s = [s]"
  by (induction s) auto

lemma split_on_append_sep: "c \<notin> set s \<Longrightarrow> split_on c (s @ c # w) = s # split_on c w"
proof (induction s)
  case Nil
  then show ?case by simp
next
  case (Cons x s)
  then show ?case by auto
qed

lemma split_on_join:
  "list_all (\<lambda>t. c \<notin> set t) (s # ss) \<Longrightarrow> split_on c (s @ concat (map (\<lambda>t. c # t) ss)) = s # ss"
proof (induction ss arbitrary: s)
  case Nil
  then show ?case by (simp add: split_on_no_sep)
next
  case (Cons t ts)
  then show ?case by (simp add: split_on_append_sep)
qed

lemma concat_map_snoc_sep:
  "concat (map (\<lambda>t. c # t) ss) @ [c] = concat (map (\<lambda>t. c # t) (ss @ [[]]))"
  by simp

lemma lower_char_v2 [simp]:
  "lower_char CHR ''/'' = CHR ''/''" "lower_char CHR ''v'' = CHR ''v''" "lower_char CHR ''2'' = CHR ''2''"
  by (simp_all add: js_simps)

lemma split_on_segments:
  assumes "list_all segment_ok (s # ss)"
  shows "split_on CHR ''/'' (s @ concat (map (\<lambda>t. CHR ''/'' # t) ss) @ (if trailing then ''/'' else [])) =
           s # ss @ (if trailing then [[]] else [])"
proof -
  have sep: "list_all (\<lambda>t. CHR ''/'' \<notin> set t) (s # ss @ (if trailing then [[]] else []))"
    using assms by (auto simp: segment_ok_def list_all_iff)
  have "s @ concat (map (\<lambda>t. CHR ''/'' # t) ss) @ (if trailing then ''/'' else []) =
        s @ concat (map (\<lambda>t. CHR ''/'' # t) (ss @ (if trailing then [[]] else [])))"
    by simp
  with split_on_join [OF sep] show ?thesis
    by simp
qed

text \<open>What \<open>v2_route\<close> reads of a printed path with at least one segment.\<close>

lemma v2_path_parts:
  fixes segs :: "string list" and trailing :: bool
  assumes "segs \<noteq> []" and "list_all segment_ok segs"
  defines "ss \<equiv> split_on CHR ''/'' (drop 4 (v2_path segs trailing))"
  shows "take 3 (to_lower (v2_path segs trailing)) = ''/v2''"
    and "v2_path segs trailing ! 3 = CHR ''/''"
    and "(if ss \<noteq> [] \<and> last ss = [] then butlast ss else ss) = segs"
proof -
  obtain s0 ss0 where Cons: "segs = s0 # ss0"
    using assms(1) by (cases segs) auto
  have drop4: "drop 4 (v2_path segs trailing) =
      s0 @ concat (map (\<lambda>t. CHR ''/'' # t) ss0) @ (if trailing then ''/'' else [])"
    using Cons by (simp add: v2_path_def eval_nat_numeral)
  have split: "ss = s0 # ss0 @ (if trailing then [[]] else [])"
    using split_on_segments [of s0 ss0 trailing] assms(2) Cons drop4 by (simp add: ss_def)
  have last_ne: "last (s0 # ss0) \<noteq> []"
    using assms(2) Cons by (auto simp: segment_ok_def list_all_iff)
  show "(if ss \<noteq> [] \<and> last ss = [] then butlast ss else ss) = segs"
    using split last_ne Cons by (cases trailing) (simp_all add: butlast_append)
  show "take 3 (to_lower (v2_path segs trailing)) = ''/v2''" "v2_path segs trailing ! 3 = CHR ''/''"
    using Cons by (simp_all add: v2_path_def eval_nat_numeral)
qed

lemma v2_route_v2_path:
  assumes "length segs \<le> 3" and "list_all segment_ok segs"
  shows "v2_route (v2_path segs trailing) = Some (route_params_of segs)"
proof (cases "segs = []")
  case True
  then show ?thesis
    by (simp add: v2_route_def v2_path_def route_params_of_def)
next
  case False
  show ?thesis
    using assms v2_path_parts [OF False assms(2), of trailing]
    by (simp add: v2_route_def route_params_of_def Let_def segment_ok_def list_all_iff)
qed

lemma v2_route_too_many:
  assumes "3 < length segs" and "list_all segment_ok segs"
  shows "v2_route (v2_path segs trailing) = None"
proof -
  have "segs \<noteq> []"
    using assms(1) by auto
  from v2_path_parts [OF this assms(2), of trailing] assms(1) show ?thesis
    by (simp add: v2_route_def Let_def)
qed

lemma v2_path_not_readme:
  "\<not> path_matches ''/README.v1.md'' (v2_path segs trailing)"
  "\<not> list_ex (\<lambda>q. path_matches q (v2_path segs trailing)) readme_paths"
  by (simp_all add: path_matches_def readme_paths_def v2_path_def js_simps)

text \<open>A GET or HEAD request no earlier route takes reaches the v2 handler when its path routes.\<close>

lemma app_routes_v2_route:
  assumes "is_get (req_method r)" "other_route s r = None" "v2_route (req_path r) = Some rp"
  shows "app_routes s f r = Routed (v2_js f rp (req_query r))"
  using assms v2_route_not_readme [OF assms(3)] by (simp add: app_routes_def)

lemma nth_opt_beyond: "length xs \<le> n \<Longrightarrow> nth_opt xs n = None"
  by (induction xs n rule: nth_opt.induct) simp_all

subsection \<open>Routing printed paths\<close>

text \<open>
  C30. Round trip of the route path: a GET or HEAD request for \<^verbatim>\<open>/v2\<close> followed by
  at most three non-empty segments without slashes, with or without a trailing slash,
  that no earlier route takes, is handed to the v2 handler with exactly those segments
  as \<^verbatim>\<open>requestType\<close>, \<^verbatim>\<open>buildtype\<close> and \<^verbatim>\<open>version\<close>, in order, absent ones
  undefined, and the request's query.
\<close>

theorem app_routes_v2_path:
  assumes "is_get (req_method r)" "req_path r = v2_path segs trailing" "length segs \<le> 3"
    "list_all segment_ok segs" "other_route s r = None"
  shows "app_routes s f r = Routed (v2_js f (route_params_of segs) (req_query r))"
proof -
  have "v2_route (v2_path segs trailing) = Some (route_params_of segs)"
  proof (cases "segs = []")
    case True
    then show ?thesis
      by (simp add: v2_route_def v2_path_def route_params_of_def)
  next
    case False
    show ?thesis
      using assms(3,4) v2_path_parts [OF False assms(4), of trailing]
      by (simp add: v2_route_def route_params_of_def Let_def segment_ok_def list_all_iff)
  qed
  with assms show ?thesis
    by (simp add: app_routes_v2_route)
qed

lemma app_routes_v2_path_witness:
  "is_get (req_method (any_request (v2_path [''info'', ''releases'', ''openjdk8''] True))) \<and>
   req_path (any_request (v2_path [''info'', ''releases'', ''openjdk8''] True)) =
     v2_path [''info'', ''releases'', ''openjdk8''] True \<and>
   length [''info'', ''releases'', ''openjdk8''] \<le> 3 \<and>
   list_all segment_ok [''info'', ''releases'', ''openjdk8''] \<and>
   other_route example_site (any_request (v2_path [''info'', ''releases'', ''openjdk8''] True)) = None \<and>
   app_routes example_site (\<lambda>_ _. Inl InternalError) (any_request (v2_path [''info'', ''releases'', ''openjdk8''] True)) =
     Routed (v2_js (\<lambda>_ _. Inl InternalError)
       \<lparr>requestType = Some ''info'', buildtype = Some ''releases'', route_version = Some ''openjdk8''\<rparr>
       (req_query (any_request (v2_path [''info'', ''releases'', ''openjdk8''] True))))"
  using app_routes_v2_path [of "any_request (v2_path [''info'', ''releases'', ''openjdk8''] True)"
      "[''info'', ''releases'', ''openjdk8'']" True example_site "\<lambda>_ _. Inl InternalError"]
  by (simp add: any_request_def is_get_def segment_ok_def example_site_def route_params_of_def eval_nat_numeral)

text \<open>
  C31. A v2 path with fewer than three segments matches the route, whose parameters are
  optional, and the handler answers it 404 \<^verbatim>\<open>Not found\<close>: the request never reaches
  the upstream cache.
\<close>

theorem app_routes_v2_short_path:
  assumes "is_get (req_method r)" "req_path r = v2_path segs trailing" "length segs < 3"
    "list_all segment_ok segs" "other_route s r = None"
  shows "app_routes s f r = Routed (Send 404 ''Not found'')"
proof -
  have "app_routes s f r = Routed (v2_js f (route_params_of segs) (req_query r))"
    using assms v2_route_v2_path [of segs trailing] by (simp add: app_routes_v2_route)
  moreover have "route_version (route_params_of segs) = None"
    using assms(3) by (simp add: route_params_of_def nth_opt_beyond)
  ultimately show ?thesis
    by (simp add: v2_js_def not_found_def split: option.split)
qed

lemma app_routes_v2_short_path_witness:
  "is_get (req_method (any_request (v2_path [''info'', ''releases''] False))) \<and>
   req_path (any_request (v2_path [''info'', ''releases''] False)) = v2_path [''info'', ''releases''] False \<and>
   length [''info'', ''releases''] < 3 \<and> list_all segment_ok [''info'', ''releases''] \<and>
   other_route example_site (any_request (v2_path [''info'', ''releases''] False)) = None \<and>
   app_routes example_site (\<lambda>_ _. Inl InternalError) (any_request (v2_path [''info'', ''releases''] False)) =
     Routed (Send 404 ''Not found'')"
  using app_routes_v2_short_path [of "any_request (v2_path [''info'', ''releases''] False)"
      "[''info'', ''releases'']" False example_site "\<lambda>_ _. Inl InternalError"]
  by (simp add: any_request_def is_get_def segment_ok_def example_site_def)

text \<open>
  C32. A v2 path with more than three segments matches no route: no earlier route takes
  it, the v2 route does not match it, and Express answers its final 404.
\<close>

theorem app_routes_v2_long_path:
  assumes "is_get (req_method r)" "req_path r = v2_path segs trailing" "3 < length segs"
    "list_all segment_ok segs" "other_route s r = None"
  shows "app_routes s f r = Unmatched (req_path r)"
  using assms v2_route_too_many [OF assms(3,4), of trailing] v2_path_not_readme [of segs trailing]
  by (simp add: app_routes_def)

lemma app_routes_v2_long_path_witness:
  "is_get (req_method (any_request (v2_path [''info'', ''releases'', ''openjdk8'', ''x''] False))) \<and>
   req_path (any_request (v2_path [''info'', ''releases'', ''openjdk8'', ''x''] False)) =
     v2_path [''info'', ''releases'', ''openjdk8'', ''x''] False \<and>
   3 < length [''info'', ''releases'', ''openjdk8'', ''x''] \<and>
   list_all segment_ok [''info'', ''releases'', ''openjdk8'', ''x''] \<and>
   other_route example_site (any_request (v2_path [''info'', ''releases'', ''openjdk8'', ''x''] False)) = None \<and>
   app_routes example_site (\<lambda>_ _. Inl InternalError)
       (any_request (v2_path [''info'', ''releases'', ''openjdk8'', ''x''] False)) =
     Unmatched ''/v2/info/releases/openjdk8/x''"
  using app_routes_v2_long_path [of "any_request (v2_path [''info'', ''releases'', ''openjdk8'', ''x''] False)"
      "[''info'', ''releases'', ''openjdk8'', ''x'']" False example_site "\<lambda>_ _. Inl InternalError"]
  by (simp add: any_request_def is_get_def segment_ok_def example_site_def v2_path_def)

end
