(* ===== verification/Spec2Isabelle.thy ===== *)
theory Spec2Isabelle
  imports Contract FileNames ServerTrace Routes
begin

text \<open>
  \<^bold>\<open>A verification development of the AdoptOpenJDK API server\<close> (\<^verbatim>\<open>src/server.js\<close>
  and the v2 route \<^verbatim>\<open>src/app/routes/v2.js\<close>).

  \<^bold>\<open>The program.\<close> The server (\<^verbatim>\<open>server.js\<close>) runs every request through an Express
  middleware stack: a rate limiter (600 requests per client and hour), static files,
  a CORS header, documentation pages, and the API routes, one of which is the v2 route.
  The v2 route handler takes the route parameters and the query. It asks the upstream
  cache for the GitHub releases of a version and build type. It normalizes them: each
  asset name is parsed by one of three naming conventions (regular expressions), the
  checksum files and unparseable assets are dropped, then the releases left without
  binaries. It applies four case-insensitive property filters and the release filter
  (by name, or the latest). Finally it answers: the list (mode info), a redirect to the
  single matching binary (mode binary), 404, 400 on ambiguity, or the upstream's error.

  \<^bold>\<open>Theories, in import order.\<close>
  \<^item> \<^theory_text>\<open>Prelude\<close>: the JavaScript string methods the code calls (\<open>to_lower\<close> for
    \<^verbatim>\<open>toLowerCase\<close>, \<open>ends_with\<close>, \<open>replace_first\<close> for \<^verbatim>\<open>replace\<close>), the
    upstream records \<open>gh_asset\<close> and \<open>gh_release\<close>, the evaluation rules
    \<open>js_simps\<close> and shared list lemmas.
  \<^item> \<^theory_text>\<open>Regex\<close>: the ECMAScript matcher the parsers call through
    \<^verbatim>\<open>name.match(new RegExp(..))\<close>, modelled from the ECMAScript specification: the
    continuation-passing matcher \<open>mc\<close>, an equivalent first-order stack machine \<open>mm\<close>
    (\<open>mc_eq_mm\<close>) that \<open>simp\<close> evaluates, the unanchored search \<open>exec_at\<close> and
    \<open>str_match\<close>, captures \<open>cap\<close>, and matching lemmas for literals, repetitions,
    greedy stars and groups.
  \<^item> \<^theory_text>\<open>RegexLang\<close>: the language \<open>re_lang\<close> of a pattern and the
    soundness of the engine for it (a returned match spans a word of the pattern's
    language), and \<open>min_count\<close>, the least number of occurrences of a character in
    the words of a pattern, with which a parser is shown to reject a name.
  \<^item> \<^theory_text>\<open>FileInfo\<close>: the patterns of \<^verbatim>\<open>getNewStyleFileInfo\<close>,
    \<^verbatim>\<open>getOldStyleFileInfo\<close> and \<^verbatim>\<open>getAmberStyleFileInfo\<close> (v2.js lines 130--200)
    and the three parsers. \<^theory_text>\<open>FileNames\<close> adds printers for the three naming
    conventions, stage lemmas that run \<open>mm\<close> over one part of a name at a time, and
    the round trips.
  \<^item> \<^theory_text>\<open>Normalizer\<close>: \<^verbatim>\<open>formBinaryAssetInfo\<close>, \<^verbatim>\<open>githubReleaseToAdoptRelease\<close>,
    \<^verbatim>\<open>githubDataToAdoptApi\<close> (lines 202--257), with the invariant that every
    normalized release has a binary, where each binary comes from, and the
    well-formedness of a binary (\<open>binary_wf\<close>: lower-case fields, type jdk or jre,
    checksum link derived from the download link).
  \<^item> \<^theory_text>\<open>QueryFilter\<close>: \<^verbatim>\<open>filterReleaseBinaries\<close>,
    \<^verbatim>\<open>filterReleaseOnBinaryProperty\<close>, \<^verbatim>\<open>filterRelease\<close> (lines 4--46): the filters
    preserve the invariant, select case-insensitively, are idempotent and commute;
    \<^verbatim>\<open>latest\<close> is the last maximum
    of underscore's stable \<^verbatim>\<open>sortBy\<close> (\<open>sort_key\<close>).
  \<^item> \<^theory_text>\<open>Handler\<close>: \<^verbatim>\<open>sendData\<close>, \<^verbatim>\<open>redirectToBinary\<close> and the exported handler
    \<open>v2\<close> with its then and catch callbacks (lines 48--128). What it does to the
    response object is a \<open>response\<close> value; a JavaScript exception is a value of
    \<open>js_exn\<close> (errors as the left side of a sum); the upstream cache is a parameter
    \<open>fetch\<close> returning the error or the release list its promise settles with.
    Here the query is a record of strings.
  \<^item> \<^theory_text>\<open>JsQuery\<close>: the query as Express parses it, each value a string or
    \<open>QNonString\<close> (an array or object), and the handler on it, \<open>v2_js\<close>, whose
    \<^verbatim>\<open>toLowerCase\<close> calls throw a \<^verbatim>\<open>TypeError\<close> on such values. On string
    values it is \<open>v2\<close> (\<open>v2_js_of_query\<close>); the theory characterizes exactly the
    requests the handler never answers (\<open>v2_js_NoResponse_iff\<close>).
  \<^item> \<^theory_text>\<open>Contract\<close>: the behaviour the spec asks of the resolvers and the handler,
    written from \<^verbatim>\<open>spec.md\<close>, and the refinement lemmas that the code implements it.
  \<^item> \<^theory_text>\<open>Server\<close>: \<^verbatim>\<open>server.js\<close>: the listener, the rate limiter's memory store as the
    state kept between requests (\<open>limiter\<close>, \<open>incr\<close>, \<open>resetAll\<close>, \<open>rateLimit\<close>),
    the middleware stack \<open>app_handle\<close> in registration order, the routes
    \<open>app_routes\<close> (the v2 route is \<open>v2_js\<close> on the request's query), and \<open>run\<close> over a sequence of requests and window resets; every
    request of a client, whatever it asks for, counts toward one quota.
  \<^item> \<^theory_text>\<open>ServerTrace\<close>: the same application as a transition system: the inductive
    \<open>server_reach\<close> holds of the store and the log of answers and resets the process can
    reach from the empty store (\<open>initial_limiter\<close>) by any interleaving of requests and
    window resets; \<open>run\<close> is one of its paths.
  \<^item> \<^theory_text>\<open>Routes\<close>: the v2 route path: a printer \<open>v2_path\<close> for
    \<^verbatim>\<open>/v2\<close> followed by segments, and what \<open>app_routes\<close> does with printed paths
    (the segments come back as the route parameters; fewer than three are answered 404
    by the handler, more than three by Express).
  \<^item> This theory: properties that span the components (where a redirect points,
    refinement of the contract by the whole handler, which asset names can never become
    binaries, the spec's end-to-end example among them, that an asset whose name extends
    a binary's name is a second binary, the round trip through the normalizer, the
    well-formedness of every binary served, which requests the whole application
    leaves unanswered, and how a legacy JRE archive is classified).

  \<^bold>\<open>What the lemmas show.\<close> Invariants (every release keeps a binary through the
  normalizer and the filters; every binary served is well formed); the functional
  behaviour of each filter and resolver on every branch, the error branches included;
  refinement of the spec's contract by the resolvers and by the whole handler;
  soundness and termination of the regular-expression engine; round trips of the three
  naming conventions (printer, then parser, gives back the fields; through
  \<^verbatim>\<open>formBinaryAssetInfo\<close>, the new-style pattern rejects old names); the rate
  limiter's bound within a window and its shared quota, and, by rule induction over the reachable states,
  that a client never gets more than the limit past it between two resets; the
  composition of the server with the v2 handler; the rate-limit headers of every answer
  in a reachable state; the round trip of the route path and its error answers.
  Each property with a hypothesis has a witness that evaluates it at a concrete input.

  \<^bold>\<open>Evaluation and bounds.\<close> All definitions are executable. Regular expressions are
  evaluated by \<open>simp\<close> through \<open>mm\<close>, whose termination measure is the input left,
  then the size of the frame stack; no fuel is needed, and \<open>mm_terminates\<close> states
  that every call lies in the matcher's domain (the parsers' searches terminate). The
  rate limiter's counters are unbounded naturals (JavaScript numbers do not overflow at
  these sizes); the witnesses of the limiter use 600 requests or a limit of one.

  \<^bold>\<open>Not modelled.\<close> The upstream cache \<^verbatim>\<open>github_file_cache\<close> and the route
  registration \<^verbatim>\<open>app/routes/index\<close> are not in the repository's sources; the spec
  gives the cache only as an interface, so it is a parameter \<open>fetch\<close>.
  The v2 route path is modelled from the spec and the v1 routes are a parameter.
  \<^verbatim>\<open>JSON.stringify\<close> is kept abstract: the payload carries the data printed.
  \<^verbatim>\<open>toLowerCase\<close> is modelled on ASCII. Query values that are arrays or objects
  are one case, \<open>QNonString\<close>: the code only calls \<^verbatim>\<open>toLowerCase\<close> on them, which
  both lack. Timing, TLS and logging of the server are not modelled, nor are the
  module imports (the \<^verbatim>\<open>require\<close> lines of both files), which compute nothing. The libraries'
  behaviour is modelled from their documentation: express-rate-limit's memory store,
  \<^verbatim>\<open>express.static\<close> and markdown-serve, whose files and rendering are parameters.
\<close>

subsection \<open>Definitions spanning the components\<close>

text \<open>A binary satisfies every property filter the query gives.\<close>

definition query_matches :: "query_params \<Rightarrow> binary \<Rightarrow> bool" where
  "query_matches q b \<longleftrightarrow>
     opt_match (q_openjdkImpl q) (openjdk_impl b) \<and> opt_match (q_os q) (os b) \<and>
     opt_match (q_arch q) (architecture b) \<and> opt_match (q_type q) (binaryType b)"

definition example_params :: "string \<Rightarrow> route_params" where
  "example_params rt = \<lparr>requestType = Some rt, buildtype = Some ''releases'', route_version = Some ''openjdk8''\<rparr>"

definition example_query :: "string option \<Rightarrow> string option \<Rightarrow> query_params" where
  "example_query osq rel = \<lparr>q_openjdkImpl = None, q_os = osq, q_arch = None, q_release = rel, q_type = None\<rparr>"

text \<open>The upstream release of the end-to-end example of spec section 8.\<close>

definition spec_example_release :: gh_release where
  "spec_example_release = \<lparr>tag_name = ''jdk8u-2020-01-01'', published_at = ''2020-01-01T00:00:00Z'',
     assets = [\<lparr>name = ''OpenJDKU_x64_linux_hotspot_2020-01-01-00-00.tar.gz'',
                browser_download_url = ''u1'', asset_size = 100\<rparr>]\<rparr>"

text \<open>
  A release that publishes a detached signature next to its archive, as release pages
  commonly do.
\<close>

definition sig_release :: gh_release where
  "sig_release = \<lparr>tag_name = ''jdk8u-2020-01-01'', published_at = ''2020-01-01T00:00:00Z'',
     assets = [\<lparr>name = ''OpenJDK8U_x64_linux_hotspot_2020-01-01-00-00.tar.gz'',
                browser_download_url = ''u1'', asset_size = 100\<rparr>,
               \<lparr>name = ''OpenJDK8U_x64_linux_hotspot_2020-01-01-00-00.tar.gz.sig'',
                browser_download_url = ''u2'', asset_size = 1\<rparr>]\<rparr>"

text \<open>A release publishing a single asset.\<close>

definition single_release :: "string \<Rightarrow> string \<Rightarrow> gh_asset \<Rightarrow> gh_release" where
  "single_release tg ts a = \<lparr>tag_name = tg, published_at = ts, assets = [a]\<rparr>"

subsection \<open>Lemmas\<close>

lemma property_filters_binary:
  assumes "r \<in> set (property_filters q githubData)" and "b \<in> set (binaries r)"
  shows "query_matches q b \<and>
         (\<exists>r0 \<in> set (githubDataToAdoptApi githubData). release_name r0 = release_name r \<and> b \<in> set (binaries r0))"
proof -
  have "(release_name r, b) \<in> set (release_binaries (property_filters q githubData))"
    using assms by (auto simp: in_release_binaries)
  from this [unfolded property_filters_def Let_def in_release_binaries_filterReleaseOnBinaryProperty]
  show ?thesis
    by (auto simp: query_matches_def in_release_binaries)
qed

text \<open>The application answers \<open>Routed NoResponse\<close> only through the v2 route.\<close>

lemma app_handle_NoResponse_route:
  assumes "\<forall>r'. other_route s r' \<noteq> Some NoResponse"
  shows "out_body (snd (app_handle opts s f st r)) = Routed NoResponse \<longleftrightarrow>
     (max_hits opts = 0 \<or> hits st (req_ip r) < max_hits opts) \<and> is_get (req_method r) \<and>
     req_path r \<notin> set (static_files s) \<and> other_route s r = None \<and>
     (\<exists>rp. v2_route (req_path r) = Some rp \<and> v2_js f rp (req_query r) = NoResponse)"
proof -
  have lim: "\<not> (0 < max_hits opts \<and> max_hits opts < Suc (hits st (req_ip r))) \<longleftrightarrow>
      max_hits opts = 0 \<or> hits st (req_ip r) < max_hits opts"
    by auto
  have routes: "app_routes s f r = Routed NoResponse \<longleftrightarrow>
      is_get (req_method r) \<and> other_route s r = None \<and>
      (\<exists>rp. v2_route (req_path r) = Some rp \<and> v2_js f rp (req_query r) = NoResponse)"
    using assms by (auto simp: app_routes_def Let_def split: option.splits dest: v2_route_not_readme)
  show ?thesis
    unfolding app_handle_def rateLimit_def incr_def
    using lim routes by (auto simp: Let_def)
qed

subsection \<open>Properties\<close>

text \<open>
  C2. A redirect always points at the download link of an upstream asset of the fetched
  data that was requested in \<^verbatim>\<open>binary\<close> mode, is not a checksum file, parses, and
  whose binary satisfies every property filter of the query.
\<close>

theorem v2_Redirect_origin:
  assumes "v2 fetch rp q = Redirect u"
  shows "\<exists>bt ver data. requestType rp = Some ''binary'' \<and> buildtype rp = Some bt \<and>
           route_version rp = Some ver \<and> fetch ver bt = Inr data \<and>
           (\<exists>gr \<in> set data. \<exists>a \<in> set (assets gr). \<exists>b.
              kept_asset gr a \<and> formBinaryAssetInfo a gr = Some b \<and>
              u = browser_download_url a \<and> query_matches q b)"
proof -
  obtain rt bt ver where p: "requestType rp = Some rt" "buildtype rp = Some bt" "route_version rp = Some ver"
    using assms by (auto simp: v2_def not_found_def split: option.splits)
  obtain data where f: "fetch ver bt = Inr data" and od: "on_data rt q data = Inr (Redirect u)"
  proof (cases "fetch ver bt")
    case (Inl e)
    with assms p show ?thesis by (simp add: v2_params on_error_not_Redirect)
  next
    case (Inr data)
    with assms p that show ?thesis
      by (cases "on_data rt q data") (simp_all add: v2_params on_error_not_Redirect)
  qed
  let ?d = "filterRelease (property_filters q data) (q_release q)"
  have rt: "rt = ''binary''" and rd: "redirectToBinary ?d = Inr (Redirect u)"
    using od by (auto simp: on_data_def Let_def sendData_not_Redirect not_found_def split: if_splits)
  obtain r b where r: "r \<in> set (data_list ?d)" and b: "binaries r = [b]" and u: "u = binary_link b"
    using redirectToBinary_Redirect [OF rd] by blast
  have "r \<in> set (property_filters q data)"
    using r set_spec_release_filter data_list_filterRelease by fastforce
  then obtain r0 where r0: "r0 \<in> set (githubDataToAdoptApi data)" "b \<in> set (binaries r0)"
    and m: "query_matches q b"
    using property_filters_binary [of r q data b] b by auto
  obtain gr a where "gr \<in> set data" "a \<in> set (assets gr)" "kept_asset gr a"
    and fa: "formBinaryAssetInfo a gr = Some b"
    using githubDataToAdoptApi_origin [OF r0] by blast
  moreover have "u = browser_download_url a"
    using u formBinaryAssetInfo_Some [OF fa] by simp
  ultimately show ?thesis
    using p f rt m by blast
qed

lemma v2_Redirect_origin_witness:
  "v2 (\<lambda>_ _. Inr [example_release]) (example_params ''binary'') (example_query (Some ''Linux'') None) = Redirect ''u1'' \<and>
   (\<exists>bt ver data. requestType (example_params ''binary'') = Some ''binary'' \<and>
      buildtype (example_params ''binary'') = Some bt \<and> route_version (example_params ''binary'') = Some ver \<and>
      (\<lambda>_ _. Inr [example_release]) ver bt = (Inr data :: upstream_error + gh_release list) \<and>
      (\<exists>gr \<in> set data. \<exists>a \<in> set (assets gr). \<exists>b.
         kept_asset gr a \<and> formBinaryAssetInfo a gr = Some b \<and>
         ''u1'' = browser_download_url a \<and> query_matches (example_query (Some ''Linux'') None) b))"
proof -
  have r: "v2 (\<lambda>_ _. Inr [example_release]) (example_params ''binary'') (example_query (Some ''Linux'') None) =
           Redirect ''u1''"
    by (simp add: v2_def example_params_def example_query_def on_data_def property_filters_def
        githubDataToAdoptApi_example filterReleaseOnBinaryProperty_Some filterReleaseBinaries_def
        filterRelease_def redirectToBinary_def redirectToRelease_def example_binary_def js_simps)
  show ?thesis
    using r v2_Redirect_origin [OF r] by simp
qed

text \<open>
  C11. Whenever the route answers, its answer is the one the contract of
  \<^theory_text>\<open>Contract\<close> prescribes (up to the single-object shape of \<^verbatim>\<open>latest\<close>):
  missing route parameters and unknown modes give 404, upstream failures give 500 or
  the upstream status, and the filtered data is resolved by the contract's rules.
\<close>

theorem v2_refines_spec:
  assumes "v2 fetch rp q \<noteq> NoResponse"
  shows "abs_response (v2 fetch rp q) = spec_v2 fetch rp q"
proof (cases "\<exists>rt bt ver. requestType rp = Some rt \<and> buildtype rp = Some bt \<and> route_version rp = Some ver")
  case True
  then obtain rt bt ver where p: "requestType rp = Some rt" "buildtype rp = Some bt" "route_version rp = Some ver"
    by blast
  show ?thesis
  proof (cases "fetch ver bt")
    case (Inl e)
    with p show ?thesis
      by (cases e) (simp_all add: v2_params spec_v2_def on_error_def)
  next
    case (Inr data)
    note fetched = this
    show ?thesis
    proof (cases "on_data rt q data")
      case (Inl err)
      with p fetched assms have False
        by (simp add: v2_params on_data_Inl_iff on_error_def)
      then show ?thesis ..
    next
      case (Inr resp)
      with p fetched show ?thesis
        using on_data_abs [OF Inr] by (simp add: v2_params spec_v2_def Let_def)
    qed
  qed
next
  case False
  then show ?thesis
    by (auto simp: v2_def spec_v2_def not_found_def split: option.split)
qed

lemma v2_refines_spec_witness:
  "v2 (\<lambda>_ _. Inl InternalError) (example_params ''info'') (example_query None None) \<noteq> NoResponse \<and>
   abs_response (v2 (\<lambda>_ _. Inl InternalError) (example_params ''info'') (example_query None None)) =
     spec_v2 (\<lambda>_ _. Inl InternalError) (example_params ''info'') (example_query None None)"
proof -
  have h: "v2 (\<lambda>_ _. Inl InternalError) (example_params ''info'') (example_query None None) \<noteq> NoResponse"
    by (simp add: v2_def example_params_def on_error_def)
  show ?thesis using h v2_refines_spec [OF h] by simp
qed

text \<open>
  C12. Only names with \<^verbatim>\<open>OpenJDK\<close> followed by a version digit, or with
  \<^verbatim>\<open>OpenJDK-AMBER_\<close>, can become binaries: an asset whose name contains neither is
  dropped, whatever else it contains, since the new and old patterns start with
  \<^verbatim>\<open>OpenJDK([0-9]+)\<close> and the Amber pattern with \<^verbatim>\<open>OpenJDK-AMBER_\<close>. The asset
  of the end-to-end example of spec section 8,
  \<^verbatim>\<open>OpenJDKU_x64_linux_hotspot_2020-01-01-00-00.tar.gz\<close>, is such a name, so the
  example's release is dropped and its request answered 404 where the spec shows a binary.
\<close>

theorem formBinaryAssetInfo_unparseable:
  assumes "\<forall>d. is_digit d \<longrightarrow> \<not> sublist (''OpenJDK'' @ [d]) (name a)"
    and "\<not> sublist ''OpenJDK-AMBER_'' (name a)"
  shows "formBinaryAssetInfo a rel = None"
proof -
  have "getNewStyleFileInfo (name a) = None"
    using assms(1) getNewStyleFileInfo_needs_digit [of "name a"] by blast
  moreover have "getOldStyleFileInfo (name a) = None"
    using assms(1) getOldStyleFileInfo_needs_digit [of "name a"] by blast
  moreover have "getAmberStyleFileInfo (name a) rel = None"
    using assms(2) getAmberStyleFileInfo_needs_AMBER [of "name a" rel] by blast
  ultimately show ?thesis
    by (simp add: formBinaryAssetInfo_None_iff)
qed

lemma formBinaryAssetInfo_unparseable_witness:
  "\<not> (\<exists>d. is_digit d \<and> sublist (''OpenJDK'' @ [d]) (name (hd (assets spec_example_release)))) \<and>
   \<not> sublist ''OpenJDK-AMBER_'' (name (hd (assets spec_example_release))) \<and>
   formBinaryAssetInfo (hd (assets spec_example_release)) spec_example_release = None"
proof -
  have d: "\<forall>d. is_digit d \<longrightarrow> \<not> sublist (''OpenJDK'' @ [d]) (name (hd (assets spec_example_release)))"
    by (auto simp: spec_example_release_def sublist_Cons_right is_digit_def)
  have am: "\<not> sublist ''OpenJDK-AMBER_'' (name (hd (assets spec_example_release)))"
    by (simp add: spec_example_release_def sublist_Cons_right)
  show ?thesis
    using formBinaryAssetInfo_unparseable [OF d am, of spec_example_release] d am by simp
qed

text \<open>
  C17. Round trip of the new naming convention through the normalizer: for an asset whose
  name is printed in the new convention, \<^verbatim>\<open>formBinaryAssetInfo\<close> builds the binary with
  the printed version and binary type, the architecture, OS and implementation lowercased,
  the asset's name, link and size, and the link with \<^verbatim>\<open>.sha256.txt\<close> appended as checksum link.
\<close>

theorem formBinaryAssetInfo_new_style_roundtrip:
  assumes "number_ok v" "word_ok arc" "word_ok osn" "word_ok impl" "filler_ok f" "tstamp_ok t" "ext_ok e"
  shows "formBinaryAssetInfo
      \<lparr>name = new_style_name v u jre arc osn impl f t e, browser_download_url = url, asset_size = sz\<rparr> rel =
    Some \<lparr>os = to_lower osn, architecture = to_lower arc, binaryType = (if jre then ''jre'' else ''jdk''),
          openjdk_impl = to_lower impl, binary_name = new_style_name v u jre arc osn impl f t e,
          binary_link = url, binary_size = sz, checksum_link = url @ ''.sha256.txt'', version = v\<rparr>"
proof -
  obtain m where "str_match new_style_re (new_style_name v u jre arc osn impl f t e) = Some m"
    "cap (new_style_name v u jre arc osn impl f t e) m 1 = Some v"
    "(cap (new_style_name v u jre arc osn impl f t e) m 2 \<noteq> None) = jre"
    "cap (new_style_name v u jre arc osn impl f t e) m 3 = Some arc"
    "cap (new_style_name v u jre arc osn impl f t e) m 4 = Some osn"
    "cap (new_style_name v u jre arc osn impl f t e) m 5 = Some impl"
    "cap (new_style_name v u jre arc osn impl f t e) m 6 = Some (new_tstamp t)"
    "cap (new_style_name v u jre arc osn impl f t e) m 7 = Some e"
    by (rule FileNames.new_style_name_caps [OF assms])
  then show ?thesis
    by (simp add: formBinaryAssetInfo_def getNewStyleFileInfo_def)
qed

lemma formBinaryAssetInfo_new_style_roundtrip_witness:
  "number_ok ''11'' \<and> word_ok ''x64'' \<and> word_ok ''Linux'' \<and> word_ok ''OpenJ9'' \<and> filler_ok [] \<and>
   tstamp_ok \<lparr>ts_year = ''2019'', ts_month = ''01'', ts_day = ''15'', ts_hour = ''12'', ts_minute = ''30''\<rparr> \<and>
   ext_ok ''zip'' \<and>
   formBinaryAssetInfo
     \<lparr>name = new_style_name ''11'' False True ''x64'' ''Linux'' ''OpenJ9'' []
        \<lparr>ts_year = ''2019'', ts_month = ''01'', ts_day = ''15'', ts_hour = ''12'', ts_minute = ''30''\<rparr> ''zip'',
      browser_download_url = ''u'', asset_size = 7\<rparr>
     \<lparr>tag_name = ''jdk-11'', published_at = [], assets = []\<rparr> =
   Some \<lparr>os = ''linux'', architecture = ''x64'', binaryType = ''jre'', openjdk_impl = ''openj9'',
     binary_name = ''OpenJDK11-jre_x64_Linux_OpenJ9_2019-01-15-12-30.zip'',
     binary_link = ''u'', binary_size = 7, checksum_link = ''u.sha256.txt'', version = ''11''\<rparr>"
  using formBinaryAssetInfo_new_style_roundtrip [of "''11''" "''x64''" "''Linux''" "''OpenJ9''" "[]"
      "\<lparr>ts_year = ''2019'', ts_month = ''01'', ts_day = ''15'', ts_hour = ''12'', ts_minute = ''30''\<rparr>"
      "''zip''" False True "''u''" 7 "\<lparr>tag_name = ''jdk-11'', published_at = [], assets = []\<rparr>"]
  by (simp add: number_ok_def word_ok_def filler_ok_def tstamp_ok_def digits_n_def ext_ok_def
    new_style_name_def new_tstamp_def js_simps)

text \<open>
  C18. Round trip of the old naming convention through the normalizer: the new-style pattern
  rejects an old-style name (it needs the four dashes of a new timestamp), so
  \<^verbatim>\<open>formBinaryAssetInfo\<close> falls back to \<^verbatim>\<open>getOldStyleFileInfo\<close> and builds the
  binary with the printed version, binary type \<^verbatim>\<open>jdk\<close>, the architecture and OS
  lowercased, and the implementation from the \<^verbatim>\<open>-impl\<close> group lowercased, or
  \<^verbatim>\<open>hotspot\<close> when the group is absent.
\<close>

theorem formBinaryAssetInfo_old_style_roundtrip:
  assumes "number_ok v" "case g of None \<Rightarrow> True | Some s \<Rightarrow> word_ok s" "word_ok arc" "word_ok osn"
    "filler_ok f" "count_list f CHR ''-'' < 3" "tstamp_ok t" "ext_ok e"
  shows "formBinaryAssetInfo
      \<lparr>name = old_style_name v u g arc osn f t e, browser_download_url = url, asset_size = sz\<rparr> rel =
    Some \<lparr>os = to_lower osn, architecture = to_lower arc, binaryType = ''jdk'',
          openjdk_impl = to_lower (case g of None \<Rightarrow> ''hotspot'' | Some s \<Rightarrow> s),
          binary_name = old_style_name v u g arc osn f t e,
          binary_link = url, binary_size = sz, checksum_link = url @ ''.sha256.txt'', version = v\<rparr>"
proof -
  have "count_list (old_style_name v u g arc osn f t e) CHR ''-'' < 4"
    using FileNames.count_list_old_style_name [OF assms(1-4,7,8)] assms(6) by (cases g) simp_all
  then have "getNewStyleFileInfo (old_style_name v u g arc osn f t e) = None"
    by (rule FileNames.getNewStyleFileInfo_few_dashes)
  moreover obtain m where "str_match old_style_re (old_style_name v u g arc osn f t e) = Some m"
    "cap (old_style_name v u g arc osn f t e) m 1 = Some v"
    "cap (old_style_name v u g arc osn f t e) m 2 = map_option (\<lambda>s. ''-'' @ s) g"
    "cap (old_style_name v u g arc osn f t e) m 3 = Some arc"
    "cap (old_style_name v u g arc osn f t e) m 4 = Some osn"
    "cap (old_style_name v u g arc osn f t e) m 5 = Some (old_tstamp t)"
    "cap (old_style_name v u g arc osn f t e) m 6 = Some e"
    by (rule FileNames.old_style_name_caps [OF assms(1-5,7,8)])
  ultimately show ?thesis
    by (cases g) (simp_all add: formBinaryAssetInfo_def getOldStyleFileInfo_def)
qed

lemma formBinaryAssetInfo_old_style_roundtrip_witness:
  "number_ok ''8'' \<and> word_ok ''OpenJ9'' \<and> word_ok ''x64'' \<and> word_ok ''linux'' \<and> filler_ok ''_8u181b13'' \<and>
   count_list ''_8u181b13'' CHR ''-'' < 3 \<and>
   tstamp_ok \<lparr>ts_year = ''2018'', ts_month = ''08'', ts_day = ''06'', ts_hour = ''18'', ts_minute = ''22''\<rparr> \<and>
   ext_ok ''tar.gz'' \<and>
   formBinaryAssetInfo
     \<lparr>name = old_style_name ''8'' True (Some ''OpenJ9'') ''x64'' ''linux'' ''_8u181b13''
        \<lparr>ts_year = ''2018'', ts_month = ''08'', ts_day = ''06'', ts_hour = ''18'', ts_minute = ''22''\<rparr> ''tar.gz'',
      browser_download_url = ''u'', asset_size = 7\<rparr>
     \<lparr>tag_name = ''jdk8u181-b13'', published_at = [], assets = []\<rparr> =
   Some \<lparr>os = ''linux'', architecture = ''x64'', binaryType = ''jdk'', openjdk_impl = ''openj9'',
     binary_name = ''OpenJDK8U-OpenJ9_x64_linux_8u181b13_201808061822.tar.gz'',
     binary_link = ''u'', binary_size = 7, checksum_link = ''u.sha256.txt'', version = ''8''\<rparr>"
  using formBinaryAssetInfo_old_style_roundtrip [of "''8''" "Some ''OpenJ9''" "''x64''" "''linux''" "''_8u181b13''"
      "\<lparr>ts_year = ''2018'', ts_month = ''08'', ts_day = ''06'', ts_hour = ''18'', ts_minute = ''22''\<rparr>"
      "''tar.gz''" True "''u''" 7 "\<lparr>tag_name = ''jdk8u181-b13'', published_at = [], assets = []\<rparr>"]
  by (simp add: number_ok_def word_ok_def filler_ok_def tstamp_ok_def digits_n_def ext_ok_def
    old_style_name_def old_tstamp_def js_simps)



text \<open>
  C26. The file-name patterns are not anchored at the end: an asset whose name extends the
  name of a binary (a detached signature \<^verbatim>\<open>.tar.gz.sig\<close>, an \<^verbatim>\<open>.asc\<close>, any
  suffix) is a second binary unless its name ends with \<^verbatim>\<open>sha256.txt\<close>. A release
  publishing an archive and such a companion has two binaries, and a binary request that
  selects it is answered 400 \<^verbatim>\<open>Multiple binaries\<close> instead of the redirect.
\<close>

theorem extended_name_second_binary:
  assumes "kept_asset rel a" "name a' = name a @ x" "\<not> ends_with (name a') ''sha256.txt''"
    "assets rel = [a, a']"
  shows "map binary_name (binaries (githubReleaseToAdoptRelease rel)) = [name a, name a'] \<and>
         (\<exists>bs. redirectToRelease (githubReleaseToAdoptRelease rel) = Inr (SendJson 400 ambiguous_prefix (PBinaries bs)))"
proof -
  have fb: "formBinaryAssetInfo a rel \<noteq> None"
    using assms(1) by (simp add: kept_asset_def)
  then have "formBinaryAssetInfo a' rel \<noteq> None"
    using parsers_append_name(1,2) [where nm="name a" and x=x] parsers_append_name(3) [where nm="name a" and x=x and rel=rel] assms(2)
    by (auto simp: formBinaryAssetInfo_None_iff)
  with assms(3) have "kept_asset rel a'"
    by (simp add: kept_asset_def)
  with assms(1,4) have b: "binaries (githubReleaseToAdoptRelease rel) =
      [the (formBinaryAssetInfo a rel), the (formBinaryAssetInfo a' rel)]"
    by (simp add: binaries_githubReleaseToAdoptRelease)
  have "binary_name (the (formBinaryAssetInfo a rel)) = name a"
    "binary_name (the (formBinaryAssetInfo a' rel)) = name a'"
    using formBinaryAssetInfo_Some fb \<open>formBinaryAssetInfo a' rel \<noteq> None\<close> by fastforce+
  with b show ?thesis
    by (simp add: redirectToRelease_def)
qed

lemma extended_name_second_binary_witness:
  "kept_asset sig_release (hd (assets sig_release)) \<and>
   name (last (assets sig_release)) = name (hd (assets sig_release)) @ ''.sig'' \<and>
   \<not> ends_with (name (last (assets sig_release))) ''sha256.txt'' \<and>
   assets sig_release = [hd (assets sig_release), last (assets sig_release)] \<and>
   map binary_name (binaries (githubReleaseToAdoptRelease sig_release)) =
     [''OpenJDK8U_x64_linux_hotspot_2020-01-01-00-00.tar.gz'', ''OpenJDK8U_x64_linux_hotspot_2020-01-01-00-00.tar.gz.sig'']"
proof -
  have k: "kept_asset sig_release (hd (assets sig_release))"
    by (simp add: kept_asset_def sig_release_def formBinaryAssetInfo_def getNewStyleFileInfo_def ends_with_def
        js_simps)
  have n: "name (last (assets sig_release)) = name (hd (assets sig_release)) @ ''.sig''"
    and e: "\<not> ends_with (name (last (assets sig_release))) ''sha256.txt''"
    and l: "assets sig_release = [hd (assets sig_release), last (assets sig_release)]"
    by (simp_all add: sig_release_def ends_with_def)
  show ?thesis
    using extended_name_second_binary [OF k n e l] k n e l by (simp add: sig_release_def)
qed

text \<open>
  C19. Round trip of the Amber naming convention through the normalizer: the new-style
  pattern rejects an Amber name (one dash), the old-style pattern rejects it (no version
  digit after \<^verbatim>\<open>OpenJDK\<close>, when architecture and OS contain no capital O), so
  \<^verbatim>\<open>formBinaryAssetInfo\<close> builds the binary from \<^verbatim>\<open>getAmberStyleFileInfo\<close>: the
  version from the release tag, type \<^verbatim>\<open>jdk\<close>, implementation \<^verbatim>\<open>hotspot\<close>, and the
  architecture and OS lowercased.
\<close>

theorem formBinaryAssetInfo_amber_style_roundtrip:
  assumes "number_ok v" "r = [] \<or> \<not> is_digit (hd r)" "tag_name rel = amber_tag v r"
    "word_ok arc" "word_ok osn" "CHR ''O'' \<notin> set arc" "CHR ''O'' \<notin> set osn" "tstamp_ok t" "ext_ok e"
  shows "formBinaryAssetInfo
      \<lparr>name = amber_style_name arc osn t e, browser_download_url = url, asset_size = sz\<rparr> rel =
    Some \<lparr>os = to_lower osn, architecture = to_lower arc, binaryType = ''jdk'', openjdk_impl = ''hotspot'',
          binary_name = amber_style_name arc osn t e,
          binary_link = url, binary_size = sz, checksum_link = url @ ''.sha256.txt'', version = v\<rparr>"
proof -
  have "getNewStyleFileInfo (amber_style_name arc osn t e) = None"
    using FileNames.count_list_amber_style_name [OF assms(4,5,8,9)]
    by (intro FileNames.getNewStyleFileInfo_few_dashes) simp
  moreover have "getOldStyleFileInfo (amber_style_name arc osn t e) = None"
    using FileNames.getOldStyleFileInfo_needs_digit FileNames.amber_name_no_OpenJDK_digit [OF _ assms(6-9)]
    by blast
  moreover have "to_lower ''hotspot'' = ''hotspot''"
    by (simp add: js_simps)
  ultimately show ?thesis
    using FileNames.getAmberStyleFileInfo_amber_style_name [OF assms(1-5,8,9)]
    by (simp add: formBinaryAssetInfo_def)
qed

lemma formBinaryAssetInfo_amber_style_roundtrip_witness:
  "number_ok ''11'' \<and> (''+28'' = [] \<or> \<not> is_digit (hd ''+28'')) \<and>
   tag_name \<lparr>tag_name = ''jdk-11+28'', published_at = [], assets = []\<rparr> = amber_tag ''11'' ''+28'' \<and>
   word_ok ''x64'' \<and> word_ok ''Linux'' \<and> CHR ''O'' \<notin> set ''x64'' \<and> CHR ''O'' \<notin> set ''Linux'' \<and>
   tstamp_ok \<lparr>ts_year = ''2018'', ts_month = ''09'', ts_day = ''26'', ts_hour = ''10'', ts_minute = ''05''\<rparr> \<and>
   ext_ok ''zip'' \<and>
   formBinaryAssetInfo
     \<lparr>name = amber_style_name ''x64'' ''Linux''
        \<lparr>ts_year = ''2018'', ts_month = ''09'', ts_day = ''26'', ts_hour = ''10'', ts_minute = ''05''\<rparr> ''zip'',
      browser_download_url = ''u'', asset_size = 7\<rparr>
     \<lparr>tag_name = ''jdk-11+28'', published_at = [], assets = []\<rparr> =
   Some \<lparr>os = ''linux'', architecture = ''x64'', binaryType = ''jdk'', openjdk_impl = ''hotspot'',
     binary_name = ''OpenJDK-AMBER_x64_Linux_201809261005.zip'',
     binary_link = ''u'', binary_size = 7, checksum_link = ''u.sha256.txt'', version = ''11''\<rparr>"
  using formBinaryAssetInfo_amber_style_roundtrip [of "''11''" "''+28''" "\<lparr>tag_name = ''jdk-11+28'', published_at = [], assets = []\<rparr>"
      "''x64''" "''Linux''" "\<lparr>ts_year = ''2018'', ts_month = ''09'', ts_day = ''26'', ts_hour = ''10'', ts_minute = ''05''\<rparr>"
      "''zip''" "''u''" 7]
  by (simp add: number_ok_def word_ok_def tstamp_ok_def digits_n_def ext_ok_def amber_tag_def
    amber_style_name_def old_tstamp_def js_simps)

text \<open>
  C27. Every binary the v2 route serves, after any combination of query filters, is well
  formed: its OS, architecture and implementation are lower case, its type is \<^verbatim>\<open>jdk\<close>
  or \<^verbatim>\<open>jre\<close>, and its checksum link is the binary link with \<^verbatim>\<open>.sha256.txt\<close> appended.
\<close>

theorem property_filters_wf:
  "list_all (\<lambda>r. list_all Normalizer.binary_wf (binaries r)) (property_filters q githubData)"
proof -
  have "binary_wf b" if rb: "r \<in> set (property_filters q githubData)" "b \<in> set (binaries r)" for r b
  proof -
    obtain r0 where "r0 \<in> set (githubDataToAdoptApi githubData)" "b \<in> set (binaries r0)"
      using property_filters_binary [OF rb] by blast
    then show ?thesis
      using githubDataToAdoptApi_wf [of githubData] by (auto simp: list_all_iff)
  qed
  then show ?thesis
    by (auto simp: list_all_iff)
qed

text \<open>
  C34. Composition of the server with the v2 handler: provided the other routes answer
  every request they take, the application leaves a request unanswered (the client
  waits until it times out) exactly when it is a GET or HEAD request of a client under its
  limit, for no static file, that no other route takes, whose path routes to the v2
  handler with all three parameters and whose upstream fetch succeeds, and then a
  property filter of its query is an array or object, or the release name is one and
  some release survives the filters, or \<^verbatim>\<open>release=latest\<close> is asked in mode info or
  binary and no release survives. Every other request gets an answer.
\<close>

theorem app_handle_unanswered:
  assumes "\<forall>r'. other_route s r' \<noteq> Some NoResponse"
  shows "out_body (snd (app_handle opts s f st r)) = Routed NoResponse \<longleftrightarrow>
     (max_hits opts = 0 \<or> hits st (req_ip r) < max_hits opts) \<and> is_get (req_method r) \<and>
     req_path r \<notin> set (static_files s) \<and> other_route s r = None \<and>
     (\<exists>rp rt bt ver data. v2_route (req_path r) = Some rp \<and> requestType rp = Some rt \<and>
        buildtype rp = Some bt \<and> route_version rp = Some ver \<and> f ver bt = Inr data \<and>
        (nonstring_filter (req_query r) \<or>
         jq_release (req_query r) = Some QNonString \<and> property_filters (query_of (req_query r)) data \<noteq> [] \<or>
         (rt = ''info'' \<or> rt = ''binary'') \<and> jq_release (req_query r) = Some (QStr ''latest'') \<and>
           property_filters (query_of (req_query r)) data = []))"
  unfolding app_handle_NoResponse_route [OF assms] v2_js_NoResponse_on_data on_data_js_Inl_iff
  by blast

lemma app_handle_unanswered_witness:
  "(\<forall>r'. other_route example_site r' \<noteq> Some NoResponse) \<and>
   out_body (snd (app_handle server_rate_limit example_site (\<lambda>_ _. Inl InternalError) \<lparr>hits = (\<lambda>_. 0)\<rparr>
     \<lparr>req_ip = ''a'', req_method = GET, req_path = ''/v2/binary/releases/openjdk8'',
      req_query = \<lparr>jq_openjdkImpl = None, jq_os = Some QNonString, jq_arch = None, jq_release = None,
        jq_type = None\<rparr>\<rparr>)) \<noteq> Routed NoResponse \<and>
   out_body (snd (app_handle server_rate_limit example_site (\<lambda>_ _. Inr []) \<lparr>hits = (\<lambda>_. 0)\<rparr>
     \<lparr>req_ip = ''a'', req_method = GET, req_path = ''/v2/binary/releases/openjdk8'',
      req_query = \<lparr>jq_openjdkImpl = None, jq_os = Some QNonString, jq_arch = None, jq_release = None,
        jq_type = None\<rparr>\<rparr>)) = Routed NoResponse"
proof -
  have rt: "v2_route ''/v2/binary/releases/openjdk8'' =
      Some \<lparr>requestType = Some ''binary'', buildtype = Some ''releases'', route_version = Some ''openjdk8''\<rparr>"
    by (simp add: v2_route_def js_simps eval_nat_numeral)
  have site: "\<forall>r'. other_route example_site r' \<noteq> Some NoResponse"
    by (simp add: example_site_def)
  show ?thesis
    using app_handle_unanswered [OF site, of server_rate_limit "\<lambda>_ _. Inl InternalError" "\<lparr>hits = (\<lambda>_. 0)\<rparr>"
        "\<lparr>req_ip = ''a'', req_method = GET, req_path = ''/v2/binary/releases/openjdk8'',
          req_query = \<lparr>jq_openjdkImpl = None, jq_os = Some QNonString, jq_arch = None, jq_release = None,
            jq_type = None\<rparr>\<rparr>"]
      app_handle_unanswered [OF site, of server_rate_limit "\<lambda>_ _. Inr []" "\<lparr>hits = (\<lambda>_. 0)\<rparr>"
        "\<lparr>req_ip = ''a'', req_method = GET, req_path = ''/v2/binary/releases/openjdk8'',
          req_query = \<lparr>jq_openjdkImpl = None, jq_os = Some QNonString, jq_arch = None, jq_release = None,
            jq_type = None\<rparr>\<rparr>"] rt site
    by (simp add: server_rate_limit_def is_get_def example_site_def nonstring_filter_def)
qed

text \<open>
  C35. A legacy-style JRE archive (\<^verbatim>\<open>OpenJDK8U-jre_x64_linux_..._201801011200.tar.gz\<close>)
  is normalized as a JDK whose implementation is \<^verbatim>\<open>jre\<close>: the legacy pattern has no
  JRE marker, so the \<^verbatim>\<open>-jre\<close> suffix is read as the implementation group and the
  binary type is always \<^verbatim>\<open>jdk\<close>. A client asking for \<^verbatim>\<open>type=jre\<close> never gets
  such an archive, and \<^verbatim>\<open>openjdk_impl=jre\<close> selects it.
\<close>

theorem legacy_jre_archive:
  assumes "number_ok v" "word_ok arc" "word_ok osn" "filler_ok f" "count_list f CHR ''-'' < 3"
    "tstamp_ok t" "ext_ok e"
  shows "filterReleaseOnBinaryProperty
           (githubDataToAdoptApi [single_release tg ts
              \<lparr>name = old_style_name v u (Some ''jre'') arc osn f t e, browser_download_url = url, asset_size = sz\<rparr>])
           P_binaryType (Some ''jre'') = [] \<and>
         map (\<lambda>r. map openjdk_impl (binaries r))
           (filterReleaseOnBinaryProperty
             (githubDataToAdoptApi [single_release tg ts
                \<lparr>name = old_style_name v u (Some ''jre'') arc osn f t e, browser_download_url = url, asset_size = sz\<rparr>])
             P_openjdk_impl (Some ''JRE'')) = [[''jre'']]"
proof -
  let ?nm = "old_style_name v u (Some ''jre'') arc osn f t e"
  let ?a = "\<lparr>name = ?nm, browser_download_url = url, asset_size = sz\<rparr>"
  have jre: "word_ok ''jre''"
    by (simp add: word_ok_def js_simps)
  have low: "to_lower ''jre'' = ''jre''"
    by (simp add: js_simps)
  have "count_list ?nm CHR ''-'' < 4"
    using FileNames.count_list_old_style_name [OF assms(1) _ assms(2,3,6,7), of "Some ''jre''" u f] jre assms(5)
    by simp
  then have "getNewStyleFileInfo ?nm = None"
    by (rule FileNames.getNewStyleFileInfo_few_dashes)
  moreover obtain m where "str_match old_style_re ?nm = Some m" "cap ?nm m 1 = Some v"
    "cap ?nm m 2 = Some ''-jre''" "cap ?nm m 3 = Some arc" "cap ?nm m 4 = Some osn"
    "cap ?nm m 5 = Some (old_tstamp t)" "cap ?nm m 6 = Some e"
    using FileNames.old_style_name_caps [OF assms(1) _ assms(2-4,6,7), of "Some ''jre''" u] jre by auto
  ultimately have fb: "formBinaryAssetInfo ?a (single_release tg ts ?a) =
      Some \<lparr>os = to_lower osn, architecture = to_lower arc, binaryType = ''jdk'', openjdk_impl = ''jre'',
        binary_name = ?nm, binary_link = url, binary_size = sz, checksum_link = url @ ''.sha256.txt'', version = v\<rparr>"
    using low by (simp add: formBinaryAssetInfo_def getOldStyleFileInfo_def)
  have "\<not> ends_with ?nm ''sha256.txt''"
    by (rule FileNames.old_style_name_not_checksum [OF assms(7)])
  with fb show ?thesis
    by (simp add: githubDataToAdoptApi_def githubReleaseToAdoptRelease_def single_release_def
        filterReleaseOnBinaryProperty_def filterReleaseBinaries_def js_simps)
qed

lemma legacy_jre_archive_witness:
  "number_ok ''8'' \<and> word_ok ''x64'' \<and> word_ok ''linux'' \<and> filler_ok [] \<and> count_list [] CHR ''-'' < 3 \<and>
   tstamp_ok \<lparr>ts_year = ''2018'', ts_month = ''01'', ts_day = ''01'', ts_hour = ''12'', ts_minute = ''00''\<rparr> \<and>
   ext_ok ''tar.gz'' \<and>
   filterReleaseOnBinaryProperty
     (githubDataToAdoptApi [single_release ''jdk8u152-b16'' ''2018-01-01T12:00:00Z''
        \<lparr>name = old_style_name ''8'' True (Some ''jre'') ''x64'' ''linux'' []
           \<lparr>ts_year = ''2018'', ts_month = ''01'', ts_day = ''01'', ts_hour = ''12'', ts_minute = ''00''\<rparr> ''tar.gz'',
         browser_download_url = ''u'', asset_size = 7\<rparr>])
     P_binaryType (Some ''jre'') = []"
  using legacy_jre_archive [of "''8''" "''x64''" "''linux''" "[]"
      "\<lparr>ts_year = ''2018'', ts_month = ''01'', ts_day = ''01'', ts_hour = ''12'', ts_minute = ''00''\<rparr>"
      "''tar.gz''" "''jdk8u152-b16''" "''2018-01-01T12:00:00Z''" True "''u''" 7]
  by (simp add: number_ok_def word_ok_def filler_ok_def tstamp_ok_def digits_n_def ext_ok_def js_simps)

end
